theory Spec2Isabelle
  imports Main "HOL-Library.Sublist" "HOL-Library.AList"
begin

section \<open>Python values and the string operations the source uses\<close>

text \<open>
  The routers, chat handlers and tools exchange JSON-shaped Python values. A dictionary
  is kept as an association list in insertion order; a lookup is \<open>map_of\<close>, an
  assignment \<open>d[k] = v\<close> is \<open>AList.update\<close> (the key keeps its place, a new key
  goes last). JSON numbers are the integers; floating point numbers are not modelled.

  A Python string is kept as the bytes of its UTF-8 encoding: an ASCII character is one
  \<open>char\<close>, any other code point the two to four bytes that encode it. In UTF-8 no
  character's bytes begin or end inside another's, so \<open>in\<close>, \<open>split\<close> and
  concatenation are the same on the bytes as on the code points.
\<close>

datatype json =
    JNull
  | JBool bool
  | JInt int
  | JStr string
  | JList "json list"
  | JDict "(string \<times> json) list"

text \<open>Python truthiness, as \<open>if not operation\<close> and \<open>if environment_variables\<close> read it.\<close>

fun truthy :: "json \<Rightarrow> bool" where
  "truthy JNull = False"
| "truthy (JBool b) = b"
| "truthy (JInt n) = (n \<noteq> 0)"
| "truthy (JStr s) = (s \<noteq> [])"
| "truthy (JList xs) = (xs \<noteq> [])"
| "truthy (JDict kvs) = (kvs \<noteq> [])"

text \<open>\<open>sub in s\<close> on strings: \<open>sub\<close> occurs in \<open>s\<close> as a contiguous run.\<close>

fun py_in :: "string \<Rightarrow> string \<Rightarrow> bool" where
  "py_in sub [] = (sub = [])"
| "py_in sub (c # cs) = (prefix sub (c # cs) \<or> py_in sub cs)"

text \<open>
  \<open>s.split(sep)\<close> for a non-empty separator: the pieces between the occurrences of
  \<open>sep\<close>, found from the left. The source only splits at the two literal code fences.
\<close>

fun py_split_from :: "string \<Rightarrow> string \<Rightarrow> string \<Rightarrow> string list" where
  "py_split_from sep acc [] = [acc]"
| "py_split_from sep acc (c # cs) =
     (if sep \<noteq> [] \<and> prefix sep (c # cs)
      then acc # py_split_from sep [] (drop (length sep) (c # cs))
      else py_split_from sep (acc @ [c]) cs)"

definition py_split :: "string \<Rightarrow> string \<Rightarrow> string list" where
  "py_split s sep = py_split_from sep [] s"

text \<open>
  \<open>xs[i]\<close> raises IndexError out of range; the exception is carried as its message,
  which is all the \<open>except Exception as e\<close> handlers read (\<open>str(e)\<close>).
\<close>

definition py_index :: "'a list \<Rightarrow> nat \<Rightarrow> string + 'a" where
  "py_index xs i = (if i < length xs then Inr (xs ! i) else Inl ''list index out of range'')"

text \<open>
  \<open>s.strip()\<close> removes white space from both ends. White space is what
  \<open>str.isspace\<close> accepts: the ASCII characters U+0009 to U+000D, U+001C to U+001F and
  the blank, and the code points U+0085, U+00A0, U+1680, U+2000 to U+200A, U+2028, U+2029,
  U+202F, U+205F and U+3000, here by their UTF-8 encodings.
\<close>

definition py_whitespace :: "string list" where
  "py_whitespace =
     [[CHR 0x09], [CHR 0x0A], [CHR 0x0B], [CHR 0x0C], [CHR 0x0D], [CHR 0x1C],
      [CHR 0x1D], [CHR 0x1E], [CHR 0x1F], [CHR 0x20], [CHR 0xC2, CHR 0x85],
      [CHR 0xC2, CHR 0xA0], [CHR 0xE1, CHR 0x9A, CHR 0x80],
      [CHR 0xE2, CHR 0x80, CHR 0x80], [CHR 0xE2, CHR 0x80, CHR 0x81],
      [CHR 0xE2, CHR 0x80, CHR 0x82], [CHR 0xE2, CHR 0x80, CHR 0x83],
      [CHR 0xE2, CHR 0x80, CHR 0x84], [CHR 0xE2, CHR 0x80, CHR 0x85],
      [CHR 0xE2, CHR 0x80, CHR 0x86], [CHR 0xE2, CHR 0x80, CHR 0x87],
      [CHR 0xE2, CHR 0x80, CHR 0x88], [CHR 0xE2, CHR 0x80, CHR 0x89],
      [CHR 0xE2, CHR 0x80, CHR 0x8A], [CHR 0xE2, CHR 0x80, CHR 0xA8],
      [CHR 0xE2, CHR 0x80, CHR 0xA9], [CHR 0xE2, CHR 0x80, CHR 0xAF],
      [CHR 0xE2, CHR 0x81, CHR 0x9F], [CHR 0xE3, CHR 0x80, CHR 0x80]]"

text \<open>The rest of \<open>s\<close> after the first of the sequences \<open>ws\<close> it begins with.\<close>

fun strip_one :: "string list \<Rightarrow> string \<Rightarrow> string option" where
  "strip_one [] s = None"
| "strip_one (w # ws) s =
     (if w \<noteq> [] \<and> prefix w s then Some (drop (length w) s) else strip_one ws s)"

function strip_left :: "string list \<Rightarrow> string \<Rightarrow> string" where
  "strip_left ws s = (case strip_one ws s of None \<Rightarrow> s | Some r \<Rightarrow> strip_left ws r)"
  by pat_completeness auto
termination
proof (relation "measure (\<lambda>(ws, s). length s)")
  show "wf (measure (\<lambda>(ws, s). length s))" by simp
next
  fix ws :: "string list" and s r :: string
  assume "strip_one ws s = Some r"
  then have "length r < length s"
  proof (induction ws)
    case Nil
    then show ?case by simp
  next
    case (Cons w ws)
    show ?case
    proof (cases "w \<noteq> [] \<and> prefix w s")
      case True
      then obtain t where "s = w @ t" by (auto simp: prefix_def)
      with True Cons.prems show ?thesis by auto
    next
      case False
      with Cons show ?thesis by auto
    qed
  qed
  then show "((ws, r), (ws, s)) \<in> measure (\<lambda>(ws, s). length s)" by simp
qed

declare strip_left.simps [simp del]

text \<open>
  White space is stripped from the left, then from the right; at the right end the
  encodings are read backwards.
\<close>

definition py_lstrip :: "string \<Rightarrow> string" where
  "py_lstrip s = strip_left py_whitespace s"

definition py_rstrip :: "string \<Rightarrow> string" where
  "py_rstrip s = rev (strip_left (map rev py_whitespace) (rev s))"

definition py_strip :: "string \<Rightarrow> string" where
  "py_strip s = py_rstrip (py_lstrip s)"

text \<open>
  \<open>s[:n]\<close>: the first \<open>n\<close> characters. A byte \<open>10xxxxxx\<close> continues a character,
  every other byte begins one.
\<close>

definition continuation :: "char \<Rightarrow> bool" where
  "continuation c = (digit7 c \<and> \<not> digit6 c)"

fun py_take :: "nat \<Rightarrow> string \<Rightarrow> string" where
  "py_take n [] = []"
| "py_take n (c # cs) =
     (if continuation c then c # py_take n cs
      else case n of 0 \<Rightarrow> [] | Suc m \<Rightarrow> c # py_take m cs)"

text \<open>
  \<open>s.lower()\<close>, on the ASCII letters. The source lowers a name only to look for
  \<open>blog\<close> and \<open>sample\<close> in it. \<open>str.lower\<close> also maps letters outside ASCII;
  their lower case holds an ASCII letter for U+0130 and U+212A only, which give \<open>i\<close> and
  \<open>k\<close>, so the two searches find the same on the bytes lowered here.
\<close>

definition lower_char :: "char \<Rightarrow> char" where
  "lower_char c =
     (case map_of (zip ''ABCDEFGHIJKLMNOPQRSTUVWXYZ'' ''abcdefghijklmnopqrstuvwxyz'') c of
        Some l \<Rightarrow> l
      | None \<Rightarrow> c)"

definition py_lower :: "string \<Rightarrow> string" where
  "py_lower s = map lower_char s"

text \<open>\<open>str(n)\<close> of an integer: its decimal digits.\<close>

definition digit_char :: "nat \<Rightarrow> char" where
  "digit_char d = ''0123456789'' ! d"

fun digits :: "nat \<Rightarrow> string" where
  "digits n = (if n < 10 then [digit_char n] else digits (n div 10) @ [digit_char (n mod 10)])"

definition str_int :: "int \<Rightarrow> string" where
  "str_int i = (if i < 0 then CHR ''-'' # digits (nat (- i)) else digits (nat i))"

text \<open>
  \<open>str(v)\<close> of a JSON-shaped value. A string is itself, an integer its digits; the
  \<open>repr\<close> Python prints for a list or a dictionary is left to the parameter \<open>repr\<close>.
\<close>

fun py_str :: "(json \<Rightarrow> string) \<Rightarrow> json \<Rightarrow> string" where
  "py_str repr (JStr s) = s"
| "py_str repr (JInt i) = str_int i"
| "py_str repr (JBool b) = (if b then ''True'' else ''False'')"
| "py_str repr JNull = ''None''"
| "py_str repr v = repr v"

section \<open>The command router (web-ui/app.py)\<close>

text \<open>
  One pass through the body of the retry loop first calls the oracle and reads the text
  of its answer (\<open>invoke_model\<close>, \<open>json.loads(response['body'].read())\<close>,
  \<open>result['content'][0]['text']\<close>). Whatever goes wrong there is an exception, seen by
  the handler only as \<open>str(e)\<close>: the outcome of these lines is either \<open>Raises\<close> with
  that message or the text.
\<close>

datatype invoke_outcome = Raises string | Text string

text \<open>
  The router then strips an optional code fence around the text: the piece after the
  first \<open>```json\<close> (or else after the first \<open>```\<close>) up to the next fence, stripped.
\<close>

definition fence_json :: string where
  "fence_json = [CHR 0x60, CHR 0x60, CHR 0x60] @ ''json''"

definition fence :: string where
  "fence = [CHR 0x60, CHR 0x60, CHR 0x60]"

definition extract_json :: "string \<Rightarrow> string + string" where
  "extract_json content =
     (if py_in fence_json content then
        (case py_index (py_split content fence_json) 1 of
           Inl e \<Rightarrow> Inl e
         | Inr rest \<Rightarrow>
             (case py_index (py_split rest fence) 0 of
                Inl e \<Rightarrow> Inl e
              | Inr body \<Rightarrow> Inr (py_strip body)))
      else if py_in fence content then
        (case py_index (py_split content fence) 1 of
           Inl e \<Rightarrow> Inl e
         | Inr rest \<Rightarrow>
             (case py_index (py_split rest fence) 0 of
                Inl e \<Rightarrow> Inl e
              | Inr body \<Rightarrow> Inr (py_strip body)))
      else Inr content)"

text \<open>
  \<open>json.loads\<close> is the parameter \<open>loads\<close>: the parsed value, or the message of the
  exception it raises. One attempt yields the routing decision or the message of the
  exception that ended it.
\<close>

definition route_attempt :: "(string \<Rightarrow> string + json) \<Rightarrow> invoke_outcome \<Rightarrow> string + json" where
  "route_attempt loads out =
     (case out of
        Raises e \<Rightarrow> Inl e
      | Text content \<Rightarrow>
          (case extract_json content of
             Inl e \<Rightarrow> Inl e
           | Inr c \<Rightarrow> loads c))"

definition max_retries :: nat where
  "max_retries = 5"

definition base_delay :: nat where
  "base_delay = 3"

definition is_throttling :: "string \<Rightarrow> bool" where
  "is_throttling error_str =
     (py_in ''ServiceUnavailableException'' error_str
      \<or> py_in ''Too many connections'' error_str
      \<or> py_in ''ThrottlingException'' error_str)"

text \<open>
  A run of a router: the dictionary it returns, the calls it made to the oracle and the
  delays it slept, in order.
\<close>

record route_run =
  decision :: json
  oracle_calls :: nat
  sleeps :: "nat list"

text \<open>
  The retry loop, shared word for word by the two routers. They differ in the prompt
  (which the oracle, the function \<open>oracle\<close> from the attempt number to the outcome of the
  call, stands for) and in the two error dictionaries: \<open>failed\<close> builds the one of the
  handler, \<open>exhausted\<close> is the one after the loop.
\<close>

function route_loop ::
  "(string \<Rightarrow> json) \<Rightarrow> json \<Rightarrow> (string \<Rightarrow> string + json) \<Rightarrow> (nat \<Rightarrow> invoke_outcome)
     \<Rightarrow> nat \<Rightarrow> nat \<Rightarrow> nat list \<Rightarrow> route_run" where
  "route_loop failed exhausted loads oracle attempt calls slept =
     (if attempt < max_retries then
        (case route_attempt loads (oracle attempt) of
           Inr routing_decision \<Rightarrow>
             \<lparr>decision = routing_decision, oracle_calls = calls + 1, sleeps = slept\<rparr>
         | Inl error_str \<Rightarrow>
             if is_throttling error_str \<and> attempt < max_retries - 1
             then route_loop failed exhausted loads oracle (attempt + 1) (calls + 1)
                    (slept @ [base_delay * 2 ^ attempt])
             else \<lparr>decision = failed error_str, oracle_calls = calls + 1, sleeps = slept\<rparr>)
      else \<lparr>decision = exhausted, oracle_calls = calls, sleeps = slept\<rparr>)"
  by pat_completeness auto
termination
  by (relation "measure (\<lambda>(failed, exhausted, loads, oracle, attempt, calls, slept). max_retries - attempt)")
     auto

definition ecs_failed :: "string \<Rightarrow> json" where
  "ecs_failed error_str =
     JDict [(''operation'', JStr ''error''),
            (''arguments'', JDict []),
            (''reasoning'', JStr (''Failed to route command after '' @ str_int (int max_retries)
                                   @ '' attempts: '' @ error_str))]"

definition ecs_exhausted :: json where
  "ecs_exhausted =
     JDict [(''operation'', JStr ''error''),
            (''arguments'', JDict []),
            (''reasoning'', JStr ''Failed to route command: Bedrock service unavailable after retries'')]"

definition llm_route_ecs_command :: "(string \<Rightarrow> string + json) \<Rightarrow> (nat \<Rightarrow> invoke_outcome) \<Rightarrow> route_run" where
  "llm_route_ecs_command loads oracle = route_loop ecs_failed ecs_exhausted loads oracle 0 0 []"

definition eks_failed :: "string \<Rightarrow> json" where
  "eks_failed error_str =
     JDict [(''tool_name'', JStr ''error''),
            (''arguments'', JDict []),
            (''reasoning'', JStr (''Failed to route command after '' @ str_int (int max_retries)
                                   @ '' attempts: '' @ error_str)),
            (''needs_build'', JBool False)]"

definition eks_exhausted :: json where
  "eks_exhausted =
     JDict [(''tool_name'', JStr ''error''),
            (''arguments'', JDict []),
            (''reasoning'', JStr ''Failed to route command: Bedrock service unavailable after retries''),
            (''needs_build'', JBool False)]"

definition llm_route_eks_command :: "(string \<Rightarrow> string + json) \<Rightarrow> (nat \<Rightarrow> invoke_outcome) \<Rightarrow> route_run" where
  "llm_route_eks_command loads oracle = route_loop eks_failed eks_exhausted loads oracle 0 0 []"

declare route_loop.simps [simp del]

text \<open>
  An attempt is throttled when it ends in an exception whose message carries one of the
  three overload markers. \<open>backoff\<close> is the delay the handler computes for an attempt.
\<close>

definition throttled :: "(string \<Rightarrow> string + json) \<Rightarrow> (nat \<Rightarrow> invoke_outcome) \<Rightarrow> nat \<Rightarrow> bool" where
  "throttled loads oracle i =
     (case route_attempt loads (oracle i) of Inl e \<Rightarrow> is_throttling e | Inr d \<Rightarrow> False)"

definition backoff :: "nat \<Rightarrow> nat" where
  "backoff attempt = base_delay * 2 ^ attempt"

text \<open>\<open>d.get(key)\<close> on a routing decision; \<open>None\<close> when the value is no dictionary.\<close>

fun field :: "string \<Rightarrow> json \<Rightarrow> json option" where
  "field k (JDict kvs) = map_of kvs k"
| "field k v = None"

section \<open>Exceptions and the cloud provider's clients\<close>

text \<open>
  The exceptions the handlers tell apart: botocore's \<open>ClientError\<close>, its subclass for
  a repository that already exists, the Kubernetes client's \<open>ApiException\<close> (status,
  reason, text) and every other exception. Each carries the text \<open>str(e)\<close> gives.
\<close>

datatype py_exn =
    ClientError string
  | RepositoryAlreadyExistsException string
  | ApiException int string string
  | PyException string

fun str_exn :: "py_exn \<Rightarrow> string" where
  "str_exn (ClientError m) = m"
| "str_exn (RepositoryAlreadyExistsException m) = m"
| "str_exn (ApiException st reason m) = m"
| "str_exn (PyException m) = m"

text \<open>\<open>except cfn.exceptions.ClientError\<close> catches the class and its subclasses.\<close>

fun is_client_error :: "py_exn \<Rightarrow> bool" where
  "is_client_error (ClientError m) = True"
| "is_client_error (RepositoryAlreadyExistsException m) = True"
| "is_client_error e = False"

text \<open>\<open>not s\<close> for an optional string argument: \<open>None\<close> or the empty string.\<close>

fun falsy :: "string option \<Rightarrow> bool" where
  "falsy None = True"
| "falsy (Some s) = (s = [])"

fun opt_json :: "string option \<Rightarrow> json" where
  "opt_json None = JNull"
| "opt_json (Some s) = JStr s"

subsection \<open>The container registry\<close>

text \<open>
  The registry holds the repositories of each region by name. Creating a repository
  whose name is taken raises \<open>RepositoryAlreadyExistsException\<close>; \<open>mk\<close> is the
  description the registry gives a new repository.
\<close>

record repository =
  repositoryUri :: string
  repositoryArn :: string

type_synonym registry = "string \<times> string \<Rightarrow> repository option"

definition ecr_create_repository ::
  "(string \<Rightarrow> string \<Rightarrow> repository) \<Rightarrow> registry \<Rightarrow> string \<Rightarrow> string \<Rightarrow> (py_exn + repository) \<times> registry" where
  "ecr_create_repository mk reg region name =
     (case reg (region, name) of
        Some r \<Rightarrow>
          (Inl (RepositoryAlreadyExistsException
                  (''The repository with name '' @ name @ '' already exists'')), reg)
      | None \<Rightarrow> (Inr (mk region name), reg((region, name) \<mapsto> mk region name)))"

definition ecr_describe_repositories :: "registry \<Rightarrow> string \<Rightarrow> string list \<Rightarrow> py_exn + repository list" where
  "ecr_describe_repositories reg region names =
     (if \<forall>n \<in> set names. reg (region, n) \<noteq> None
      then Inr (map (\<lambda>n. the (reg (region, n))) names)
      else Inl (ClientError ''The repository does not exist''))"

subsection \<open>CloudFormation\<close>

record stack =
  StackStatus :: string
  StackStatusReason :: "string option"
  Outputs :: "(string \<times> string) list option"

text \<open>An event of a stack; \<open>Timestamp\<close> is the text \<open>isoformat()\<close> gives.\<close>

record stack_event =
  Timestamp :: string
  LogicalResourceId :: "string option"
  ResourceType :: "string option"
  ResourceStatus :: "string option"
  ResourceStatusReason :: "string option"

text \<open>
  A CloudFormation client answers each call with a value or an exception. The calls a
  function makes are kept in order, to show which requests reach the provider.
\<close>

record cfn_client =
  describe_stacks :: "string \<Rightarrow> py_exn + stack list"
  describe_stack_events :: "string \<Rightarrow> py_exn + stack_event list"
  delete_stack :: "string \<Rightarrow> py_exn + unit"
  create_stack :: "string \<Rightarrow> json \<Rightarrow> py_exn + string"

datatype cfn_call =
    DescribeStacks string
  | DescribeStackEvents string
  | DeleteStack string
  | CreateStack string json

text \<open>
  The provider seen as a table of stacks (with their events): a stack that is not in the
  table is answered with the \<open>ClientError\<close> CloudFormation raises for it; creating a
  stack whose name is in the table is refused.
\<close>

definition stack_missing :: "string \<Rightarrow> py_exn" where
  "stack_missing name =
     ClientError (''An error occurred (ValidationError) when calling the DescribeStacks operation: ''
                  @ ''Stack with id '' @ name @ '' does not exist'')"

definition cfn_of :: "(string \<Rightarrow> (stack \<times> stack_event list) option) \<Rightarrow> cfn_client" where
  "cfn_of stacks =
     \<lparr>describe_stacks = (\<lambda>name. case stacks name of
                                   None \<Rightarrow> Inl (stack_missing name)
                                 | Some (st, evs) \<Rightarrow> Inr [st]),
      describe_stack_events = (\<lambda>name. case stacks name of
                                   None \<Rightarrow> Inl (stack_missing name)
                                 | Some (st, evs) \<Rightarrow> Inr evs),
      delete_stack = (\<lambda>name. Inr ()),
      create_stack = (\<lambda>name template. case stacks name of
                                   None \<Rightarrow> Inr (''arn:aws:cloudformation:stack/'' @ name)
                                 | Some s \<Rightarrow> Inl (ClientError (''Stack ['' @ name @ ''] already exists'')))\<rparr>"

section \<open>The ECS agent tools (agentcore-agent-runtime/agent.py)\<close>

subsection \<open>\<open>create_ecr_repository\<close>\<close>

text \<open>
  The tool catches \<open>RepositoryAlreadyExistsException\<close> only; any other exception leaves
  the tool (\<open>Inl\<close>). The registry after the call is returned with the result.
\<close>

definition create_ecr_repository ::
  "(string \<Rightarrow> string \<Rightarrow> repository) \<Rightarrow> registry \<Rightarrow> string \<Rightarrow> string \<Rightarrow> (py_exn + json) \<times> registry" where
  "create_ecr_repository mk reg app_name region =
     (case ecr_create_repository mk reg region app_name of
        (Inr r, reg') \<Rightarrow>
          (Inr (JDict [(''status'', JStr ''success''),
                       (''repository_uri'', JStr (repositoryUri r)),
                       (''repository_arn'', JStr (repositoryArn r))]), reg')
      | (Inl (RepositoryAlreadyExistsException m), reg') \<Rightarrow>
          (case ecr_describe_repositories reg' region [app_name] of
             Inl e \<Rightarrow> (Inl e, reg')
           | Inr rs \<Rightarrow>
               (case py_index rs 0 of
                  Inl m \<Rightarrow> (Inl (PyException m), reg')
                | Inr r \<Rightarrow>
                    (Inr (JDict [(''status'', JStr ''exists''),
                                 (''repository_uri'', JStr (repositoryUri r))]), reg')))
      | (Inl e, reg') \<Rightarrow> (Inl e, reg'))"

subsection \<open>\<open>deploy_ecs_express_service\<close>\<close>

definition execution_role :: string where
  "execution_role = ''arn:aws:iam::<AWS_ACCOUNT_ID>:role/ecsTaskExecutionRole''"

definition task_role :: string where
  "task_role = ''arn:aws:iam::<AWS_ACCOUNT_ID>:role/ecsTaskExecutionRole''"

definition infrastructure_role :: string where
  "infrastructure_role = ''arn:aws:iam::<AWS_ACCOUNT_ID>:role/ecsInfrastructureRoleForExpressServices''"

text \<open>The container configuration; the environment is added for a non-empty dictionary.\<close>

definition container_config ::
  "(json \<Rightarrow> string) \<Rightarrow> string \<Rightarrow> int \<Rightarrow> (string \<times> json) list option \<Rightarrow> (string \<times> json) list" where
  "container_config repr image_uri port environment_variables =
     [(''Image'', JStr image_uri), (''ContainerPort'', JInt port)]
     @ (case environment_variables of
          None \<Rightarrow> []
        | Some kvs \<Rightarrow>
            if kvs \<noteq> []
            then [(''Environment'',
                   JList (map (\<lambda>(k, v). JDict [(''Name'', JStr k), (''Value'', JStr (py_str repr v))]) kvs))]
            else [])"

text \<open>The service properties; the scaling target is added for more than one task.\<close>

definition service_properties ::
  "(json \<Rightarrow> string) \<Rightarrow> string \<Rightarrow> string \<Rightarrow> string \<Rightarrow> string \<Rightarrow> int \<Rightarrow> (string \<times> json) list option
     \<Rightarrow> int \<Rightarrow> (string \<times> json) list" where
  "service_properties repr service_name image_uri cpu memory port environment_variables desired_count =
     [(''ServiceName'', JStr service_name),
      (''ExecutionRoleArn'', JStr execution_role),
      (''TaskRoleArn'', JStr task_role),
      (''InfrastructureRoleArn'', JStr infrastructure_role),
      (''Cpu'', JStr cpu),
      (''Memory'', JStr memory),
      (''PrimaryContainer'', JDict (container_config repr image_uri port environment_variables))]
     @ (if desired_count > 1
        then [(''ScalingTarget'',
               JDict [(''MinTaskCount'', JInt desired_count),
                      (''MaxTaskCount'', JInt 50),
                      (''AutoScalingMetric'', JStr ''AVERAGE_CPU''),
                      (''AutoScalingTargetValue'', JInt 70)])]
        else [])"

definition express_template ::
  "(json \<Rightarrow> string) \<Rightarrow> string \<Rightarrow> string \<Rightarrow> string \<Rightarrow> string \<Rightarrow> int \<Rightarrow> (string \<times> json) list option
     \<Rightarrow> int \<Rightarrow> json" where
  "express_template repr service_name image_uri cpu memory port environment_variables desired_count =
     JDict [(''AWSTemplateFormatVersion'', JStr ''2010-09-09''),
            (''Resources'',
             JDict [(''ExpressService'',
                     JDict [(''Type'', JStr ''AWS::ECS::ExpressGatewayService''),
                            (''Properties'',
                             JDict (service_properties repr service_name image_uri cpu memory port
                                      environment_variables desired_count))])]),
            (''Outputs'',
             JDict [(''ServiceArn'', JDict [(''Value'', JDict [(''Ref'', JStr ''ExpressService'')])]),
                    (''Endpoint'',
                     JDict [(''Value'',
                             JDict [(''Fn::GetAtt'', JList [JStr ''ExpressService'', JStr ''Endpoint''])])])])]"

text \<open>
  The tool submits the template as a stack named \<open>ecs-express-\<close> and the service name;
  whatever \<open>create_stack\<close> raises becomes an error result.
\<close>

definition deploy_ecs_express_service ::
  "cfn_client \<Rightarrow> (json \<Rightarrow> string) \<Rightarrow> string \<Rightarrow> string \<Rightarrow> string \<Rightarrow> string \<Rightarrow> int
     \<Rightarrow> (string \<times> json) list option \<Rightarrow> int \<Rightarrow> json \<times> cfn_call list" where
  "deploy_ecs_express_service cfn repr service_name image_uri cpu memory port environment_variables
     desired_count =
     (let stack_name = ''ecs-express-'' @ service_name;
          template = express_template repr service_name image_uri cpu memory port
                       environment_variables desired_count
      in (case create_stack cfn stack_name template of
            Inr stack_id \<Rightarrow>
              JDict [(''status'', JStr ''success''),
                     (''stack_name'', JStr stack_name),
                     (''stack_id'', JStr stack_id),
                     (''desired_count'', JInt desired_count),
                     (''message'', JStr (''CloudFormation stack '' @ stack_name
                                          @ '' creation initiated with '' @ str_int desired_count
                                          @ '' task(s).''))]
          | Inl e \<Rightarrow> JDict [(''status'', JStr ''error''), (''message'', JStr (str_exn e))],
          [CreateStack stack_name template]))"

text \<open>The path of the scaling configuration inside a template.\<close>

definition field_at :: "string list \<Rightarrow> json \<Rightarrow> json option" where
  "field_at path v = fold (\<lambda>k cur. case cur of None \<Rightarrow> None | Some j \<Rightarrow> field k j) path (Some v)"

definition scaling_target :: "json \<Rightarrow> json option" where
  "scaling_target template =
     field_at [''Resources'', ''ExpressService'', ''Properties'', ''ScalingTarget''] template"

subsection \<open>\<open>check_service_status\<close>\<close>

definition check_service_status :: "cfn_client \<Rightarrow> string option \<Rightarrow> string option \<Rightarrow> json \<times> cfn_call list" where
  "check_service_status cfn service_arn stack_name =
     (let stack_name' = (if falsy stack_name \<and> \<not> falsy service_arn
                         then Some (''ecs-express-'' @ last (py_split (the service_arn) ''/''))
                         else stack_name)
      in if falsy stack_name'
         then (JDict [(''status'', JStr ''error''),
                      (''message'', JStr ''Either service_arn or stack_name required'')], [])
         else
           (case describe_stacks cfn (the stack_name') of
              Inl e \<Rightarrow> JDict [(''status'', JStr ''error''), (''message'', JStr (str_exn e))]
            | Inr stacks \<Rightarrow>
                (case py_index stacks 0 of
                   Inl m \<Rightarrow> JDict [(''status'', JStr ''error''), (''message'', JStr m)]
                 | Inr st \<Rightarrow>
                     JDict ([(''status'', JStr (StackStatus st)),
                             (''stack_name'', JStr (the stack_name'))]
                            @ (if StackStatus st = ''CREATE_COMPLETE''
                               then (let outputs = (case Outputs st of None \<Rightarrow> [] | Some os \<Rightarrow> os);
                                         endpoint = map_of (rev outputs) ''Endpoint''
                                     in [(''service_arn'',
                                          JStr (case map_of (rev outputs) ''ServiceArn'' of None \<Rightarrow> ''N/A'' | Some a \<Rightarrow> a)),
                                         (''endpoint'',
                                          JStr (case endpoint of None \<Rightarrow> ''N/A'' | Some a \<Rightarrow> a)),
                                         (''alb_url'',
                                          JStr (case endpoint of
                                                  None \<Rightarrow> ''N/A''
                                                | Some a \<Rightarrow> if a = [] then ''N/A'' else ''https://'' @ a))])
                               else []))),
            [DescribeStacks (the stack_name')]))"

subsection \<open>\<open>delete_ecs_service\<close>\<close>

definition delete_ecs_service :: "cfn_client \<Rightarrow> string option \<Rightarrow> string option \<Rightarrow> json \<times> cfn_call list" where
  "delete_ecs_service cfn service_name stack_name =
     (let stack_name' = (if falsy stack_name \<and> \<not> falsy service_name
                         then Some (''ecs-express-'' @ the service_name)
                         else stack_name)
      in if falsy stack_name'
         then (JDict [(''status'', JStr ''error''),
                      (''message'', JStr ''Either service_name or stack_name is required'')], [])
         else
           (let name = the stack_name' in
            case describe_stacks cfn name of
              Inl e \<Rightarrow>
                if is_client_error e \<and> py_in ''does not exist'' (str_exn e)
                then (JDict [(''status'', JStr ''not_found''),
                             (''stack_name'', JStr name),
                             (''message'', JStr (''Stack '' @ name @ '' does not exist''))],
                      [DescribeStacks name])
                else (JDict [(''status'', JStr ''error''),
                             (''message'', JStr (''Error deleting service: '' @ str_exn e))],
                      [DescribeStacks name])
            | Inr stacks \<Rightarrow>
                (case delete_stack cfn name of
                   Inl e \<Rightarrow>
                     (JDict [(''status'', JStr ''error''),
                             (''message'', JStr (''Error deleting service: '' @ str_exn e))],
                      [DescribeStacks name, DeleteStack name])
                 | Inr u \<Rightarrow>
                     (JDict [(''status'', JStr ''success''),
                             (''stack_name'', JStr name),
                             (''service_name'', opt_json service_name),
                             (''message'', JStr (''Stack '' @ name @ '' deletion initiated. This will delete the ECS service and all associated resources (ALB, target groups, security groups).''))],
                      [DescribeStacks name, DeleteStack name]))))"

text \<open>The status, or another field, of what a tool returns: none when it raises.\<close>

definition result_field :: "string \<Rightarrow> py_exn + json \<Rightarrow> json option" where
  "result_field k r = (case r of Inl e \<Rightarrow> None | Inr j \<Rightarrow> field k j)"

definition result_status :: "py_exn + json \<Rightarrow> json option" where
  "result_status r = result_field ''status'' r"

text \<open>The description the registry of the account gives a new repository.\<close>

definition mk_repository :: "string \<Rightarrow> string \<Rightarrow> repository" where
  "mk_repository region name =
     \<lparr>repositoryUri = ''<AWS_ACCOUNT_ID>.dkr.ecr.'' @ region @ ''.amazonaws.com/'' @ name,
      repositoryArn = ''arn:aws:ecr:'' @ region @ '':<AWS_ACCOUNT_ID>:repository/'' @ name\<rparr>"

section \<open>The EKS agent tools (agentcore-eks-runtime/agent.py)\<close>

text \<open>
  The Kubernetes client: the outcome of \<open>get_k8s_client\<close>, of the three delete
  requests and of removing the temporary certificate file.
\<close>

record k8s_client =
  get_k8s_client :: "string \<Rightarrow> string \<Rightarrow> py_exn + unit"
  delete_namespaced_deployment :: "string \<Rightarrow> py_exn + unit"
  delete_namespaced_service :: "string \<Rightarrow> py_exn + unit"
  delete_namespaced_service_account :: "string \<Rightarrow> py_exn + unit"
  unlink :: "py_exn + unit"

datatype k8s_call =
    DeleteDeployment string
  | DeleteService string
  | DeleteServiceAccount string

text \<open>
  A cluster seen as the names of its deployments, services and service accounts: a
  delete request for a name that is not there is answered with status 404.
\<close>

record cluster =
  deployments :: "string list"
  services :: "string list"
  service_accounts :: "string list"

definition not_found_404 :: py_exn where
  "not_found_404 = ApiException 404 ''Not Found'' ''(404) Reason: Not Found''"

definition k8s_of :: "cluster \<Rightarrow> k8s_client" where
  "k8s_of c =
     \<lparr>get_k8s_client = (\<lambda>cluster_name region. Inr ()),
      delete_namespaced_deployment = (\<lambda>n. if n \<in> set (deployments c) then Inr () else Inl not_found_404),
      delete_namespaced_service = (\<lambda>n. if n \<in> set (services c) then Inr () else Inl not_found_404),
      delete_namespaced_service_account =
        (\<lambda>n. if n \<in> set (service_accounts c) then Inr () else Inl not_found_404),
      unlink = Inr ()\<rparr>"

subsection \<open>\<open>delete_eks_deployment\<close>\<close>

text \<open>
  Each of the three delete blocks: the resource is recorded as deleted, a 404 is recorded
  as not found, any other exception is raised again.
\<close>

definition delete_block :: "py_exn + unit \<Rightarrow> string \<Rightarrow> py_exn + string" where
  "delete_block outcome label =
     (case outcome of
        Inr u \<Rightarrow> Inr label
      | Inl (ApiException st reason m) \<Rightarrow>
          if st = 404 then Inr (label @ '' (not found)'') else Inl (ApiException st reason m)
      | Inl e \<Rightarrow> Inl e)"

text \<open>The two outer handlers of the tool.\<close>

definition eks_delete_error :: "py_exn \<Rightarrow> json" where
  "eks_delete_error e =
     (case e of
        ApiException st reason m \<Rightarrow>
          JDict [(''status'', JStr ''error''),
                 (''message'', JStr (''Kubernetes API error: '' @ reason)),
                 (''details'', JStr m)]
      | _ \<Rightarrow>
          JDict [(''status'', JStr ''error''),
                 (''message'', JStr (''Error deleting deployment: '' @ str_exn e))])"

definition eks_delete_results :: "string \<Rightarrow> string list \<Rightarrow> json" where
  "eks_delete_results app_name deleted_resources =
     JDict [(''status'', JStr ''success''),
            (''app_name'', JStr app_name),
            (''deleted_resources'', JList (map JStr deleted_resources)),
            (''message'',
             JStr (''Successfully deleted ''
                   @ str_int (int (length (filter (\<lambda>r. \<not> py_in ''not found'' r) deleted_resources)))
                   @ '' resource(s)''))]"

definition delete_eks_deployment ::
  "k8s_client \<Rightarrow> string \<Rightarrow> string \<Rightarrow> string \<Rightarrow> bool \<Rightarrow> bool \<Rightarrow> json \<times> k8s_call list" where
  "delete_eks_deployment k8s cluster_name app_name region delete_service delete_service_account =
     (case get_k8s_client k8s cluster_name region of
        Inl e \<Rightarrow> (eks_delete_error e, [])
      | Inr u \<Rightarrow>
          (case delete_block (delete_namespaced_deployment k8s app_name) (''Deployment: '' @ app_name) of
             Inl e \<Rightarrow> (eks_delete_error e, [DeleteDeployment app_name])
           | Inr r1 \<Rightarrow>
               (case (if delete_service
                      then map_sum id (\<lambda>r. [r])
                             (delete_block (delete_namespaced_service k8s app_name) (''Service: '' @ app_name))
                      else Inr []) of
                  Inl e \<Rightarrow> (eks_delete_error e, [DeleteDeployment app_name, DeleteService app_name])
                | Inr r2 \<Rightarrow>
                    (let calls2 = DeleteDeployment app_name
                                  # (if delete_service then [DeleteService app_name] else []);
                         service_account_name = app_name @ ''-sa''
                     in case (if delete_service_account
                              then map_sum id (\<lambda>r. [r])
                                     (delete_block (delete_namespaced_service_account k8s service_account_name)
                                        (''ServiceAccount: '' @ service_account_name))
                              else Inr []) of
                          Inl e \<Rightarrow> (eks_delete_error e, calls2 @ [DeleteServiceAccount service_account_name])
                        | Inr r3 \<Rightarrow>
                            (let calls3 = calls2 @ (if delete_service_account
                                                    then [DeleteServiceAccount service_account_name]
                                                    else [])
                             in case unlink k8s of
                                  Inl e \<Rightarrow> (eks_delete_error e, calls3)
                                | Inr u' \<Rightarrow> (eks_delete_results app_name (r1 # r2 @ r3), calls3))))))"

section \<open>The status reconciler (web-ui/app.py)\<close>

definition event_info :: "stack_event \<Rightarrow> json" where
  "event_info event =
     JDict [(''timestamp'', JStr (Timestamp event)),
            (''resource'', opt_json (LogicalResourceId event)),
            (''type'', opt_json (ResourceType event)),
            (''status'', opt_json (ResourceStatus event)),
            (''reason'', JStr (case ResourceStatusReason event of None \<Rightarrow> [] | Some r \<Rightarrow> r))]"

definition event_failed :: "stack_event \<Rightarrow> bool" where
  "event_failed event =
     py_in ''FAILED'' (case ResourceStatus event of None \<Rightarrow> [] | Some s \<Rightarrow> s)"

text \<open>The dictionary the loop over the declared outputs builds.\<close>

definition outputs_dict :: "stack \<Rightarrow> (string \<times> json) list" where
  "outputs_dict st =
     foldl (\<lambda>outputs (k, v). AList.update k (JStr v) outputs) []
       (case Outputs st of None \<Rightarrow> [] | Some os \<Rightarrow> os)"

text \<open>
  The handler of \<open>check_stack_status\<close> catches \<open>ClientError\<close> only: a stack that does
  not exist is \<open>NOT_FOUND\<close>, another client error is \<open>ERROR\<close>, any other exception
  leaves the function.
\<close>

definition stack_status_handler :: "string \<Rightarrow> py_exn \<Rightarrow> py_exn + json" where
  "stack_status_handler stack_name e =
     (if is_client_error e
      then (if py_in ''does not exist'' (str_exn e)
            then Inr (JDict [(''status'', JStr ''NOT_FOUND''), (''stack_name'', JStr stack_name)])
            else Inr (JDict [(''status'', JStr ''ERROR''), (''message'', JStr (str_exn e))]))
      else Inl e)"

definition complete :: "string \<Rightarrow> bool" where
  "complete status = (status = ''CREATE_COMPLETE'' \<or> status = ''UPDATE_COMPLETE'')"

definition check_stack_status :: "cfn_client \<Rightarrow> string \<Rightarrow> (py_exn + json) \<times> cfn_call list" where
  "check_stack_status cfn stack_name =
     (case describe_stacks cfn stack_name of
        Inl e \<Rightarrow> (stack_status_handler stack_name e, [DescribeStacks stack_name])
      | Inr stacks \<Rightarrow>
          (case py_index stacks 0 of
             Inl m \<Rightarrow> (Inl (PyException m), [DescribeStacks stack_name])
           | Inr st \<Rightarrow>
               (let status = StackStatus st;
                    status_reason = (case StackStatusReason st of None \<Rightarrow> [] | Some r \<Rightarrow> r);
                    result = [(''status'', JStr status),
                              (''reason'', JStr status_reason),
                              (''stack_name'', JStr stack_name)];
                    with_outputs = (\<lambda>res. if status = ''CREATE_COMPLETE'' \<or> status = ''UPDATE_COMPLETE''
                                          then res @ [(''outputs'', JDict (outputs_dict st))]
                                          else res)
                in if status \<noteq> ''CREATE_COMPLETE'' \<and> status \<noteq> ''UPDATE_COMPLETE''
                   then (case describe_stack_events cfn stack_name of
                           Inl e \<Rightarrow>
                             (stack_status_handler stack_name e,
                              [DescribeStacks stack_name, DescribeStackEvents stack_name])
                         | Inr events \<Rightarrow>
                             (Inr (JDict (with_outputs
                                     (result
                                      @ [(''failed_events'',
                                          JList (map event_info (filter event_failed (take 20 events)))),
                                         (''recent_events'',
                                          JList (map event_info (take 20 events)))]))),
                              [DescribeStacks stack_name, DescribeStackEvents stack_name]))
                   else (Inr (JDict (with_outputs result)), [DescribeStacks stack_name]))))"

text \<open>The failure or rollback marker the callers look for in a stack status.\<close>

definition failure_marker :: "string \<Rightarrow> bool" where
  "failure_marker status = (py_in ''FAILED'' status \<or> py_in ''ROLLBACK'' status)"

text \<open>A cluster with nothing deployed, and the stacks and the event of the examples.\<close>

definition empty_cluster :: cluster where
  "empty_cluster = \<lparr>deployments = [], services = [], service_accounts = []\<rparr>"

definition in_progress_stack :: stack where
  "in_progress_stack = \<lparr>StackStatus = ''CREATE_IN_PROGRESS'', StackStatusReason = None, Outputs = None\<rparr>"

definition complete_stack :: stack where
  "complete_stack =
     \<lparr>StackStatus = ''CREATE_COMPLETE'', StackStatusReason = None,
      Outputs = Some [(''Endpoint'', ''blog.example.com''), (''ServiceArn'', ''arn:aws:ecs:service/blog'')]\<rparr>"

definition failed_event :: stack_event where
  "failed_event =
     \<lparr>Timestamp = ''2026-01-01T00:00:00'', LogicalResourceId = Some ''ExpressService'',
      ResourceType = Some ''AWS::ECS::ExpressGatewayService'', ResourceStatus = Some ''CREATE_FAILED'',
      ResourceStatusReason = Some ''Role not found''\<rparr>"

section \<open>The chat handlers (web-ui/app.py)\<close>

subsection \<open>Configuration, marks and effects\<close>

record config =
  cfg_ecs_agent_arn :: string
  cfg_eks_agent_arn :: string
  cfg_agent_region :: string
  cfg_account_id :: string
  cfg_app_path :: string
  cfg_dynamodb_table :: string
  cfg_s3_bucket_prefix :: string
  cfg_cognito_user_pool_id :: string
  cfg_cognito_client_id :: string
  cfg_app_port :: string
  cfg_default_cpu :: string
  cfg_default_memory :: string
  cfg_default_replicas :: int

definition CONFIG :: config where
  "CONFIG =
     \<lparr>cfg_ecs_agent_arn = ''arn:aws:bedrock-agentcore:us-west-2:<AWS_ACCOUNT_ID>:runtime/ecs_deployment_agent-Kq38Lc3cm5'',
      cfg_eks_agent_arn = ''arn:aws:bedrock-agentcore:us-west-2:<AWS_ACCOUNT_ID>:runtime/eks_deployment_agent-bJq2whDHLA'',
      cfg_agent_region = ''us-west-2'',
      cfg_account_id = ''<AWS_ACCOUNT_ID>'',
      cfg_app_path = ''$PROJECT_ROOT/sample-application'',
      cfg_dynamodb_table = ''blog-posts'',
      cfg_s3_bucket_prefix = ''blog-images-private'',
      cfg_cognito_user_pool_id = ''REPLACE_WITH_YOUR_USER_POOL_ID'',
      cfg_cognito_client_id = ''REPLACE_WITH_YOUR_CLIENT_ID'',
      cfg_app_port = ''3000'',
      cfg_default_cpu = ''512'',
      cfg_default_memory = ''1024'',
      cfg_default_replicas = 2\<rparr>"

text \<open>
  The line feed, and the marks that open the lines of the report: each is the run of
  characters outside ASCII that the string literal of \<open>app.py\<close> holds at that place
  (for \<open>mark_ok\<close> the code points U+201A, U+00FA, U+00D6), in UTF-8.
\<close>

definition nl :: string where
  "nl = [CHR 0x0A]"

definition mark_robot :: string where
  "mark_robot = [CHR 0xEF, CHR 0xA3, CHR 0xBF, CHR 0xC3, CHR 0xBC, CHR 0xC2, CHR 0xA7,
                CHR 0xC3, CHR 0xB1]"

definition mark_bulb :: string where
  "mark_bulb = [CHR 0xEF, CHR 0xA3, CHR 0xBF, CHR 0xC3, CHR 0xBC, CHR 0xC3, CHR 0xAD,
               CHR 0xC2, CHR 0xB0]"

definition mark_rocket :: string where
  "mark_rocket = [CHR 0xEF, CHR 0xA3, CHR 0xBF, CHR 0xC3, CHR 0xBC, CHR 0xC3, CHR 0xB6,
                 CHR 0xC3, CHR 0x84]"

definition mark_ok :: string where
  "mark_ok = [CHR 0xE2, CHR 0x80, CHR 0x9A, CHR 0xC3, CHR 0xBA, CHR 0xC3, CHR 0x96]"

definition mark_cross :: string where
  "mark_cross = [CHR 0xE2, CHR 0x80, CHR 0x9A, CHR 0xC3, CHR 0xB9, CHR 0xC3, CHR 0xA5]"

definition mark_hammer :: string where
  "mark_hammer = [CHR 0xEF, CHR 0xA3, CHR 0xBF, CHR 0xC3, CHR 0xBC, CHR 0xC3, CHR 0xAE,
                 CHR 0xC2, CHR 0xAE]"

definition mark_hourglass :: string where
  "mark_hourglass = [CHR 0xE2, CHR 0x80, CHR 0x9A, CHR 0xC3, CHR 0xA8, CHR 0xE2, CHR 0x89,
                    CHR 0xA5]"

definition mark_clipboard :: string where
  "mark_clipboard = [CHR 0xEF, CHR 0xA3, CHR 0xBF, CHR 0xC3, CHR 0xBC, CHR 0xC3, CHR 0xAC,
                    CHR 0xC3, CHR 0xA3]"

definition mark_bin :: string where
  "mark_bin = [CHR 0xEF, CHR 0xA3, CHR 0xBF, CHR 0xC3, CHR 0xBC, CHR 0xC3, CHR 0xB3,
              CHR 0xC3, CHR 0xAB, CHR 0xC3, CHR 0x94, CHR 0xE2, CHR 0x88, CHR 0x8F,
              CHR 0xC3, CHR 0xA8]"

definition mark_chart :: string where
  "mark_chart = [CHR 0xEF, CHR 0xA3, CHR 0xBF, CHR 0xC3, CHR 0xBC, CHR 0xC3, CHR 0xAC,
                CHR 0xC3, CHR 0xA4]"

definition mark_bullet :: string where
  "mark_bullet = [CHR 0xE2, CHR 0x80, CHR 0x9A, CHR 0xC3, CHR 0x84, CHR 0xC2, CHR 0xA2]"

definition mark_warning :: string where
  "mark_warning = [CHR 0xE2, CHR 0x80, CHR 0x9A, CHR 0xC3, CHR 0xB6, CHR 0xE2, CHR 0x80,
                  CHR 0xA0, CHR 0xC3, CHR 0x94, CHR 0xE2, CHR 0x88, CHR 0x8F, CHR 0xC3,
                  CHR 0xA8]"

definition mark_globe :: string where
  "mark_globe = [CHR 0xEF, CHR 0xA3, CHR 0xBF, CHR 0xC3, CHR 0xBC, CHR 0xC3, CHR 0xA5,
                CHR 0xC3, CHR 0xAA]"

definition mark_package :: string where
  "mark_package = [CHR 0xEF, CHR 0xA3, CHR 0xBF, CHR 0xC3, CHR 0xBC, CHR 0xC3, CHR 0xAC,
                  CHR 0xC2, CHR 0xB6]"

definition mark_numbers :: string where
  "mark_numbers = [CHR 0xEF, CHR 0xA3, CHR 0xBF, CHR 0xC3, CHR 0xBC, CHR 0xC3, CHR 0xAE,
                  CHR 0xC2, CHR 0xA2]"

text \<open>
  What a handler does to the world, in order: the requests to the registry, to
  CloudFormation and to the agents, the processes it starts, the delays it sleeps, and
  the requests of the REST handler to STS, EC2 (the flag tells the filtered request from
  the unfiltered one) and the express gateway API of ECS.
\<close>

datatype effect =
    EcrCreateRepository json string
  | Subprocess "string list"
  | InvokeAgent string
  | McpTool string json
  | Sleeps nat
  | Cfn json cfn_call
  | ListStacks json
  | GetCallerIdentity
  | DescribeVpcs json bool
  | DescribeSubnets json json bool
  | CreateExpressGatewayService json

text \<open>
  A computation yields a value or raises, and leaves its effects either way. \<open>io_bind\<close>
  is sequencing: after an exception nothing more is done.
\<close>

type_synonym 'a io = "(py_exn + 'a) \<times> effect list"

definition io_return :: "'a \<Rightarrow> 'a io" where
  "io_return x = (Inr x, [])"

definition io_raise :: "py_exn \<Rightarrow> 'a io" where
  "io_raise e = (Inl e, [])"

definition io_lift :: "py_exn + 'a \<Rightarrow> 'a io" where
  "io_lift r = (r, [])"

definition io_call :: "effect \<Rightarrow> py_exn + 'a \<Rightarrow> 'a io" where
  "io_call ef outcome = (outcome, [ef])"

definition io_bind :: "'a io \<Rightarrow> ('a \<Rightarrow> 'b io) \<Rightarrow> 'b io" where
  "io_bind m f =
     (case m of
        (Inl e, t) \<Rightarrow> (Inl e, t)
      | (Inr x, t) \<Rightarrow> (case f x of (r, t') \<Rightarrow> (r, t @ t')))"

text \<open>\<open>try: m except Exception as e: h e\<close>.\<close>

definition io_catch :: "'a io \<Rightarrow> (py_exn \<Rightarrow> 'a) \<Rightarrow> 'a \<times> effect list" where
  "io_catch m h = (case m of (Inl e, t) \<Rightarrow> (h e, t) | (Inr x, t) \<Rightarrow> (x, t))"

text \<open>A finished process, and a line of \<open>list_stacks\<close>.\<close>

record proc =
  returncode :: int
  stdout :: string
  stderr :: string

record stack_summary =
  StackName :: string
  SummaryStatus :: string
  CreationTime :: string

text \<open>
  Everything outside the handlers: the oracle and \<open>json.loads\<close> of the router, Python's
  \<open>repr\<close>, \<open>json.dumps\<close> (plain and with \<open>indent=2\<close>),
  \<open>traceback.format_exc()\<close> and \<open>int\<close> of a string (none for a ValueError), the
  clock, the registry, the file system, the processes
  (with their standard input), the names of the platform's signals (\<open>signal.Signals(n)\<close>,
  none for a ValueError), the two agents (\<open>invoke_strands_agent\<close> and
  \<open>invoke_mcp_tool\<close>, by what they return or let through) and CloudFormation by region.
\<close>

record world =
  w_loads :: "string \<Rightarrow> string + json"
  w_bedrock :: "nat \<Rightarrow> invoke_outcome"
  w_repr :: "json \<Rightarrow> string"
  w_dumps :: "json \<Rightarrow> string"
  w_dumps_indent :: "json \<Rightarrow> string"
  w_format_exc :: "py_exn \<Rightarrow> string"
  w_int :: "string \<Rightarrow> int option"
  w_now :: int
  w_ecr_create :: "json \<Rightarrow> string \<Rightarrow> py_exn + unit"
  w_path_exists :: "string \<Rightarrow> bool"
  w_run :: "string list \<Rightarrow> string option \<Rightarrow> py_exn + proc"
  w_signal_name :: "int \<Rightarrow> string option"
  w_agent :: "string \<Rightarrow> py_exn + string"
  w_mcp :: "string \<Rightarrow> json \<Rightarrow> py_exn + json"
  w_cfn :: "json \<Rightarrow> cfn_client"
  w_list_stacks :: "json \<Rightarrow> py_exn + stack_summary list"

subsection \<open>Dictionaries of the routing decision\<close>

fun type_name :: "json option \<Rightarrow> string" where
  "type_name None = ''NoneType''"
| "type_name (Some JNull) = ''NoneType''"
| "type_name (Some (JBool b)) = ''bool''"
| "type_name (Some (JInt i)) = ''int''"
| "type_name (Some (JStr s)) = ''str''"
| "type_name (Some (JList xs)) = ''list''"
| "type_name (Some (JDict kvs)) = ''dict''"

definition attribute_error :: "json option \<Rightarrow> string \<Rightarrow> py_exn" where
  "attribute_error v attr =
     PyException ([CHR 0x27] @ type_name v @ [CHR 0x27] @ '' object has no attribute ''
                  @ [CHR 0x27] @ attr @ [CHR 0x27])"

text \<open>\<open>d.get(k)\<close>, \<open>d.get(k, default)\<close> and \<open>d[k]\<close>; \<open>None\<close> is \<open>JNull\<close>.\<close>

definition py_get :: "json \<Rightarrow> string \<Rightarrow> py_exn + json" where
  "py_get d k =
     (case d of
        JDict kvs \<Rightarrow> Inr (case map_of kvs k of None \<Rightarrow> JNull | Some v \<Rightarrow> v)
      | v \<Rightarrow> Inl (attribute_error (Some v) ''get''))"

definition py_get_default :: "json \<Rightarrow> string \<Rightarrow> json \<Rightarrow> py_exn + json" where
  "py_get_default d k dflt =
     (case d of
        JDict kvs \<Rightarrow> Inr (case map_of kvs k of None \<Rightarrow> dflt | Some v \<Rightarrow> v)
      | v \<Rightarrow> Inl (attribute_error (Some v) ''get''))"

definition get_or :: "(string \<times> json) list \<Rightarrow> string \<Rightarrow> json \<Rightarrow> json" where
  "get_or kvs k dflt = (case map_of kvs k of None \<Rightarrow> dflt | Some v \<Rightarrow> v)"

text \<open>\<open>d.update(u)\<close>: the keys of \<open>u\<close> are assigned in order.\<close>

definition dict_update :: "(string \<times> json) list \<Rightarrow> (string \<times> json) list \<Rightarrow> (string \<times> json) list" where
  "dict_update d u = foldl (\<lambda>acc (k, v). AList.update k v acc) d u"

text \<open>The two JSON bodies a chat handler answers with.\<close>

definition chat_result :: "string \<Rightarrow> json \<Rightarrow> json" where
  "chat_result st res = JDict [(''status'', JStr st), (''result'', res)]"

definition chat_exception :: "world \<Rightarrow> py_exn \<Rightarrow> json" where
  "chat_exception w e =
     JDict [(''status'', JStr ''error''),
            (''message'', JStr (str_exn e @ nl @ nl @ w_format_exc w e))]"

subsection \<open>\<open>build_and_push_docker_image\<close>\<close>

text \<open>
  The application folder: the first of the two candidate folders that exists and holds a
  Dockerfile, or the configured path. The region is rendered as \<open>str\<close> renders it.
\<close>

definition find_app_path :: "world \<Rightarrow> string \<Rightarrow> string" where
  "find_app_path w app_name =
     (let workspace_root = ''$PROJECT_ROOT'';
          potential_paths = [workspace_root @ ''/'' @ app_name,
                             workspace_root @ ''/sample-application'']
      in case filter (\<lambda>path. w_path_exists w path \<and> w_path_exists w (path @ ''/Dockerfile''))
                potential_paths of
           [] \<Rightarrow> cfg_app_path CONFIG
         | path # others \<Rightarrow> path)"

definition build_error :: "string \<Rightarrow> json" where
  "build_error msg = JDict [(''status'', JStr ''error''), (''message'', JStr msg)]"

definition run_process :: "world \<Rightarrow> string list \<Rightarrow> string option \<Rightarrow> proc io" where
  "run_process w cmd inp = io_call (Subprocess cmd) (w_run w cmd inp)"

text \<open>
  \<open>str\<close> of the \<open>CalledProcessError\<close> for a command and its return code. A negative
  return code is a signal: the message names it by the \<open>repr\<close> of \<open>signal.Signals\<close>, or
  by its number when the platform has no such signal. The command is rendered by \<open>%s\<close>.
\<close>

definition called_process_error :: "world \<Rightarrow> string list \<Rightarrow> int \<Rightarrow> string" where
  "called_process_error w cmd rc =
     (let command = ''Command '' @ [CHR 0x27] @ w_repr w (JList (map JStr cmd)) @ [CHR 0x27]
      in if rc \<noteq> 0 \<and> rc < 0
         then (case w_signal_name w (- rc) of
                 Some name \<Rightarrow>
                   command @ '' died with <Signals.'' @ name @ '': '' @ str_int (- rc) @ ''>.''
               | None \<Rightarrow> command @ '' died with unknown signal '' @ str_int (- rc) @ ''.'')
         else command @ '' returned non-zero exit status '' @ str_int rc @ ''.'')"

text \<open>\<open>subprocess.run(cmd, check=True)\<close> raises on a non-zero return code.\<close>

definition run_checked :: "world \<Rightarrow> string list \<Rightarrow> proc io" where
  "run_checked w cmd =
     io_bind (run_process w cmd None) (\<lambda>p.
       if returncode p \<noteq> 0
       then io_raise (PyException (called_process_error w cmd (returncode p)))
       else io_return p)"

definition create_repository_if_missing :: "world \<Rightarrow> json \<Rightarrow> string \<Rightarrow> unit io" where
  "create_repository_if_missing w region app_name =
     (case w_ecr_create w region app_name of
        Inl (RepositoryAlreadyExistsException m) \<Rightarrow> (Inr (), [EcrCreateRepository region app_name])
      | r \<Rightarrow> (r, [EcrCreateRepository region app_name]))"

definition build_steps :: "world \<Rightarrow> string \<Rightarrow> json \<Rightarrow> json io" where
  "build_steps w app_name region =
     (let account_id = cfg_account_id CONFIG;
          region_str = py_str (w_repr w) region;
          app_path = find_app_path w app_name;
          registry_host = account_id @ ''.dkr.ecr.'' @ region_str @ ''.amazonaws.com'';
          image_uri = registry_host @ ''/'' @ app_name @ '':latest'';
          success = JDict [(''status'', JStr ''success''),
                           (''image_uri'', JStr image_uri),
                           (''app_path'', JStr app_path),
                           (''message'', JStr (''Successfully built and pushed '' @ image_uri))]
      in
      io_bind (create_repository_if_missing w region app_name) (\<lambda>u.
      io_bind (run_process w [''aws'', ''ecr'', ''get-login-password'', ''--region'', region_str] None)
        (\<lambda>login_result.
      if returncode login_result \<noteq> 0
      then io_return (build_error (''ECR login failed: '' @ stderr login_result))
      else
      io_bind (run_process w [''docker'', ''login'', ''--username'', ''AWS'', ''--password-stdin'', registry_host]
                 (Some (stdout login_result)))
        (\<lambda>docker_login.
      if returncode docker_login \<noteq> 0
      then io_return (build_error (''Docker login failed: '' @ stderr docker_login))
      else
      io_bind (run_process w [''docker'', ''buildx'', ''build'', ''--platform'', ''linux/amd64,linux/arm64'',
                              ''-t'', image_uri, ''--push'', app_path] None)
        (\<lambda>multi.
      if returncode multi \<noteq> 0
      then
        io_bind (run_process w [''docker'', ''build'', ''-t'', app_name @ '':latest'', app_path] None)
          (\<lambda>single.
        if returncode single \<noteq> 0
        then io_return (build_error (''Docker build failed: '' @ stderr single))
        else
        io_bind (run_checked w [''docker'', ''tag'', app_name @ '':latest'', image_uri]) (\<lambda>tagged.
        io_bind (run_process w [''docker'', ''push'', image_uri] None) (\<lambda>pushed.
        if returncode pushed \<noteq> 0
        then io_return (build_error (''Docker push failed: '' @ stderr pushed))
        else io_return success)))
      else io_return success)))))"

definition build_and_push_docker_image :: "world \<Rightarrow> string \<Rightarrow> json \<Rightarrow> json \<times> effect list" where
  "build_and_push_docker_image w app_name region =
     io_catch (build_steps w app_name region) (\<lambda>e. build_error (str_exn e))"

subsection \<open>The deploy branch of \<open>ecs_chat\<close>\<close>

text \<open>The arguments of a deploy, with the defaults of the handler.\<close>

record deploy_args =
  da_app_name :: "json option"
  da_cpu :: json
  da_memory :: json
  da_desired_count :: json
  da_deploy_region :: json
  da_app_port :: json
  da_env_vars :: json

definition ecs_deploy_arguments :: "(json \<Rightarrow> string) \<Rightarrow> json \<Rightarrow> (string \<times> json) list \<Rightarrow> deploy_args" where
  "ecs_deploy_arguments repr region arguments =
     (let deploy_region = get_or arguments ''region'' region;
          app_port = get_or arguments ''port'' (JStr (cfg_app_port CONFIG))
      in \<lparr>da_app_name = map_of arguments ''app_name'',
          da_cpu = get_or arguments ''cpu'' (JStr (cfg_default_cpu CONFIG)),
          da_memory = get_or arguments ''memory'' (JStr (cfg_default_memory CONFIG)),
          da_desired_count = get_or arguments ''desired_count'' (JInt 1),
          da_deploy_region = deploy_region,
          da_app_port = app_port,
          da_env_vars = get_or arguments ''env_vars''
                          (JDict [(''AWS_REGION'', deploy_region),
                                  (''PORT'', JStr (py_str repr app_port))])\<rparr>)"

definition blog_app :: "string \<Rightarrow> bool" where
  "blog_app app_name = (py_in ''blog'' (py_lower app_name) \<or> py_in ''sample'' (py_lower app_name))"

text \<open>The dictionary the environment is updated with for a blog or sample application.\<close>

definition ecs_config_env :: "(json \<Rightarrow> string) \<Rightarrow> json \<Rightarrow> json \<Rightarrow> (string \<times> json) list" where
  "ecs_config_env repr deploy_region app_port =
     [(''AWS_REGION'', deploy_region),
      (''DYNAMODB_TABLE'', JStr (cfg_dynamodb_table CONFIG)),
      (''S3_BUCKET'', JStr (cfg_s3_bucket_prefix CONFIG @ ''-'' @ cfg_account_id CONFIG @ ''-''
                            @ py_str repr deploy_region)),
      (''COGNITO_USER_POOL_ID'', JStr (cfg_cognito_user_pool_id CONFIG)),
      (''COGNITO_CLIENT_ID'', JStr (cfg_cognito_client_id CONFIG)),
      (''PORT'', JStr (py_str repr app_port))]"

text \<open>
  The enrichment reads \<open>app_name.lower()\<close> before the handler checks that there is an
  application name: a name that is no string raises here, and so does an environment that
  is no dictionary when it is to be updated. The name and the environment to deploy with
  are the result.
\<close>

definition ecs_enrich :: "(json \<Rightarrow> string) \<Rightarrow> deploy_args \<Rightarrow> py_exn + string \<times> json" where
  "ecs_enrich repr a =
     (case da_app_name a of
        Some (JStr app_name) \<Rightarrow>
          if blog_app app_name
          then (case da_env_vars a of
                  JDict env_vars \<Rightarrow>
                    Inr (app_name,
                         JDict (dict_update env_vars
                                  (ecs_config_env repr (da_deploy_region a) (da_app_port a))))
                | v \<Rightarrow> Inl (attribute_error (Some v) ''update''))
          else Inr (app_name, da_env_vars a)
      | Some v \<Rightarrow> Inl (attribute_error (Some v) ''lower'')
      | None \<Rightarrow> Inl (attribute_error None ''lower''))"

definition ecs_deploy_prompt ::
  "world \<Rightarrow> deploy_args \<Rightarrow> string \<Rightarrow> string \<Rightarrow> json \<Rightarrow> string" where
  "ecs_deploy_prompt w a service_name image_uri env_vars =
     (let str = py_str (w_repr w) in
      ''Deploy the image '' @ image_uri @ '' to ECS Express Mode in '' @ str (da_deploy_region a) @ ''.'' @ nl
      @ ''Use these parameters:'' @ nl
      @ ''- service_name: '' @ service_name @ nl
      @ ''- cpu: '' @ str (da_cpu a) @ nl
      @ ''- memory: '' @ str (da_memory a) @ nl
      @ ''- port: '' @ str (da_app_port a) @ nl
      @ ''- region: '' @ str (da_deploy_region a) @ nl
      @ ''- desired_count: '' @ str (da_desired_count a) @ nl
      @ ''- environment_variables: '' @ w_dumps w env_vars @ nl
      @ nl
      @ ''Make sure to pass the environment_variables and desired_count parameters to the deploy_ecs_express_service tool.'')"

text \<open>\<open>d[k]\<close> on a dictionary the handler built or received: KeyError when absent.\<close>

definition py_item :: "json \<Rightarrow> string \<Rightarrow> py_exn + json" where
  "py_item d k =
     (case field k d of
        Some v \<Rightarrow> Inr v
      | None \<Rightarrow> Inl (PyException ([CHR 0x27] @ k @ [CHR 0x27])))"

text \<open>Step 1 of the pipeline: the repository is created, or is there already.\<close>

definition ecs_registry_step :: "world \<Rightarrow> json \<Rightarrow> string \<Rightarrow> string io" where
  "ecs_registry_step w deploy_region app_name =
     (case w_ecr_create w deploy_region app_name of
        Inr u \<Rightarrow>
          (Inr (mark_ok @ '' Created ECR repository: '' @ app_name @ nl),
           [EcrCreateRepository deploy_region app_name])
      | Inl (RepositoryAlreadyExistsException m) \<Rightarrow>
          (Inr (mark_ok @ '' ECR repository already exists: '' @ app_name @ nl),
           [EcrCreateRepository deploy_region app_name])
      | Inl e \<Rightarrow> (Inl e, [EcrCreateRepository deploy_region app_name]))"

text \<open>The lines of the report for the stack status read after the submission.\<close>

definition failed_event_lines :: "(json \<Rightarrow> string) \<Rightarrow> json \<Rightarrow> string" where
  "failed_event_lines str event =
     ''- '' @ str (get_or (case event of JDict kvs \<Rightarrow> kvs | v \<Rightarrow> []) ''resource'' JNull)
     @ '' ('' @ str (get_or (case event of JDict kvs \<Rightarrow> kvs | v \<Rightarrow> []) ''type'' JNull) @ '')'' @ nl
     @ ''  Status: '' @ str (get_or (case event of JDict kvs \<Rightarrow> kvs | v \<Rightarrow> []) ''status'' JNull) @ nl
     @ ''  Reason: '' @ str (get_or (case event of JDict kvs \<Rightarrow> kvs | v \<Rightarrow> []) ''reason'' JNull) @ nl @ nl"

definition recent_event_lines :: "(json \<Rightarrow> string) \<Rightarrow> json \<Rightarrow> string" where
  "recent_event_lines str event =
     (let kvs = (case event of JDict kvs \<Rightarrow> kvs | v \<Rightarrow> []) in
      ''- ['' @ str (get_or kvs ''timestamp'' JNull) @ ''] '' @ str (get_or kvs ''resource'' JNull)
      @ '': '' @ str (get_or kvs ''status'' JNull) @ nl
      @ (if truthy (get_or kvs ''reason'' JNull)
         then ''  '' @ str (get_or kvs ''reason'' JNull) @ nl
         else []))"

definition json_items :: "json \<Rightarrow> json list" where
  "json_items v = (case v of JList xs \<Rightarrow> xs | u \<Rightarrow> [])"

definition stack_status_lines :: "(json \<Rightarrow> string) \<Rightarrow> string \<Rightarrow> json \<Rightarrow> string" where
  "stack_status_lines str stack_name stack_status =
     (let kvs = (case stack_status of JDict kvs \<Rightarrow> kvs | v \<Rightarrow> []);
          status = str (get_or kvs ''status'' JNull)
      in if status = ''CREATE_IN_PROGRESS'' then
           mark_hourglass @ '' Stack is being created: '' @ stack_name @ nl
           @ ''Status: '' @ status @ nl
           @ nl @ mark_bulb @ '' Monitor progress in CloudFormation console or check back in a few minutes.'' @ nl
         else if py_in ''FAILED'' status \<or> py_in ''ROLLBACK'' status then
           mark_cross @ '' Stack creation failed: '' @ status @ nl
           @ (if truthy (get_or kvs ''reason'' JNull)
              then ''Reason: '' @ str (get_or kvs ''reason'' JNull) @ nl else [])
           @ (if truthy (get_or kvs ''failed_events'' JNull)
              then nl @ ''**Failed Resources:**'' @ nl
                   @ concat (map (failed_event_lines str) (json_items (get_or kvs ''failed_events'' JNull)))
              else [])
           @ (if truthy (get_or kvs ''recent_events'' JNull)
              then nl @ ''**Recent Events:**'' @ nl
                   @ concat (map (recent_event_lines str)
                               (take 5 (json_items (get_or kvs ''recent_events'' JNull))))
              else [])
         else if status = ''CREATE_COMPLETE'' then
           mark_ok @ '' Stack created successfully!'' @ nl
           @ (if truthy (get_or kvs ''outputs'' JNull)
              then nl @ ''**Endpoints:**'' @ nl
                   @ concat (map (\<lambda>(k, v). ''- '' @ k @ '': '' @ str v @ nl)
                               (case get_or kvs ''outputs'' JNull of JDict os \<Rightarrow> os | v \<Rightarrow> []))
              else [])
         else [])"

definition cfn_io :: "json \<Rightarrow> (py_exn + 'a) \<times> cfn_call list \<Rightarrow> 'a io" where
  "cfn_io region r = (fst r, map (Cfn region) (snd r))"

text \<open>
  The pipeline from the check of the application name on: registry, build and push,
  submission through the agent, one look at the stack. A failed build returns the report
  so far with status \<open>error\<close>.
\<close>

definition ecs_deploy_pipeline :: "world \<Rightarrow> deploy_args \<Rightarrow> string \<Rightarrow> json \<Rightarrow> string \<Rightarrow> json io" where
  "ecs_deploy_pipeline w a app_name env_vars response_text =
     (if app_name = []
      then io_return (chat_result ''error''
             (JStr ''Could not determine app name from your message. Please specify the app name.''))
      else
        (let str = py_str (w_repr w);
             deploy_region = da_deploy_region a;
             service_name = app_name @ ''-'' @ str_int (w_now w);
             image_uri = cfg_account_id CONFIG @ ''.dkr.ecr.'' @ str deploy_region @ ''.amazonaws.com/''
                         @ app_name @ '':latest'';
             text1 = response_text
                     @ mark_rocket @ '' **ECS Deployment Workflow for '' @ app_name @ ''**'' @ nl @ nl
                     @ ''Starting automated deployment to '' @ str deploy_region @ ''...'' @ nl
                     @ ''CPU: '' @ str (da_cpu a) @ '', Memory: '' @ str (da_memory a) @ '' MB, Tasks: ''
                     @ str (da_desired_count a) @ '', Port: '' @ str (da_app_port a) @ nl @ nl
                     @ ''**Step 1: Create ECR Repository**'' @ nl
         in
         io_bind (ecs_registry_step w deploy_region app_name) (\<lambda>line1.
         let text2 = text1 @ line1 @ nl @ ''**Step 2: Build and Push Docker Image**'' @ nl in
         io_bind (case build_and_push_docker_image w app_name deploy_region of (r, t) \<Rightarrow> (Inr r, t))
           (\<lambda>build_result.
         if field ''status'' build_result \<noteq> Some (JStr ''success'')
         then io_bind (io_lift (py_item build_result ''message'')) (\<lambda>message.
                io_return (chat_result ''error''
                  (JStr (text2 @ mark_cross @ '' Build failed: '' @ str message @ nl))))
         else
         io_bind (io_lift (py_item build_result ''image_uri'')) (\<lambda>built_uri.
         let text3 = text2
                     @ mark_hammer @ '' Built from: ''
                     @ str (get_or (case build_result of JDict kvs \<Rightarrow> kvs | v \<Rightarrow> []) ''app_path''
                              (JStr ''unknown'')) @ nl
                     @ mark_ok @ '' Image built and pushed: '' @ str built_uri @ nl
                     @ nl @ ''**Step 3: Deploy to ECS Express Mode**'' @ nl
                     @ mark_rocket @ '' Deploying service '' @ service_name @ '' with ''
                     @ str (da_desired_count a) @ '' task(s)...'' @ nl;
             prompt = ecs_deploy_prompt w a service_name image_uri env_vars
         in
         io_bind (io_call (InvokeAgent prompt) (w_agent w prompt)) (\<lambda>result.
         let text4 = text3
                     @ nl @ mark_ok @ '' **Deployment Initiated!**'' @ nl @ nl
                     @ ''Service: '' @ service_name @ nl
                     @ ''Region: '' @ str deploy_region @ nl
                     @ ''CPU: '' @ str (da_cpu a) @ '', Memory: '' @ str (da_memory a) @ '' MB'' @ nl
                     @ ''Desired Tasks: '' @ str (da_desired_count a) @ nl
                     @ ''Port: '' @ str (da_app_port a) @ nl
                     @ ''Image: '' @ image_uri @ nl @ nl
                     @ ''Agent response:'' @ nl @ result @ nl @ nl
                     @ ''**Checking deployment status...**'' @ nl @ nl;
             stack_name = ''ecs-express-'' @ service_name
         in
         io_bind (io_call (Sleeps 5) (Inr ())) (\<lambda>u.
         io_bind (cfn_io deploy_region (check_stack_status (w_cfn w deploy_region) stack_name))
           (\<lambda>stack_status.
         io_return (chat_result ''success''
           (JStr (text4 @ stack_status_lines str stack_name stack_status)))))))))))"

definition ecs_chat_deploy :: "world \<Rightarrow> json \<Rightarrow> json \<Rightarrow> string \<Rightarrow> json io" where
  "ecs_chat_deploy w region arguments response_text =
     (case arguments of
        JDict args \<Rightarrow>
          (let a = ecs_deploy_arguments (w_repr w) region args in
           io_bind (io_lift (ecs_enrich (w_repr w) a)) (\<lambda>(app_name, env_vars).
             ecs_deploy_pipeline w a app_name env_vars response_text))
      | v \<Rightarrow> io_raise (attribute_error (Some v) ''get''))"

subsection \<open>\<open>ecs_chat\<close>\<close>

definition ecs_chat_list :: "world \<Rightarrow> json \<Rightarrow> json \<Rightarrow> string \<Rightarrow> json io" where
  "ecs_chat_list w region arguments response_text =
     io_bind (io_lift (py_get_default arguments ''region'' region)) (\<lambda>list_region.
     let prompt = ''List all ECS services in '' @ py_str (w_repr w) list_region in
     io_bind (io_call (InvokeAgent prompt) (w_agent w prompt)) (\<lambda>result.
     io_return (chat_result ''success''
       (JStr (response_text @ mark_clipboard @ '' **ECS Services in '' @ py_str (w_repr w) list_region
              @ ''**'' @ nl @ nl @ result)))))"

definition ecs_chat_delete :: "world \<Rightarrow> json \<Rightarrow> json \<Rightarrow> string \<Rightarrow> json io" where
  "ecs_chat_delete w region arguments response_text =
     io_bind (io_lift (py_get arguments ''service_name'')) (\<lambda>service_name.
     io_bind (io_lift (py_get_default arguments ''region'' region)) (\<lambda>delete_region.
     if \<not> truthy service_name
     then io_return (chat_result ''error''
            (JStr ''Could not determine service name from your message. Please specify the service name.''))
     else
       (let prompt = ''Delete the ECS service named '' @ py_str (w_repr w) service_name
                     @ '' in region '' @ py_str (w_repr w) delete_region in
        io_bind (io_call (InvokeAgent prompt) (w_agent w prompt)) (\<lambda>result.
        io_return (chat_result ''success''
          (JStr (response_text @ mark_bin @ '' **Deleting Service '' @ py_str (w_repr w) service_name
                 @ ''**'' @ nl @ nl @ result)))))))"

definition ecs_chat_status :: "world \<Rightarrow> json \<Rightarrow> json \<Rightarrow> string \<Rightarrow> json io" where
  "ecs_chat_status w region arguments response_text =
     io_bind (io_lift (py_get_default arguments ''region'' region)) (\<lambda>status_region.
     io_bind (io_call (ListStacks status_region) (w_list_stacks w status_region)) (\<lambda>summaries.
     let ecs_stacks = filter (\<lambda>st. py_in ''ecs-express'' (StackName st)) summaries in
     io_return (chat_result ''success''
       (JStr (response_text
              @ mark_chart @ '' **CloudFormation Stacks in '' @ py_str (w_repr w) status_region @ ''**'' @ nl @ nl
              @ ''Total ECS stacks: '' @ str_int (int (length ecs_stacks)) @ nl @ nl
              @ (if ecs_stacks \<noteq> []
                 then concat (map (\<lambda>st. mark_bullet @ '' **'' @ StackName st @ ''**'' @ nl
                                        @ ''  Status: '' @ SummaryStatus st @ nl
                                        @ ''  Created: '' @ CreationTime st @ nl @ nl) ecs_stacks)
                 else ''No ECS stacks found.'' @ nl))))))"

text \<open>
  The body of the handler after the routing: the decision is read with \<open>get\<close>, an
  operation that is missing or falsy is refused, and the operation selects the branch.
\<close>

definition ecs_chat_body :: "world \<Rightarrow> json \<Rightarrow> json \<Rightarrow> json io" where
  "ecs_chat_body w region routing =
     io_bind (io_lift (py_get routing ''operation'')) (\<lambda>operation.
     io_bind (io_lift (py_get_default routing ''arguments'' (JDict []))) (\<lambda>arguments.
     io_bind (io_lift (py_get_default routing ''reasoning'' (JStr []))) (\<lambda>reasoning.
     if \<not> truthy operation
     then io_return (chat_result ''error''
            (JStr (''LLM failed to determine operation. Routing response: '' @ w_dumps_indent w routing)))
     else
       (let response_text = mark_robot @ '' **Understanding your request...**'' @ nl @ nl
                            @ mark_bulb @ '' '' @ py_str (w_repr w) reasoning @ nl @ nl
        in if operation = JStr ''deploy'' then ecs_chat_deploy w region arguments response_text
           else if operation = JStr ''list'' then ecs_chat_list w region arguments response_text
           else if operation = JStr ''delete'' then ecs_chat_delete w region arguments response_text
           else if operation = JStr ''status'' then ecs_chat_status w region arguments response_text
           else if operation = JStr ''error'' then io_return (chat_result ''error'' reasoning)
           else io_return (chat_result ''error''
                  (JStr (''Unknown operation: '' @ py_str (w_repr w) operation
                         @ ''. The LLM suggested an operation that is not implemented.'')))))))"

text \<open>
  The handler: the region of the request (or its default), the routing, and the body
  under the handler of every exception. The effects are those after the routing.
\<close>

definition ecs_chat :: "world \<Rightarrow> (string \<times> json) list \<Rightarrow> json \<times> effect list" where
  "ecs_chat w data =
     (let region = get_or data ''region'' (JStr ''us-west-2'');
          routing = decision (llm_route_ecs_command (w_loads w) (w_bedrock w))
      in io_catch (ecs_chat_body w region routing) (chat_exception w))"

subsection \<open>The deploy workflow of \<open>eks_chat\<close>\<close>

definition eks_deploy_arguments :: "(json \<Rightarrow> string) \<Rightarrow> (string \<times> json) list \<Rightarrow> deploy_args" where
  "eks_deploy_arguments repr arguments =
     (let app_port = get_or arguments ''port'' (JInt 3000)
      in \<lparr>da_app_name = map_of arguments ''app_name'',
          da_cpu = JNull,
          da_memory = JNull,
          da_desired_count = get_or arguments ''replicas'' (JInt (cfg_default_replicas CONFIG)),
          da_deploy_region = JNull,
          da_app_port = app_port,
          da_env_vars = get_or arguments ''env_vars''
                          (JDict [(''PORT'', JStr (py_str repr app_port)),
                                  (''NODE_ENV'', JStr ''production'')])\<rparr>)"

definition eks_config_env :: "(json \<Rightarrow> string) \<Rightarrow> json \<Rightarrow> json \<Rightarrow> (string \<times> json) list" where
  "eks_config_env repr region app_port =
     [(''AWS_REGION'', region),
      (''DYNAMODB_TABLE'', JStr (cfg_dynamodb_table CONFIG)),
      (''S3_BUCKET'', JStr (cfg_s3_bucket_prefix CONFIG @ ''-'' @ cfg_account_id CONFIG @ ''-''
                            @ py_str repr region)),
      (''COGNITO_USER_POOL_ID'', JStr (cfg_cognito_user_pool_id CONFIG)),
      (''COGNITO_CLIENT_ID'', JStr (cfg_cognito_client_id CONFIG)),
      (''PORT'', JStr (py_str repr app_port)),
      (''NODE_ENV'', JStr ''production'')]"

definition eks_enrich :: "(json \<Rightarrow> string) \<Rightarrow> json \<Rightarrow> deploy_args \<Rightarrow> py_exn + string \<times> json" where
  "eks_enrich repr region a =
     (case da_app_name a of
        Some (JStr app_name) \<Rightarrow>
          if blog_app app_name
          then (case da_env_vars a of
                  JDict env_vars \<Rightarrow>
                    Inr (app_name,
                         JDict (dict_update env_vars (eks_config_env repr region (da_app_port a))))
                | v \<Rightarrow> Inl (attribute_error (Some v) ''update''))
          else Inr (app_name, da_env_vars a)
      | Some v \<Rightarrow> Inl (attribute_error (Some v) ''lower'')
      | None \<Rightarrow> Inl (attribute_error None ''lower''))"

text \<open>Replicas and port given as strings are converted, with the defaults for a ValueError.\<close>

definition coerce_int :: "world \<Rightarrow> json \<Rightarrow> int \<Rightarrow> json" where
  "coerce_int w v dflt =
     (case v of
        JStr s \<Rightarrow> (case w_int w s of Some i \<Rightarrow> JInt i | None \<Rightarrow> JInt dflt)
      | u \<Rightarrow> u)"

definition mcp_call :: "world \<Rightarrow> string \<Rightarrow> json \<Rightarrow> json io" where
  "mcp_call w tool_name arguments = io_call (McpTool tool_name arguments) (w_mcp w tool_name arguments)"

definition eks_deploy_tool_arguments ::
  "json \<Rightarrow> string \<Rightarrow> string \<Rightarrow> json \<Rightarrow> json \<Rightarrow> json \<Rightarrow> json \<Rightarrow> json \<Rightarrow> json" where
  "eks_deploy_tool_arguments cluster app_name image_uri app_port replicas env_vars region role_arn =
     JDict [(''cluster_name'', cluster),
            (''app_name'', JStr app_name),
            (''image_uri'', JStr image_uri),
            (''port'', app_port),
            (''replicas'', replicas),
            (''env_vars'', env_vars),
            (''region'', region),
            (''role_arn'', role_arn),
            (''service_account_name'', JStr (app_name @ ''-sa''))]"

definition eks_deploy_pipeline ::
  "world \<Rightarrow> json \<Rightarrow> json \<Rightarrow> deploy_args \<Rightarrow> string \<Rightarrow> json \<Rightarrow> string \<Rightarrow> json io" where
  "eks_deploy_pipeline w cluster region a app_name env_vars response_text =
     (let str = py_str (w_repr w);
          replicas = coerce_int w (da_desired_count a) (cfg_default_replicas CONFIG);
          app_port = coerce_int w (da_app_port a) 3000
      in
      if app_name = []
      then io_return (chat_result ''error''
             (JStr ''Could not determine app name from your message. Please specify the app name.''))
      else
        (let image_uri = cfg_account_id CONFIG @ ''.dkr.ecr.'' @ str region @ ''.amazonaws.com/''
                         @ app_name @ '':latest'';
             text1 = response_text
                     @ mark_rocket @ '' **EKS Deployment Workflow for '' @ app_name @ ''**'' @ nl @ nl
                     @ ''Starting automated deployment to '' @ str cluster @ '' in '' @ str region @ ''...'' @ nl
                     @ ''Replicas: '' @ str replicas @ '', Port: '' @ str app_port @ nl @ nl
                     @ ''**Step 1: Setup OIDC Provider**'' @ nl
         in
         io_bind (mcp_call w ''setup_oidc_provider'' (JDict [(''cluster_name'', cluster), (''region'', region)]))
           (\<lambda>oidc_result.
         let text2 = text1
                     @ (case oidc_result of
                          JDict kvs \<Rightarrow>
                            if get_or kvs ''status'' JNull \<in> set [JStr ''exists'', JStr ''created'']
                            then mark_ok @ '' OIDC Provider: '' @ str (get_or kvs ''status'' JNull) @ nl
                            else mark_warning @ '' OIDC: '' @ str (get_or kvs ''message'' (JStr ''Unknown status'')) @ nl
                        | v \<Rightarrow> [])
                     @ nl @ ''**Step 2: Create IRSA Role**'' @ nl
         in
         io_bind (mcp_call w ''create_irsa_role''
                    (JDict [(''cluster_name'', cluster),
                            (''app_name'', JStr app_name),
                            (''region'', region),
                            (''s3_bucket'', JStr (cfg_s3_bucket_prefix CONFIG @ ''-'' @ cfg_account_id CONFIG
                                                  @ ''-'' @ str region)),
                            (''dynamodb_table'', JStr (cfg_dynamodb_table CONFIG))]))
           (\<lambda>irsa_result.
         let irsa_ok = (case irsa_result of
                          JDict kvs \<Rightarrow> get_or kvs ''status'' JNull \<in> set [JStr ''created'', JStr ''updated'']
                        | v \<Rightarrow> True);
             role_arn = (case irsa_result of JDict kvs \<Rightarrow> get_or kvs ''role_arn'' JNull | v \<Rightarrow> JNull)
         in
         if \<not> irsa_ok
         then io_return (chat_result ''error''
                (JStr (text2 @ mark_warning @ '' IRSA: ''
                       @ str (get_or (case irsa_result of JDict kvs \<Rightarrow> kvs | v \<Rightarrow> []) ''message''
                                (JStr ''Unknown status'')) @ nl)))
         else
         (let text3 = text2
                      @ (case irsa_result of
                           JDict kvs \<Rightarrow> mark_ok @ '' IRSA Role: '' @ str role_arn @ nl
                         | v \<Rightarrow> [])
                      @ nl @ ''**Step 3: Build and Push Docker Image**'' @ nl
          in
          io_bind (case build_and_push_docker_image w app_name region of (r, t) \<Rightarrow> (Inr r, t))
            (\<lambda>build_result.
          if field ''status'' build_result \<noteq> Some (JStr ''success'')
          then io_bind (io_lift (py_item build_result ''message'')) (\<lambda>message.
                 io_return (chat_result ''error''
                   (JStr (text3 @ mark_cross @ '' Build failed: '' @ str message @ nl))))
          else
          io_bind (io_lift (py_item build_result ''image_uri'')) (\<lambda>built_uri.
          let text4 = text3
                      @ mark_hammer @ '' Built from: ''
                      @ str (get_or (case build_result of JDict kvs \<Rightarrow> kvs | v \<Rightarrow> []) ''app_path''
                               (JStr ''unknown'')) @ nl
                      @ mark_ok @ '' Image built and pushed: '' @ str built_uri @ nl
                      @ nl @ ''**Step 4: Deploy to EKS**'' @ nl
                      @ mark_rocket @ '' Deploying to Kubernetes...'' @ nl
          in
          io_bind (mcp_call w ''deploy_to_eks_with_irsa''
                     (eks_deploy_tool_arguments cluster app_name image_uri app_port replicas env_vars
                        region role_arn))
            (\<lambda>deploy_result.
          case deploy_result of
            JDict kvs \<Rightarrow>
              if get_or kvs ''status'' JNull = JStr ''success''
              then io_return (chat_result ''success''
                     (JStr (text4
                            @ nl @ mark_ok @ '' **Deployment Complete!**'' @ nl @ nl
                            @ (if truthy (get_or kvs ''endpoint'' JNull)
                               then mark_globe @ '' Endpoint: '' @ str (get_or kvs ''endpoint'' JNull) @ nl
                               else [])
                            @ mark_package @ '' App: '' @ app_name @ nl
                            @ mark_numbers @ '' Replicas: '' @ str (get_or kvs ''replicas'' replicas) @ nl
                            @ nl @ mark_bulb
                            @ '' Access your app at the endpoint above (may take 2-3 minutes for LoadBalancer to be ready)''
                            @ nl)))
              else io_return (chat_result ''error''
                     (JStr (text4 @ mark_cross @ '' Deployment failed: ''
                            @ str (get_or kvs ''message'' (JStr (str deploy_result))) @ nl)))
          | v \<Rightarrow>
              io_return (chat_result ''error''
                (JStr (text4 @ mark_cross @ '' Unexpected response type: '' @ type_name (Some v) @ nl
                       @ ''Response: '' @ py_take 500 (str v) @ nl)))))))))))"

definition eks_chat_deploy :: "world \<Rightarrow> json \<Rightarrow> json \<Rightarrow> json \<Rightarrow> string \<Rightarrow> json io" where
  "eks_chat_deploy w cluster region arguments response_text =
     (case arguments of
        JDict args \<Rightarrow>
          (let a = eks_deploy_arguments (w_repr w) args in
           io_bind (io_lift (eks_enrich (w_repr w) region a)) (\<lambda>(app_name, env_vars).
             eks_deploy_pipeline w cluster region a app_name env_vars response_text))
      | v \<Rightarrow> io_raise (attribute_error (Some v) ''get''))"

subsection \<open>A world for the examples\<close>

text \<open>
  Three answers of the oracle (an empty object, an operation the handler does not know, a
  deploy of the blog on port 8080), a \<open>json.loads\<close> that parses exactly these, and
  a world in which the oracle gives one answer and the login to the registry fails.
  \<open>fenced\<close> puts an answer in a code fence, between line feeds and no-break spaces
  (U+00A0), which \<open>json.loads\<close> does not take for white space.
\<close>

definition dq :: string where
  "dq = [CHR 0x22]"

definition text_empty_object :: string where
  "text_empty_object = ''{}''"

definition text_scale :: string where
  "text_scale = ''{'' @ dq @ ''operation'' @ dq @ '': '' @ dq @ ''scale'' @ dq @ ''}''"

definition text_deploy_blog :: string where
  "text_deploy_blog =
     ''{'' @ dq @ ''operation'' @ dq @ '': '' @ dq @ ''deploy'' @ dq @ '', ''
     @ dq @ ''arguments'' @ dq @ '': {'' @ dq @ ''app_name'' @ dq @ '': '' @ dq @ ''blog'' @ dq @ '', ''
     @ dq @ ''port'' @ dq @ '': 8080}}''"

definition nbsp :: string where
  "nbsp = [CHR 0xC2, CHR 0xA0]"

definition fenced :: "string \<Rightarrow> string" where
  "fenced body = fence_json @ nl @ nbsp @ body @ nbsp @ nl @ fence"

definition demo_loads :: "string \<Rightarrow> string + json" where
  "demo_loads s =
     (if s = text_empty_object then Inr (JDict [])
      else if s = text_scale then Inr (JDict [(''operation'', JStr ''scale'')])
      else if s = text_deploy_blog
      then Inr (JDict [(''operation'', JStr ''deploy''),
                       (''arguments'', JDict [(''app_name'', JStr ''blog''), (''port'', JInt 8080)])])
      else Inl ''Expecting value: line 1 column 1 (char 0)'')"

definition demo_world :: "string \<Rightarrow> world" where
  "demo_world answer =
     \<lparr>w_loads = demo_loads,
      w_bedrock = (\<lambda>i. Text answer),
      w_repr = (\<lambda>v. ''<repr>''),
      w_dumps = (\<lambda>v. ''<json>''),
      w_dumps_indent = (\<lambda>v. ''<json>''),
      w_format_exc = (\<lambda>e. ''Traceback (most recent call last)''),
      w_int = (\<lambda>s. None),
      w_now = 1700000000,
      w_ecr_create = (\<lambda>region name. Inr ()),
      w_path_exists = (\<lambda>path. False),
      w_run = (\<lambda>cmd inp. Inr \<lparr>returncode = 1, stdout = [], stderr = ''denied''\<rparr>),
      w_signal_name = (\<lambda>n. if n = 9 then Some ''SIGKILL'' else if n = 15 then Some ''SIGTERM'' else None),
      w_agent = (\<lambda>prompt. Inr ''ok''),
      w_mcp = (\<lambda>tool_name arguments. Inr (JDict [(''status'', JStr ''success'')])),
      w_cfn = (\<lambda>region. cfn_of Map.empty),
      w_list_stacks = (\<lambda>region. Inr [])\<rparr>"

subsection \<open>Properties of computations and further examples\<close>

text \<open>
  \<open>io_within S m\<close>: every effect of \<open>m\<close> is in \<open>S\<close>. \<open>io_yields P m\<close>: a
  value \<open>m\<close> returns satisfies \<open>P\<close>. The other definitions name the effects a build
  and the two pipelines can have, the shape of a build result, the heading of the deploy
  report, a variable of an enriched environment, and the arguments of an example.
\<close>

definition io_within :: "effect set \<Rightarrow> 'a io \<Rightarrow> bool" where
  "io_within S m = (set (snd m) \<subseteq> S)"

definition io_yields :: "('a \<Rightarrow> bool) \<Rightarrow> 'a io \<Rightarrow> bool" where
  "io_yields P m = (\<forall>y. fst m = Inr y \<longrightarrow> P y)"

definition build_effects :: "json \<Rightarrow> string \<Rightarrow> effect set" where
  "build_effects region app_name = insert (EcrCreateRepository region app_name) (range Subprocess)"

definition build_result_ok :: "json \<Rightarrow> bool" where
  "build_result_ok j = (field ''status'' j = Some (JStr ''success'') \<or> (\<exists>msg. j = build_error msg))"

definition deploy_heading :: "world \<Rightarrow> deploy_args \<Rightarrow> string \<Rightarrow> string" where
  "deploy_heading w a app_name =
     mark_rocket @ '' **ECS Deployment Workflow for '' @ app_name @ ''**'' @ nl @ nl
     @ ''Starting automated deployment to '' @ py_str (w_repr w) (da_deploy_region a) @ ''...'' @ nl
     @ ''CPU: '' @ py_str (w_repr w) (da_cpu a) @ '', Memory: '' @ py_str (w_repr w) (da_memory a)
     @ '' MB, Tasks: '' @ py_str (w_repr w) (da_desired_count a) @ '', Port: ''
     @ py_str (w_repr w) (da_app_port a) @ nl @ nl
     @ ''**Step 1: Create ECR Repository**'' @ nl"

definition ecs_pipeline_effects :: "world \<Rightarrow> deploy_args \<Rightarrow> string \<Rightarrow> json \<Rightarrow> effect set" where
  "ecs_pipeline_effects w a app_name env_vars =
     build_effects (da_deploy_region a) app_name
     \<union> {InvokeAgent (ecs_deploy_prompt w a (app_name @ ''-'' @ str_int (w_now w))
                       (cfg_account_id CONFIG @ ''.dkr.ecr.'' @ py_str (w_repr w) (da_deploy_region a)
                        @ ''.amazonaws.com/'' @ app_name @ '':latest'') env_vars),
         Sleeps 5}
     \<union> range (Cfn (da_deploy_region a))"

definition eks_pipeline_effects :: "world \<Rightarrow> json \<Rightarrow> json \<Rightarrow> deploy_args \<Rightarrow> string \<Rightarrow> json \<Rightarrow> effect set" where
  "eks_pipeline_effects w cluster region a app_name env_vars =
     build_effects region app_name
     \<union> {e. \<exists>args. e = McpTool ''setup_oidc_provider'' args}
     \<union> {e. \<exists>args. e = McpTool ''create_irsa_role'' args}
     \<union> {e. \<exists>args. e = McpTool ''deploy_to_eks_with_irsa'' args \<and> field ''env_vars'' args = Some env_vars}"

definition enriched_env :: "py_exn + string \<times> json \<Rightarrow> string \<Rightarrow> json option" where
  "enriched_env r k = (case r of Inl e \<Rightarrow> None | Inr (name, env_vars) \<Rightarrow> field k env_vars)"

definition blog_arguments :: "(string \<times> json) list" where
  "blog_arguments =
     [(''app_name'', JStr ''blog''),
      (''port'', JInt 8080),
      (''env_vars'', JDict [(''DYNAMODB_TABLE'', JStr ''their-table''), (''PORT'', JStr ''1234'')])]"

section \<open>The REST handler (container-migration/lambda_function.py)\<close>

text \<open>
  What \<open>handle_deploy_ecs_express_service\<close> reaches: \<open>repr\<close> and \<open>json.dumps\<close>,
  the account of the caller, the VPCs of the region (the default ones, and all), the
  subnets of a VPC (the public ones, and all), the express gateway API and
  \<open>create_stack\<close>.
\<close>

record lambda_world =
  lw_repr :: "json \<Rightarrow> string"
  lw_dumps :: "json \<Rightarrow> string"
  lw_account :: "py_exn + string"
  lw_default_vpcs :: "json \<Rightarrow> py_exn + string list"
  lw_all_vpcs :: "json \<Rightarrow> py_exn + string list"
  lw_public_subnets :: "json \<Rightarrow> json \<Rightarrow> py_exn + string list"
  lw_all_subnets :: "json \<Rightarrow> json \<Rightarrow> py_exn + string list"
  lw_create_express :: "json \<Rightarrow> json \<Rightarrow> py_exn + (string \<times> json) list"
  lw_create_stack :: "json \<Rightarrow> string \<Rightarrow> json \<Rightarrow> py_exn + unit"

definition create_response :: "(json \<Rightarrow> string) \<Rightarrow> int \<Rightarrow> json \<Rightarrow> json" where
  "create_response dumps status_code body =
     JDict [(''statusCode'', JInt status_code),
            (''headers'',
             JDict [(''Content-Type'', JStr ''application/json''),
                    (''Access-Control-Allow-Origin'', JStr ''*''),
                    (''Access-Control-Allow-Methods'', JStr ''GET, POST, OPTIONS''),
                    (''Access-Control-Allow-Headers'', JStr ''Content-Type'')]),
            (''body'', JStr (dumps body))]"

text \<open>\<open>try: m except Exception as e: h e\<close> where the handler has effects of its own.\<close>

definition io_try :: "'a io \<Rightarrow> (py_exn \<Rightarrow> 'a io) \<Rightarrow> 'a io" where
  "io_try m h =
     (case m of
        (Inl e, t) \<Rightarrow> (case h e of (r, t') \<Rightarrow> (r, t @ t'))
      | (Inr x, t) \<Rightarrow> (Inr x, t))"

text \<open>\<open>env_vars.items()\<close>: the pairs of a dictionary, an AttributeError otherwise.\<close>

definition dict_items :: "json \<Rightarrow> py_exn + (string \<times> json) list" where
  "dict_items d = (case d of JDict kvs \<Rightarrow> Inr kvs | v \<Rightarrow> Inl (attribute_error (Some v) ''items''))"

text \<open>
  The VPC and the subnets: those of the request, or else the ones discovered. The result
  is the pair, or the response the handler returns at once when there is none.
\<close>

definition discover_vpc :: "lambda_world \<Rightarrow> json \<Rightarrow> json \<Rightarrow> (json + json) io" where
  "discover_vpc lw region vpc_id =
     (if \<not> truthy vpc_id
      then io_bind (io_call (DescribeVpcs region True) (lw_default_vpcs lw region)) (\<lambda>vpcs.
             case vpcs of
               v # others \<Rightarrow> io_return (Inr (JStr v))
             | [] \<Rightarrow>
                 io_bind (io_call (DescribeVpcs region False) (lw_all_vpcs lw region)) (\<lambda>vpcs'.
                   case vpcs' of
                     v # others \<Rightarrow> io_return (Inr (JStr v))
                   | [] \<Rightarrow> io_return (Inl (create_response (lw_dumps lw) 400
                                              (JDict [(''error'', JStr ''No VPC found in region'')])))))
      else io_return (Inr vpc_id))"

definition discover_subnets :: "lambda_world \<Rightarrow> json \<Rightarrow> json \<Rightarrow> json \<Rightarrow> (json + json) io" where
  "discover_subnets lw region vpc_id subnet_ids =
     (if \<not> truthy subnet_ids
      then io_bind (io_call (DescribeSubnets region vpc_id True) (lw_public_subnets lw region vpc_id))
             (\<lambda>subnets.
           io_bind (if subnets \<noteq> []
                    then io_return subnets
                    else io_call (DescribeSubnets region vpc_id False) (lw_all_subnets lw region vpc_id))
             (\<lambda>ids.
           if ids = []
           then io_return (Inl (create_response (lw_dumps lw) 400
                                  (JDict [(''error'', JStr (''No subnets found in VPC ''
                                                            @ py_str (lw_repr lw) vpc_id))])))
           else io_return (Inr (JList (map JStr ids)))))
      else io_return (Inr subnet_ids))"

definition discover_network :: "lambda_world \<Rightarrow> json \<Rightarrow> json \<Rightarrow> json \<Rightarrow> (json + json \<times> json) io" where
  "discover_network lw region vpc_id subnet_ids =
     (if \<not> truthy vpc_id \<or> \<not> truthy subnet_ids
      then io_bind (discover_vpc lw region vpc_id) (\<lambda>v.
             case v of
               Inl response \<Rightarrow> io_return (Inl response)
             | Inr vpc_id' \<Rightarrow>
                 io_bind (discover_subnets lw region vpc_id' subnet_ids) (\<lambda>s.
                   case s of
                     Inl response \<Rightarrow> io_return (Inl response)
                   | Inr subnet_ids' \<Rightarrow> io_return (Inr (vpc_id', subnet_ids'))))
      else io_return (Inr (vpc_id, subnet_ids)))"

definition log_configuration :: "string \<Rightarrow> json \<Rightarrow> string \<Rightarrow> string \<Rightarrow> string \<Rightarrow> json" where
  "log_configuration service_name region k_driver k_options driver_value =
     JDict [(k_driver, JStr driver_value),
            (k_options,
             JDict [(''awslogs-create-group'', JStr ''true''),
                    (''awslogs-group'', JStr (''/ecs/'' @ service_name)),
                    (''awslogs-region'', region),
                    (''awslogs-stream-prefix'', JStr ''ecs'')])]"

text \<open>The keyword arguments of \<open>create_express_gateway_service\<close>.\<close>

definition express_request ::
  "(json \<Rightarrow> string) \<Rightarrow> json \<Rightarrow> json \<Rightarrow> (string \<times> json) list \<Rightarrow> json \<Rightarrow> json \<Rightarrow> json \<Rightarrow> json \<Rightarrow> json
     \<Rightarrow> json" where
  "express_request repr service_name image_uri env_items cpu memory port region subnet_ids =
     JDict [(''serviceName'', service_name),
            (''taskDefinition'',
             JDict [(''cpu'', cpu),
                    (''memory'', memory),
                    (''containerDefinitions'',
                     JList [JDict [(''name'', JStr ''Main''),
                                   (''image'', image_uri),
                                   (''portMappings'',
                                    JList [JDict [(''containerPort'', port), (''protocol'', JStr ''tcp'')]]),
                                   (''environment'',
                                    JList (map (\<lambda>(k, v). JDict [(''name'', JStr k),
                                                                 (''value'', JStr (py_str repr v))])
                                               env_items)),
                                   (''logConfiguration'',
                                    log_configuration (py_str repr service_name) region
                                      ''logDriver'' ''options'' ''awslogs'')]])]),
            (''desiredCount'', JInt 1),
            (''networkConfiguration'',
             JDict [(''awsvpcConfiguration'',
                     JDict [(''assignPublicIp'', JStr ''ENABLED''), (''subnets'', subnet_ids)])]),
            (''loadBalancerConfiguration'',
             JDict [(''containerName'', JStr ''Main''), (''containerPort'', port)]),
            (''tags'',
             JList [JDict [(''key'', JStr ''Project''), (''value'', JStr ''ECS-Express-Migration'')],
                    JDict [(''key'', JStr ''ManagedBy''), (''value'', JStr ''MCP-Server'')],
                    JDict [(''key'', JStr ''ServiceName''), (''value'', service_name)],
                    JDict [(''key'', JStr ''Environment''), (''value'', JStr ''Demo'')]])]"

definition express_success_body ::
  "(json \<Rightarrow> string) \<Rightarrow> json \<Rightarrow> json \<Rightarrow> json \<Rightarrow> json \<Rightarrow> json \<Rightarrow> json" where
  "express_success_body repr service_arn service_name port vpc_id subnet_ids =
     JDict [(''status'', JStr ''success''),
            (''service_arn'', service_arn),
            (''service_name'', service_name),
            (''container_port'', port),
            (''vpc_id'', vpc_id),
            (''subnet_ids'', subnet_ids),
            (''message'', JStr (''Express Gateway service '' @ py_str repr service_name
                                @ '' created successfully'')),
            (''details'',
             JList [JStr ''ECS Express Gateway service deployed'',
                    JStr (''Service ARN: '' @ py_str repr service_arn),
                    JStr (''Container running on port '' @ py_str repr port),
                    JStr ''Load balancer automatically provisioned'',
                    JStr ''Service ready for traffic''])]"

definition ref :: "string \<Rightarrow> json" where
  "ref name = JDict [(''Ref'', JStr name)]"

text \<open>The template of the fallback: cluster, two security groups, load balancer, target
  group, listener, task definition and service, with four outputs.\<close>

definition fallback_resources ::
  "(json \<Rightarrow> string) \<Rightarrow> string \<Rightarrow> json \<Rightarrow> json \<Rightarrow> (string \<times> json) list \<Rightarrow> json \<Rightarrow> json \<Rightarrow> json \<Rightarrow> json
     \<Rightarrow> json \<Rightarrow> json \<Rightarrow> (string \<times> json) list" where
  "fallback_resources repr account_id service_name image_uri env_items cpu memory port region vpc_id
     subnet_ids =
     (let sn = py_str repr service_name in
      [(''ECSCluster'',
        JDict [(''Type'', JStr ''AWS::ECS::Cluster''),
               (''Properties'', JDict [(''ClusterName'', JStr (sn @ ''-cluster''))])]),
       (''ALBSecurityGroup'',
        JDict [(''Type'', JStr ''AWS::EC2::SecurityGroup''),
               (''Properties'',
                JDict [(''GroupDescription'', JStr ''ALB Security Group''),
                       (''VpcId'', vpc_id),
                       (''SecurityGroupIngress'',
                        JList [JDict [(''IpProtocol'', JStr ''tcp''),
                                      (''FromPort'', JInt 80),
                                      (''ToPort'', JInt 80),
                                      (''CidrIp'', JStr ''0.0.0.0/0'')]])])]),
       (''ECSTaskSecurityGroup'',
        JDict [(''Type'', JStr ''AWS::EC2::SecurityGroup''),
               (''Properties'',
                JDict [(''GroupDescription'', JStr ''ECS Task Security Group''),
                       (''VpcId'', vpc_id),
                       (''SecurityGroupIngress'',
                        JList [JDict [(''IpProtocol'', JStr ''tcp''),
                                      (''FromPort'', port),
                                      (''ToPort'', port),
                                      (''SourceSecurityGroupId'', ref ''ALBSecurityGroup'')]])])]),
       (''ApplicationLoadBalancer'',
        JDict [(''Type'', JStr ''AWS::ElasticLoadBalancingV2::LoadBalancer''),
               (''Properties'',
                JDict [(''Name'', JStr (sn @ ''-alb'')),
                       (''Scheme'', JStr ''internet-facing''),
                       (''Type'', JStr ''application''),
                       (''SecurityGroups'', JList [ref ''ALBSecurityGroup'']),
                       (''Subnets'', subnet_ids)])]),
       (''TargetGroup'',
        JDict [(''Type'', JStr ''AWS::ElasticLoadBalancingV2::TargetGroup''),
               (''Properties'',
                JDict [(''Name'', JStr (sn @ ''-tg'')),
                       (''Port'', port),
                       (''Protocol'', JStr ''HTTP''),
                       (''TargetType'', JStr ''ip''),
                       (''VpcId'', vpc_id),
                       (''HealthCheckPath'', JStr ''/''),
                       (''HealthCheckPort'', JStr (py_str repr port)),
                       (''HealthCheckProtocol'', JStr ''HTTP''),
                       (''HealthCheckIntervalSeconds'', JInt 30),
                       (''HealthCheckTimeoutSeconds'', JInt 5),
                       (''HealthyThresholdCount'', JInt 2),
                       (''UnhealthyThresholdCount'', JInt 3)])]),
       (''ALBListener'',
        JDict [(''Type'', JStr ''AWS::ElasticLoadBalancingV2::Listener''),
               (''Properties'',
                JDict [(''DefaultActions'',
                        JList [JDict [(''Type'', JStr ''forward''),
                                      (''TargetGroupArn'', ref ''TargetGroup'')]]),
                       (''LoadBalancerArn'', ref ''ApplicationLoadBalancer''),
                       (''Port'', JInt 80),
                       (''Protocol'', JStr ''HTTP'')])]),
       (''TaskDefinition'',
        JDict [(''Type'', JStr ''AWS::ECS::TaskDefinition''),
               (''Properties'',
                JDict [(''Family'', service_name),
                       (''Cpu'', cpu),
                       (''Memory'', memory),
                       (''NetworkMode'', JStr ''awsvpc''),
                       (''RequiresCompatibilities'', JList [JStr ''FARGATE'']),
                       (''ExecutionRoleArn'', JStr (''arn:aws:iam::'' @ account_id @ '':role/ecsTaskExecutionRole'')),
                       (''TaskRoleArn'', JStr (''arn:aws:iam::'' @ account_id @ '':role/BlogAppECSTaskRole'')),
                       (''ContainerDefinitions'',
                        JList [JDict [(''Name'', JStr ''Main''),
                                      (''Image'', image_uri),
                                      (''PortMappings'',
                                       JList [JDict [(''ContainerPort'', port), (''Protocol'', JStr ''tcp'')]]),
                                      (''Environment'',
                                       JList (map (\<lambda>(k, v). JDict [(''Name'', JStr k),
                                                                    (''Value'', JStr (py_str repr v))])
                                                  env_items)),
                                      (''LogConfiguration'',
                                       log_configuration sn region ''LogDriver'' ''Options'' ''awslogs'')]])])]),
       (''ECSService'',
        JDict [(''Type'', JStr ''AWS::ECS::Service''),
               (''DependsOn'', JList [JStr ''ALBListener'']),
               (''Properties'',
                JDict [(''Cluster'', ref ''ECSCluster''),
                       (''ServiceName'', service_name),
                       (''TaskDefinition'', ref ''TaskDefinition''),
                       (''DesiredCount'', JInt 1),
                       (''LaunchType'', JStr ''FARGATE''),
                       (''NetworkConfiguration'',
                        JDict [(''AwsvpcConfiguration'',
                                JDict [(''AssignPublicIp'', JStr ''ENABLED''),
                                       (''SecurityGroups'', JList [ref ''ECSTaskSecurityGroup'']),
                                       (''Subnets'', subnet_ids)])]),
                       (''LoadBalancers'',
                        JList [JDict [(''TargetGroupArn'', ref ''TargetGroup''),
                                      (''ContainerName'', JStr ''Main''),
                                      (''ContainerPort'', port)]])])])])"

definition fallback_outputs :: "(string \<times> json) list" where
  "fallback_outputs =
     [(''LoadBalancerURL'',
       JDict [(''Value'', JDict [(''Fn::GetAtt'', JList [JStr ''ApplicationLoadBalancer'', JStr ''DNSName''])]),
              (''Description'', JStr ''Load Balancer URL'')]),
      (''TargetGroupArn'',
       JDict [(''Value'', ref ''TargetGroup''), (''Description'', JStr ''Target Group ARN'')]),
      (''ECSTaskSecurityGroupId'',
       JDict [(''Value'', ref ''ECSTaskSecurityGroup''),
              (''Description'', JStr ''ECS Task Security Group ID'')]),
      (''ServiceArn'',
       JDict [(''Value'', ref ''ECSService''), (''Description'', JStr ''ECS Service ARN'')])]"

definition fallback_template ::
  "(json \<Rightarrow> string) \<Rightarrow> string \<Rightarrow> json \<Rightarrow> json \<Rightarrow> (string \<times> json) list \<Rightarrow> json \<Rightarrow> json \<Rightarrow> json \<Rightarrow> json
     \<Rightarrow> json \<Rightarrow> json \<Rightarrow> json" where
  "fallback_template repr account_id service_name image_uri env_items cpu memory port region vpc_id
     subnet_ids =
     JDict [(''AWSTemplateFormatVersion'', JStr ''2010-09-09''),
            (''Resources'',
             JDict (fallback_resources repr account_id service_name image_uri env_items cpu memory port
                      region vpc_id subnet_ids)),
            (''Outputs'', JDict fallback_outputs)]"

definition fallback_body :: "(json \<Rightarrow> string) \<Rightarrow> json \<Rightarrow> json \<Rightarrow> json \<Rightarrow> json \<Rightarrow> json" where
  "fallback_body repr service_name port vpc_id subnet_ids =
     (let sn = py_str repr service_name; stack_name = sn @ ''-alb-stack'' in
      JDict [(''status'', JStr ''success''),
             (''deployment_status'', JStr ''in_progress''),
             (''stack_name'', JStr stack_name),
             (''service_name'', service_name),
             (''container_port'', port),
             (''vpc_id'', vpc_id),
             (''subnet_ids'', subnet_ids),
             (''message'', JStr (''ECS service deployment started for '' @ sn)),
             (''details'',
              JList [JStr (''CloudFormation stack '' @ stack_name @ '' creation initiated''),
                     JStr ''ALB and target group will be created automatically'',
                     JStr ''ECS service will be deployed once infrastructure is ready'',
                     JStr (''Container will run on port '' @ py_str repr port),
                     JStr ''Check deployment status using check_ecs_service_status tool'']),
             (''next_steps'',
              JList [JStr ''Wait 3-5 minutes for infrastructure provisioning'',
                     JStr (''Use check_ecs_service_status with stack_name: '' @ stack_name),
                     JStr ''Service will be available at ALB DNS once ready''])])"

text \<open>
  The submission: the express gateway API is tried, and any exception of the attempt
  leads to the stack of the fallback template. An exception of the fallback itself is
  left to the handler around it.
\<close>

definition submit_express ::
  "lambda_world \<Rightarrow> string \<Rightarrow> json \<Rightarrow> json \<Rightarrow> json \<Rightarrow> json \<Rightarrow> json \<Rightarrow> json \<Rightarrow> json \<Rightarrow> json \<Rightarrow> json
     \<Rightarrow> json io" where
  "submit_express lw account_id service_name image_uri env_vars cpu memory port region vpc_id subnet_ids =
     io_try
       (io_bind (io_lift (dict_items env_vars)) (\<lambda>env_items.
        let request = express_request (lw_repr lw) service_name image_uri env_items cpu memory port
                        region subnet_ids in
        io_bind (io_call (CreateExpressGatewayService request) (lw_create_express lw region request))
          (\<lambda>response.
        io_return (create_response (lw_dumps lw) 200
          (express_success_body (lw_repr lw) (get_or response ''serviceArn'' JNull) service_name port
             vpc_id subnet_ids)))))
       (\<lambda>express_error.
        io_bind (io_lift (dict_items env_vars)) (\<lambda>env_items.
        let template = fallback_template (lw_repr lw) account_id service_name image_uri env_items cpu
                         memory port region vpc_id subnet_ids;
            stack_name = py_str (lw_repr lw) service_name @ ''-alb-stack''
        in
        io_bind (io_call (Cfn region (CreateStack stack_name template))
                   (lw_create_stack lw region stack_name template)) (\<lambda>u.
        io_return (create_response (lw_dumps lw) 200
          (fallback_body (lw_repr lw) service_name port vpc_id subnet_ids)))))"

definition handle_deploy_ecs_express_service :: "lambda_world \<Rightarrow> (string \<times> json) list \<Rightarrow> json \<times> effect list" where
  "handle_deploy_ecs_express_service lw request_data =
     (let service_name = get_or request_data ''service_name'' JNull;
          image_uri = get_or request_data ''image_uri'' JNull;
          env_vars = get_or request_data ''environment_vars'' (JDict []);
          cpu = get_or request_data ''cpu'' (JStr ''256'');
          memory = get_or request_data ''memory'' (JStr ''512'');
          port = get_or request_data ''port'' (JInt 3000);
          region = get_or request_data ''region'' (JStr ''us-west-2'');
          vpc_id = get_or request_data ''vpc_id'' JNull;
          subnet_ids = get_or request_data ''subnet_ids'' JNull
      in if \<not> truthy service_name \<or> \<not> truthy image_uri
         then (create_response (lw_dumps lw) 400
                 (JDict [(''error'', JStr ''service_name and image_uri are required'')]), [])
         else
           io_catch
             (io_bind (io_call GetCallerIdentity (lw_account lw)) (\<lambda>account_id.
              io_bind (discover_network lw region vpc_id subnet_ids) (\<lambda>network.
              case network of
                Inl response \<Rightarrow> io_return response
              | Inr (vpc_id', subnet_ids') \<Rightarrow>
                  submit_express lw account_id service_name image_uri env_vars cpu memory port region
                    vpc_id' subnet_ids')))
             (\<lambda>e. create_response (lw_dumps lw) 500
                     (JDict [(''error'', JStr (''Failed to deploy service: '' @ str_exn e))])))"

text \<open>The types of the resources of a template, by logical name.\<close>

definition resource_types :: "json \<Rightarrow> (string \<times> json option) list" where
  "resource_types template =
     (case field ''Resources'' template of
        Some (JDict rs) \<Rightarrow> map (\<lambda>(k, r). (k, field ''Type'' r)) rs
      | other \<Rightarrow> [])"

text \<open>
  A request with its network given, and a world in which the express gateway API is not
  available; \<open>taken\<close> are the names of the stacks that exist.
\<close>

definition demo_request :: "(string \<times> json) list" where
  "demo_request =
     [(''service_name'', JStr ''blog''),
      (''image_uri'', JStr ''<AWS_ACCOUNT_ID>.dkr.ecr.us-west-2.amazonaws.com/blog:latest''),
      (''vpc_id'', JStr ''vpc-1''),
      (''subnet_ids'', JList [JStr ''subnet-1'', JStr ''subnet-2''])]"

definition demo_lambda_world :: "string list \<Rightarrow> lambda_world" where
  "demo_lambda_world taken =
     \<lparr>lw_repr = (\<lambda>v. ''<repr>''),
      lw_dumps = (\<lambda>v. ''<json>''),
      lw_account = Inr ''123456789012'',
      lw_default_vpcs = (\<lambda>region. Inr []),
      lw_all_vpcs = (\<lambda>region. Inr []),
      lw_public_subnets = (\<lambda>region vpc_id. Inr []),
      lw_all_subnets = (\<lambda>region vpc_id. Inr []),
      lw_create_express = (\<lambda>region request. Inl (PyException ''Unknown operation: CreateExpressGatewayService'')),
      lw_create_stack = (\<lambda>region name template.
                           if name \<in> set taken
                           then Inl (ClientError (''Stack ['' @ name @ ''] already exists''))
                           else Inr ())\<rparr>"

section \<open>The retry policy of the router\<close>

lemma route_loop_retry:
  assumes "throttled loads oracle attempt" "attempt < max_retries - 1"
  shows "route_loop failed exhausted loads oracle attempt calls slept =
         route_loop failed exhausted loads oracle (attempt + 1) (calls + 1) (slept @ [backoff attempt])"
  using assms
  by (subst route_loop.simps) (auto simp: throttled_def backoff_def max_retries_def split: sum.splits)

lemma route_loop_fail:
  assumes "route_attempt loads (oracle attempt) = Inl e" "attempt < max_retries"
    "\<not> is_throttling e \<or> attempt = max_retries - 1"
  shows "route_loop failed exhausted loads oracle attempt calls slept =
         \<lparr>decision = failed e, oracle_calls = calls + 1, sleeps = slept\<rparr>"
  using assms
  by (subst route_loop.simps) (auto simp: max_retries_def)

lemma route_loop_ok:
  assumes "route_attempt loads (oracle attempt) = Inr d" "attempt < max_retries"
  shows "route_loop failed exhausted loads oracle attempt calls slept =
         \<lparr>decision = d, oracle_calls = calls + 1, sleeps = slept\<rparr>"
  using assms
  by (subst route_loop.simps) auto

lemma route_loop_skip:
  assumes "\<forall>i. attempt \<le> i \<and> i < k \<longrightarrow> throttled loads oracle i" "attempt \<le> k" "k < max_retries"
  shows "route_loop failed exhausted loads oracle attempt calls slept =
         route_loop failed exhausted loads oracle k (calls + (k - attempt))
           (slept @ map backoff [attempt..<k])"
  using assms
proof (induction "k - attempt" arbitrary: attempt calls slept)
  case 0
  then show ?case by simp
next
  case (Suc n)
  then have lt: "attempt < k" and th: "throttled loads oracle attempt" by auto
  from lt Suc.prems have "attempt < max_retries - 1" by simp
  from route_loop_retry [OF th this]
  have "route_loop failed exhausted loads oracle attempt calls slept =
        route_loop failed exhausted loads oracle (attempt + 1) (calls + 1) (slept @ [backoff attempt])" .
  also have "\<dots> = route_loop failed exhausted loads oracle k (calls + 1 + (k - (attempt + 1)))
           ((slept @ [backoff attempt]) @ map backoff [attempt + 1..<k])"
    using Suc by (intro Suc.hyps) auto
  also have "\<dots> = route_loop failed exhausted loads oracle k (calls + (k - attempt))
           (slept @ map backoff [attempt..<k])"
  proof -
    have "calls + 1 + (k - (attempt + 1)) = calls + (k - attempt)" using lt by arith
    moreover have "(slept @ [backoff attempt]) @ map backoff [attempt + 1..<k] = slept @ map backoff [attempt..<k]"
      using lt by (simp add: upt_conv_Cons)
    ultimately show ?thesis by (simp only:)
  qed
  finally show ?case .
qed


lemma route_loop_stops:
  assumes "\<forall>i<k. throttled loads oracle i" "k < max_retries"
    "route_attempt loads (oracle k) = Inl e" "\<not> is_throttling e \<or> k = max_retries - 1"
  shows "route_loop failed exhausted loads oracle 0 0 [] =
         \<lparr>decision = failed e, oracle_calls = k + 1, sleeps = map backoff [0..<k]\<rparr>"
proof -
  have "route_loop failed exhausted loads oracle 0 0 [] =
        route_loop failed exhausted loads oracle k (0 + (k - 0)) ([] @ map backoff [0..<k])"
    using assms(1,2) by (intro route_loop_skip) auto
  also have "\<dots> = \<lparr>decision = failed e, oracle_calls = (0 + (k - 0)) + 1,
                     sleeps = [] @ map backoff [0..<k]\<rparr>"
    by (rule route_loop_fail [where attempt = k and e = e]) (use assms in auto)
  finally show ?thesis by simp
qed

lemma route_loop_returns:
  assumes "\<forall>i<k. throttled loads oracle i" "k < max_retries"
    "route_attempt loads (oracle k) = Inr d"
  shows "route_loop failed exhausted loads oracle 0 0 [] =
         \<lparr>decision = d, oracle_calls = k + 1, sleeps = map backoff [0..<k]\<rparr>"
proof -
  have "route_loop failed exhausted loads oracle 0 0 [] =
        route_loop failed exhausted loads oracle k (0 + (k - 0)) ([] @ map backoff [0..<k])"
    using assms(1,2) by (intro route_loop_skip) auto
  also have "\<dots> = \<lparr>decision = d, oracle_calls = (0 + (k - 0)) + 1,
                     sleeps = [] @ map backoff [0..<k]\<rparr>"
    by (rule route_loop_ok [where attempt = k and d = d]) (use assms in auto)
  finally show ?thesis by simp
qed

lemma backoff_upto_4: "map backoff [0..<4] = [3, 6, 12, 24]"
  by (simp add: backoff_def base_delay_def upt_conv_Cons)

lemma throttled_error:
  "throttled loads oracle i \<Longrightarrow> \<exists>e. route_attempt loads (oracle i) = Inl e \<and> is_throttling e"
  by (auto simp: throttled_def split: sum.splits)

text \<open>
  Claim C1, as the code has it. When every one of the five attempts is throttled, either
  router calls the oracle exactly five times, sleeps 3, 6, 12 and 24 seconds between the
  attempts (four delays: nothing is slept after the fifth failure) and returns the error
  decision (\<open>operation\<close> for ECS, \<open>tool_name\<close> for EKS). When the attempts before
  \<open>k\<close> are throttled and attempt \<open>k\<close> fails with any other exception, the router
  returns the error decision at once: \<open>k + 1\<close> calls, and only the delays slept before.
\<close>

theorem router_retry_bound:
  "((\<forall>i<max_retries. throttled loads oracle i) \<longrightarrow>
      oracle_calls (llm_route_ecs_command loads oracle) = 5
      \<and> sleeps (llm_route_ecs_command loads oracle) = [3, 6, 12, 24]
      \<and> field ''operation'' (decision (llm_route_ecs_command loads oracle)) = Some (JStr ''error'')
      \<and> oracle_calls (llm_route_eks_command loads oracle) = 5
      \<and> sleeps (llm_route_eks_command loads oracle) = [3, 6, 12, 24]
      \<and> field ''tool_name'' (decision (llm_route_eks_command loads oracle)) = Some (JStr ''error''))
   \<and> (\<forall>k e. k < max_retries \<and> (\<forall>i<k. throttled loads oracle i)
          \<and> route_attempt loads (oracle k) = Inl e \<and> \<not> is_throttling e \<longrightarrow>
      oracle_calls (llm_route_ecs_command loads oracle) = k + 1
      \<and> sleeps (llm_route_ecs_command loads oracle) = map backoff [0..<k]
      \<and> field ''operation'' (decision (llm_route_ecs_command loads oracle)) = Some (JStr ''error'')
      \<and> oracle_calls (llm_route_eks_command loads oracle) = k + 1
      \<and> sleeps (llm_route_eks_command loads oracle) = map backoff [0..<k]
      \<and> field ''tool_name'' (decision (llm_route_eks_command loads oracle)) = Some (JStr ''error''))"
proof (intro conjI impI allI)
  assume all: "\<forall>i<max_retries. throttled loads oracle i"
  then have "throttled loads oracle 4" by (simp add: max_retries_def)
  then obtain e where e: "route_attempt loads (oracle 4) = Inl e"
    using throttled_error by blast
  have run: "route_loop failed exhausted loads oracle 0 0 [] =
        \<lparr>decision = failed e, oracle_calls = 4 + 1, sleeps = map backoff [0..<4]\<rparr>"
    for failed exhausted
    using all e by (intro route_loop_stops) (auto simp: max_retries_def)
  show "oracle_calls (llm_route_ecs_command loads oracle) = 5"
    by (simp add: llm_route_ecs_command_def run)
  show "sleeps (llm_route_ecs_command loads oracle) = [3, 6, 12, 24]"
    by (simp only: llm_route_ecs_command_def run backoff_upto_4 route_run.simps)
  show "field ''operation'' (decision (llm_route_ecs_command loads oracle)) = Some (JStr ''error'')"
    by (simp add: llm_route_ecs_command_def run ecs_failed_def)
  show "oracle_calls (llm_route_eks_command loads oracle) = 5"
    by (simp add: llm_route_eks_command_def run)
  show "sleeps (llm_route_eks_command loads oracle) = [3, 6, 12, 24]"
    by (simp only: llm_route_eks_command_def run backoff_upto_4 route_run.simps)
  show "field ''tool_name'' (decision (llm_route_eks_command loads oracle)) = Some (JStr ''error'')"
    by (simp add: llm_route_eks_command_def run eks_failed_def)
next
  fix k e
  assume h: "k < max_retries \<and> (\<forall>i<k. throttled loads oracle i)
          \<and> route_attempt loads (oracle k) = Inl e \<and> \<not> is_throttling e"
  have run: "route_loop failed exhausted loads oracle 0 0 [] =
        \<lparr>decision = failed e, oracle_calls = k + 1, sleeps = map backoff [0..<k]\<rparr>"
    for failed exhausted
    using h by (intro route_loop_stops) auto
  show "oracle_calls (llm_route_ecs_command loads oracle) = k + 1"
    by (simp add: llm_route_ecs_command_def run)
  show "sleeps (llm_route_ecs_command loads oracle) = map backoff [0..<k]"
    by (simp only: llm_route_ecs_command_def run route_run.simps)
  show "field ''operation'' (decision (llm_route_ecs_command loads oracle)) = Some (JStr ''error'')"
    by (simp add: llm_route_ecs_command_def run ecs_failed_def)
  show "oracle_calls (llm_route_eks_command loads oracle) = k + 1"
    by (simp add: llm_route_eks_command_def run)
  show "sleeps (llm_route_eks_command loads oracle) = map backoff [0..<k]"
    by (simp only: llm_route_eks_command_def run route_run.simps)
  show "field ''tool_name'' (decision (llm_route_eks_command loads oracle)) = Some (JStr ''error'')"
    by (simp add: llm_route_eks_command_def run eks_failed_def)
qed

lemma is_throttling_example: "is_throttling ''ThrottlingException''"
  by (simp add: is_throttling_def)

lemma not_throttling_example: "\<not> is_throttling ''AccessDeniedException''"
  by (simp add: is_throttling_def)

theorem router_retry_bound_witness:
  "oracle_calls (llm_route_ecs_command (\<lambda>s. Inl ''Expecting value'') (\<lambda>i. Raises ''ThrottlingException'')) = 5
   \<and> sleeps (llm_route_ecs_command (\<lambda>s. Inl ''Expecting value'') (\<lambda>i. Raises ''ThrottlingException'')) = [3, 6, 12, 24]
   \<and> oracle_calls (llm_route_ecs_command (\<lambda>s. Inl ''Expecting value'')
        (\<lambda>i. if i < 2 then Raises ''ThrottlingException'' else Raises ''AccessDeniedException'')) = 3
   \<and> sleeps (llm_route_ecs_command (\<lambda>s. Inl ''Expecting value'')
        (\<lambda>i. if i < 2 then Raises ''ThrottlingException'' else Raises ''AccessDeniedException'')) = [3, 6]"
proof -
  let ?loads = "\<lambda>s::string. (Inl ''Expecting value'' :: string + json)"
  let ?o1 = "\<lambda>i::nat. Raises ''ThrottlingException''"
  let ?o2 = "\<lambda>i::nat. if i < 2 then Raises ''ThrottlingException'' else Raises ''AccessDeniedException''"
  have t1: "\<forall>i<max_retries. throttled ?loads ?o1 i"
    by (simp add: throttled_def route_attempt_def is_throttling_example)
  have t2: "(2::nat) < max_retries \<and> (\<forall>i<2. throttled ?loads ?o2 i)
        \<and> route_attempt ?loads (?o2 2) = Inl ''AccessDeniedException''
        \<and> \<not> is_throttling ''AccessDeniedException''"
    by (simp add: throttled_def route_attempt_def is_throttling_example not_throttling_example
        max_retries_def)
  have b: "map backoff [0..<2] = [3, 6]"
    by (simp add: backoff_def base_delay_def upt_conv_Cons)
  from router_retry_bound [of ?loads ?o1] t1
  have p1: "oracle_calls (llm_route_ecs_command ?loads ?o1) = 5
      \<and> sleeps (llm_route_ecs_command ?loads ?o1) = [3, 6, 12, 24]" by blast
  from router_retry_bound [of ?loads ?o2] t2
  have "oracle_calls (llm_route_ecs_command ?loads ?o2) = 2 + 1
      \<and> sleeps (llm_route_ecs_command ?loads ?o2) = map backoff [0..<2]" by blast
  with p1 b show ?thesis by simp
qed

text \<open>
  Claim C1 as stated lists five delays, the last of 48 seconds. With the oracle throttled
  on every attempt the router calls it five times and sleeps four times, never 48 seconds.
\<close>

theorem router_backoff_counterexample:
  "sleeps (llm_route_ecs_command (\<lambda>s. Inl ''Expecting value'') (\<lambda>i. Raises ''ThrottlingException''))
     = [3, 6, 12, 24]
   \<and> oracle_calls (llm_route_ecs_command (\<lambda>s. Inl ''Expecting value'') (\<lambda>i. Raises ''ThrottlingException''))
     = 5"
  by (simp add: llm_route_ecs_command_def route_loop.simps route_attempt_def is_throttling_example
      max_retries_def base_delay_def)

section \<open>The registry is ensured idempotently\<close>

lemma create_first:
  "reg (region, name) = None \<Longrightarrow>
   create_ecr_repository mk reg name region =
     (Inr (JDict [(''status'', JStr ''success''),
                  (''repository_uri'', JStr (repositoryUri (mk region name))),
                  (''repository_arn'', JStr (repositoryArn (mk region name)))]),
      reg((region, name) \<mapsto> mk region name))"
  by (simp add: create_ecr_repository_def ecr_create_repository_def)

lemma create_again:
  "reg (region, name) = Some r \<Longrightarrow>
   create_ecr_repository mk reg name region =
     (Inr (JDict [(''status'', JStr ''exists''), (''repository_uri'', JStr (repositoryUri r))]), reg)"
  by (simp add: create_ecr_repository_def ecr_create_repository_def ecr_describe_repositories_def
      py_index_def)

lemma create_registers:
  "snd (create_ecr_repository mk reg name region) (region, name) \<noteq> None"
  by (cases "reg (region, name)") (simp_all add: create_first create_again)

text \<open>
  Claim C4, as the code has it. On a registry without the name, the first call of
  \<open>create_ecr_repository\<close> creates the repository and returns status \<open>success\<close>; the
  second call, on the registry the first one left, returns status \<open>exists\<close> with the URI
  of that repository and raises nothing. On any registry that has the name the tool
  returns \<open>exists\<close> with the URI of the existing repository and changes nothing.
\<close>

theorem ensure_registry_twice:
  "(reg (region, name) = None \<longrightarrow>
      fst (create_ecr_repository mk reg name region) =
        Inr (JDict [(''status'', JStr ''success''),
                    (''repository_uri'', JStr (repositoryUri (mk region name))),
                    (''repository_arn'', JStr (repositoryArn (mk region name)))])
      \<and> fst (create_ecr_repository mk (snd (create_ecr_repository mk reg name region)) name region) =
        Inr (JDict [(''status'', JStr ''exists''),
                    (''repository_uri'', JStr (repositoryUri (mk region name)))]))
   \<and> (\<forall>r. reg (region, name) = Some r \<longrightarrow>
        create_ecr_repository mk reg name region =
          (Inr (JDict [(''status'', JStr ''exists''), (''repository_uri'', JStr (repositoryUri r))]), reg))"
  by (simp add: create_first create_again)

theorem ensure_registry_twice_witness:
  "result_status (fst (create_ecr_repository mk_repository Map.empty ''blog'' ''us-west-2'')) = Some (JStr ''success'')
   \<and> result_status (fst (create_ecr_repository mk_repository
        (snd (create_ecr_repository mk_repository Map.empty ''blog'' ''us-west-2'')) ''blog'' ''us-west-2''))
      = Some (JStr ''exists'')
   \<and> result_field ''repository_uri'' (fst (create_ecr_repository mk_repository
        (snd (create_ecr_repository mk_repository Map.empty ''blog'' ''us-west-2'')) ''blog'' ''us-west-2''))
      = Some (JStr ''<AWS_ACCOUNT_ID>.dkr.ecr.us-west-2.amazonaws.com/blog'')"
  using ensure_registry_twice [of Map.empty "''us-west-2''" "''blog''" mk_repository]
  by (simp add: result_status_def result_field_def mk_repository_def)

text \<open>
  Claim C4 as stated has the first call return status \<open>created\<close>; the tool returns
  \<open>success\<close>.
\<close>

theorem ensure_registry_status_counterexample:
  "result_status (fst (create_ecr_repository mk_repository Map.empty ''blog'' ''us-west-2''))
     = Some (JStr ''success'')
   \<and> result_status (fst (create_ecr_repository mk_repository Map.empty ''blog'' ''us-west-2''))
     \<noteq> Some (JStr ''created'')"
  by (simp add: create_first result_status_def result_field_def)

section \<open>The scaling target of the express template\<close>

lemma scaling_target_template:
  "scaling_target (express_template repr service_name image_uri cpu memory port env desired_count) =
     (if desired_count > 1
      then Some (JDict [(''MinTaskCount'', JInt desired_count),
                        (''MaxTaskCount'', JInt 50),
                        (''AutoScalingMetric'', JStr ''AVERAGE_CPU''),
                        (''AutoScalingTargetValue'', JInt 70)])
      else None)"
  by (simp add: scaling_target_def field_at_def express_template_def service_properties_def)

lemma service_properties_keys:
  "map fst (service_properties repr service_name image_uri cpu memory port env desired_count) =
     [''ServiceName'', ''ExecutionRoleArn'', ''TaskRoleArn'', ''InfrastructureRoleArn'', ''Cpu'',
      ''Memory'', ''PrimaryContainer'']
     @ (if desired_count > 1 then [''ScalingTarget''] else [])"
  by (simp add: service_properties_def)

text \<open>
  Claim C9. The template \<open>deploy_ecs_express_service\<close> submits holds a
  \<open>ScalingTarget\<close> exactly when \<open>desired_count > 1\<close>: then \<open>MinTaskCount\<close> is the
  desired count, \<open>MaxTaskCount\<close> 50, the metric the average CPU with target 70. For a
  desired count of at most one the service properties are the seven base keys only.
\<close>

theorem express_scaling_target:
  "snd (deploy_ecs_express_service cfn repr service_name image_uri cpu memory port env desired_count) =
     [CreateStack (''ecs-express-'' @ service_name)
        (express_template repr service_name image_uri cpu memory port env desired_count)]
   \<and> scaling_target (express_template repr service_name image_uri cpu memory port env desired_count) =
     (if desired_count > 1
      then Some (JDict [(''MinTaskCount'', JInt desired_count),
                        (''MaxTaskCount'', JInt 50),
                        (''AutoScalingMetric'', JStr ''AVERAGE_CPU''),
                        (''AutoScalingTargetValue'', JInt 70)])
      else None)
   \<and> map fst (service_properties repr service_name image_uri cpu memory port env desired_count) =
     [''ServiceName'', ''ExecutionRoleArn'', ''TaskRoleArn'', ''InfrastructureRoleArn'', ''Cpu'',
      ''Memory'', ''PrimaryContainer'']
     @ (if desired_count > 1 then [''ScalingTarget''] else [])"
  by (simp add: scaling_target_template service_properties_keys deploy_ecs_express_service_def Let_def)

theorem express_scaling_target_witness:
  "scaling_target (express_template (\<lambda>v. []) ''blog'' ''img'' ''256'' ''512'' 3000 None 3) =
     Some (JDict [(''MinTaskCount'', JInt 3), (''MaxTaskCount'', JInt 50),
                  (''AutoScalingMetric'', JStr ''AVERAGE_CPU''), (''AutoScalingTargetValue'', JInt 70)])
   \<and> scaling_target (express_template (\<lambda>v. []) ''blog'' ''img'' ''256'' ''512'' 3000 None 1) = None"
  using express_scaling_target [of "cfn_of Map.empty" "\<lambda>v. []" "''blog''" "''img''" "''256''" "''512''" 3000 None 3]
    express_scaling_target [of "cfn_of Map.empty" "\<lambda>v. []" "''blog''" "''img''" "''256''" "''512''" 3000 None 1]
  by simp

section \<open>Deleting what is not there\<close>

lemma py_in_iff: "py_in sub s \<longleftrightarrow> (\<exists>a b. s = a @ sub @ b)"
proof (induction s)
  case Nil
  then show ?case by auto
next
  case (Cons c cs)
  show ?case
  proof
    assume "py_in sub (c # cs)"
    then consider "prefix sub (c # cs)" | "py_in sub cs" by auto
    then show "\<exists>a b. c # cs = a @ sub @ b"
    proof cases
      case 1
      then obtain b where "c # cs = sub @ b" by (auto simp: prefix_def)
      then have "c # cs = [] @ sub @ b" by simp
      then show ?thesis by blast
    next
      case 2
      with Cons obtain a b where "cs = a @ sub @ b" by blast
      then have "c # cs = (c # a) @ sub @ b" by simp
      then show ?thesis by blast
    qed
  next
    assume "\<exists>a b. c # cs = a @ sub @ b"
    then obtain a b where ab: "c # cs = a @ sub @ b" by blast
    show "py_in sub (c # cs)"
    proof (cases a)
      case Nil
      with ab have "prefix sub (c # cs)" by (simp add: prefix_def)
      then show ?thesis by simp
    next
      case (Cons x a')
      with ab have "cs = a' @ sub @ b" by simp
      with Cons.IH have "py_in sub cs" by blast
      then show ?thesis by simp
    qed
  qed
qed

lemma py_in_middle: "py_in sub (a @ sub @ b)"
  by (auto simp: py_in_iff)

lemma py_in_end: "py_in sub (a @ sub)"
  using py_in_middle [of sub a "[]"] by simp

lemma stack_missing_client_error:
  "is_client_error (stack_missing name) \<and> py_in ''does not exist'' (str_exn (stack_missing name))"
proof -
  have "str_exn (stack_missing name) =
        (''An error occurred (ValidationError) when calling the DescribeStacks operation: ''
           @ ''Stack with id '' @ name @ '' '') @ ''does not exist''"
    by (simp add: stack_missing_def)
  then show ?thesis
    by (simp only: py_in_end) (simp add: stack_missing_def)
qed

lemma delete_ecs_service_missing:
  assumes "\<not> falsy stack_name'" 
    "stack_name' = (if falsy stack_name \<and> \<not> falsy service_name
                         then Some (''ecs-express-'' @ the service_name)
                         else stack_name)"
    "describe_stacks cfn (the stack_name') = Inl e" "is_client_error e" "py_in ''does not exist'' (str_exn e)"
  shows "delete_ecs_service cfn service_name stack_name =
           (JDict [(''status'', JStr ''not_found''),
                   (''stack_name'', JStr (the stack_name')),
                   (''message'', JStr (''Stack '' @ the stack_name' @ '' does not exist''))],
            [DescribeStacks (the stack_name')])"
  using assms unfolding delete_ecs_service_def Let_def by simp

lemma delete_ecs_service_by_name:
  assumes "service_name \<noteq> []" "stacks (''ecs-express-'' @ service_name) = None"
  shows "delete_ecs_service (cfn_of stacks) (Some service_name) None =
           (JDict [(''status'', JStr ''not_found''),
                   (''stack_name'', JStr (''ecs-express-'' @ service_name)),
                   (''message'', JStr (''Stack '' @ ''ecs-express-'' @ service_name @ '' does not exist''))],
            [DescribeStacks (''ecs-express-'' @ service_name)])"
proof -
  have "describe_stacks (cfn_of stacks) (''ecs-express-'' @ service_name)
          = Inl (stack_missing (''ecs-express-'' @ service_name))"
    using assms by (simp add: cfn_of_def)
  then show ?thesis
    using assms stack_missing_client_error [of "''ecs-express-'' @ service_name"]
    by (subst delete_ecs_service_missing [where stack_name' = "Some (''ecs-express-'' @ service_name)"
            and e = "stack_missing (''ecs-express-'' @ service_name)"]) auto
qed

lemma delete_ecs_service_by_stack:
  assumes "stack_name \<noteq> []" "stacks stack_name = None"
  shows "delete_ecs_service (cfn_of stacks) service_name (Some stack_name) =
           (JDict [(''status'', JStr ''not_found''),
                   (''stack_name'', JStr stack_name),
                   (''message'', JStr (''Stack '' @ stack_name @ '' does not exist''))],
            [DescribeStacks stack_name])"
proof -
  have "describe_stacks (cfn_of stacks) stack_name = Inl (stack_missing stack_name)"
    using assms by (simp add: cfn_of_def)
  then show ?thesis
    using assms stack_missing_client_error [of stack_name]
    by (subst delete_ecs_service_missing [where stack_name' = "Some stack_name"
            and e = "stack_missing stack_name"]) auto
qed

lemma delete_block_k8s_of:
  "delete_block (if present then Inr () else Inl not_found_404) label =
     Inr (if present then label else label @ '' (not found)'')"
  by (simp add: delete_block_def not_found_404_def)

lemma delete_eks_deployment_k8s_of:
  "delete_eks_deployment (k8s_of c) cluster_name app_name region True True =
     (eks_delete_results app_name
        [if app_name \<in> set (deployments c) then ''Deployment: '' @ app_name
         else (''Deployment: '' @ app_name) @ '' (not found)'',
         if app_name \<in> set (services c) then ''Service: '' @ app_name
         else (''Service: '' @ app_name) @ '' (not found)'',
         if app_name @ ''-sa'' \<in> set (service_accounts c) then ''ServiceAccount: '' @ (app_name @ ''-sa'')
         else (''ServiceAccount: '' @ (app_name @ ''-sa'')) @ '' (not found)''],
      [DeleteDeployment app_name, DeleteService app_name, DeleteServiceAccount (app_name @ ''-sa'')])"
  unfolding delete_eks_deployment_def
  by (simp add: k8s_of_def delete_block_k8s_of Let_def)


lemma delete_eks_deployment_flags:
  "delete_eks_deployment (k8s_of c) cluster_name app_name region delete_service delete_service_account =
     (eks_delete_results app_name
        ((if app_name \<in> set (deployments c) then ''Deployment: '' @ app_name
          else ''Deployment: '' @ app_name @ '' (not found)'')
         # (if delete_service
            then [if app_name \<in> set (services c) then ''Service: '' @ app_name
                  else ''Service: '' @ app_name @ '' (not found)'']
            else [])
         @ (if delete_service_account
            then [if app_name @ ''-sa'' \<in> set (service_accounts c)
                  then ''ServiceAccount: '' @ app_name @ ''-sa''
                  else ''ServiceAccount: '' @ app_name @ ''-sa'' @ '' (not found)'']
            else [])),
      DeleteDeployment app_name
      # (if delete_service then [DeleteService app_name] else [])
      @ (if delete_service_account then [DeleteServiceAccount (app_name @ ''-sa'')] else []))"
  unfolding delete_eks_deployment_def
  by (simp add: k8s_of_def delete_block_k8s_of Let_def)

text \<open>
  Claim C5, as the code has it. Deleting an ECS service whose stack the provider does not
  have returns the \<open>not_found\<close> result after the one describe request: no delete
  request is made and nothing is raised. \<open>delete_eks_deployment\<close> has no preliminary
  check: it sends its delete requests, records a deployment that is not there as
  \<open>(not found)\<close> among the deleted resources and returns status \<open>success\<close>.
\<close>

theorem delete_of_absent_resource:
  "(service_name \<noteq> [] \<and> stacks (''ecs-express-'' @ service_name) = None \<longrightarrow>
      delete_ecs_service (cfn_of stacks) (Some service_name) None =
        (JDict [(''status'', JStr ''not_found''),
                (''stack_name'', JStr (''ecs-express-'' @ service_name)),
                (''message'', JStr (''Stack '' @ ''ecs-express-'' @ service_name @ '' does not exist''))],
         [DescribeStacks (''ecs-express-'' @ service_name)]))
   \<and> (stack_name \<noteq> [] \<and> stacks stack_name = None \<longrightarrow>
      delete_ecs_service (cfn_of stacks) any_service (Some stack_name) =
        (JDict [(''status'', JStr ''not_found''),
                (''stack_name'', JStr stack_name),
                (''message'', JStr (''Stack '' @ stack_name @ '' does not exist''))],
         [DescribeStacks stack_name]))
   \<and> (app_name \<notin> set (deployments c) \<longrightarrow>
      delete_eks_deployment (k8s_of c) cluster_name app_name region delete_service delete_service_account =
        (eks_delete_results app_name
           ((''Deployment: '' @ app_name @ '' (not found)'')
            # (if delete_service
               then [if app_name \<in> set (services c) then ''Service: '' @ app_name
                     else ''Service: '' @ app_name @ '' (not found)'']
               else [])
            @ (if delete_service_account
               then [if app_name @ ''-sa'' \<in> set (service_accounts c)
                     then ''ServiceAccount: '' @ app_name @ ''-sa''
                     else ''ServiceAccount: '' @ app_name @ ''-sa'' @ '' (not found)'']
               else [])),
         DeleteDeployment app_name
         # (if delete_service then [DeleteService app_name] else [])
         @ (if delete_service_account then [DeleteServiceAccount (app_name @ ''-sa'')] else []))
      \<and> field ''status''
           (fst (delete_eks_deployment (k8s_of c) cluster_name app_name region delete_service
                   delete_service_account)) = Some (JStr ''success''))"
proof (intro conjI impI)
  assume "service_name \<noteq> [] \<and> stacks (''ecs-express-'' @ service_name) = None"
  then show "delete_ecs_service (cfn_of stacks) (Some service_name) None =
        (JDict [(''status'', JStr ''not_found''),
                (''stack_name'', JStr (''ecs-express-'' @ service_name)),
                (''message'', JStr (''Stack '' @ ''ecs-express-'' @ service_name @ '' does not exist''))],
         [DescribeStacks (''ecs-express-'' @ service_name)])"
    by (simp add: delete_ecs_service_by_name)
next
  assume "stack_name \<noteq> [] \<and> stacks stack_name = None"
  then show "delete_ecs_service (cfn_of stacks) any_service (Some stack_name) =
        (JDict [(''status'', JStr ''not_found''),
                (''stack_name'', JStr stack_name),
                (''message'', JStr (''Stack '' @ stack_name @ '' does not exist''))],
         [DescribeStacks stack_name])"
    by (simp add: delete_ecs_service_by_stack)
next
  assume a: "app_name \<notin> set (deployments c)"
  then show "delete_eks_deployment (k8s_of c) cluster_name app_name region delete_service delete_service_account =
        (eks_delete_results app_name
           ((''Deployment: '' @ app_name @ '' (not found)'')
            # (if delete_service
               then [if app_name \<in> set (services c) then ''Service: '' @ app_name
                     else ''Service: '' @ app_name @ '' (not found)'']
               else [])
            @ (if delete_service_account
               then [if app_name @ ''-sa'' \<in> set (service_accounts c)
                     then ''ServiceAccount: '' @ app_name @ ''-sa''
                     else ''ServiceAccount: '' @ app_name @ ''-sa'' @ '' (not found)'']
               else [])),
         DeleteDeployment app_name
         # (if delete_service then [DeleteService app_name] else [])
         @ (if delete_service_account then [DeleteServiceAccount (app_name @ ''-sa'')] else []))"
    by (simp only: delete_eks_deployment_flags if_False)
  show "field ''status''
           (fst (delete_eks_deployment (k8s_of c) cluster_name app_name region delete_service
                   delete_service_account)) = Some (JStr ''success'')"
    by (simp only: delete_eks_deployment_flags fst_conv) (simp add: eks_delete_results_def)
qed

theorem delete_of_absent_resource_witness:
  "delete_ecs_service (cfn_of Map.empty) (Some ''blog'') None =
     (JDict [(''status'', JStr ''not_found''),
             (''stack_name'', JStr ''ecs-express-blog''),
             (''message'', JStr ''Stack ecs-express-blog does not exist'')],
      [DescribeStacks ''ecs-express-blog''])
   \<and> delete_ecs_service (cfn_of Map.empty) None (Some ''blog-stack'') =
     (JDict [(''status'', JStr ''not_found''),
             (''stack_name'', JStr ''blog-stack''),
             (''message'', JStr ''Stack blog-stack does not exist'')],
      [DescribeStacks ''blog-stack''])
   \<and> field ''status'' (fst (delete_eks_deployment (k8s_of empty_cluster) ''demo'' ''blog'' ''eu-north-1'' True True))
       = Some (JStr ''success'')
   \<and> snd (delete_eks_deployment (k8s_of empty_cluster) ''demo'' ''blog'' ''eu-north-1'' True True)
       = [DeleteDeployment ''blog'', DeleteService ''blog'', DeleteServiceAccount ''blog-sa'']"
  using delete_of_absent_resource [of "''blog''" Map.empty "''blog-stack''" None "''blog''" empty_cluster
      "''demo''" "''eu-north-1''" True True]
  by (simp add: empty_cluster_def eks_delete_results_def)

text \<open>
  Claim C5 as stated fails for the EKS tool: on a cluster without the deployment the
  status is \<open>success\<close>, not \<open>not_found\<close>, and the delete request for the deployment
  is sent.
\<close>

theorem delete_eks_absent_counterexample:
  "field ''status'' (fst (delete_eks_deployment (k8s_of empty_cluster) ''demo'' ''blog'' ''eu-north-1'' True True))
     = Some (JStr ''success'')
   \<and> DeleteDeployment ''blog''
       \<in> set (snd (delete_eks_deployment (k8s_of empty_cluster) ''demo'' ''blog'' ''eu-north-1'' True True))"
  by (simp add: delete_eks_deployment_flags eks_delete_results_def empty_cluster_def)

section \<open>The status reconciler\<close>

lemma map_of_outputs_fold:
  "map_of (foldl (\<lambda>outputs (k, v). AList.update k (JStr v) outputs) acc os) k =
     (case map_of (rev os) k of None \<Rightarrow> map_of acc k | Some v \<Rightarrow> Some (JStr v))"
proof (induction os arbitrary: acc)
  case Nil
  then show ?case by simp
next
  case (Cons p os)
  obtain k' v' where p: "p = (k', v')" by (cases p)
  show ?case
    by (simp add: p Cons.IH update_conv' map_add_def split: option.splits)
qed

lemma map_of_outputs_dict:
  "map_of (outputs_dict st) k =
     map_option JStr (map_of (rev (case Outputs st of None \<Rightarrow> [] | Some os \<Rightarrow> os)) k)"
  by (simp add: outputs_dict_def map_of_outputs_fold split: option.splits)

lemma check_stack_status_complete:
  assumes "describe_stacks cfn n = Inr (st # rest)" "complete (StackStatus st)"
  shows "check_stack_status cfn n =
     (Inr (JDict [(''status'', JStr (StackStatus st)),
                  (''reason'', JStr (case StackStatusReason st of None \<Rightarrow> [] | Some r \<Rightarrow> r)),
                  (''stack_name'', JStr n),
                  (''outputs'', JDict (outputs_dict st))]),
      [DescribeStacks n])"
  using assms unfolding check_stack_status_def complete_def
  by (auto simp: py_index_def Let_def)

lemma check_stack_status_other:
  assumes "describe_stacks cfn n = Inr (st # rest)" "\<not> complete (StackStatus st)"
    "describe_stack_events cfn n = Inr events"
  shows "check_stack_status cfn n =
     (Inr (JDict [(''status'', JStr (StackStatus st)),
                  (''reason'', JStr (case StackStatusReason st of None \<Rightarrow> [] | Some r \<Rightarrow> r)),
                  (''stack_name'', JStr n),
                  (''failed_events'', JList (map event_info (filter event_failed (take 20 events)))),
                  (''recent_events'', JList (map event_info (take 20 events)))]),
      [DescribeStacks n, DescribeStackEvents n])"
  using assms unfolding check_stack_status_def complete_def
  by (auto simp: py_index_def Let_def)

lemma check_stack_status_unknown:
  assumes "stacks n = None"
  shows "check_stack_status (cfn_of stacks) n =
     (Inr (JDict [(''status'', JStr ''NOT_FOUND''), (''stack_name'', JStr n)]), [DescribeStacks n])"
proof -
  have "describe_stacks (cfn_of stacks) n = Inl (stack_missing n)"
    using assms by (simp add: cfn_of_def)
  then show ?thesis
    using stack_missing_client_error [of n]
    by (simp add: check_stack_status_def stack_status_handler_def)
qed

lemma check_service_status_calls:
  "set (snd (check_service_status cfn service_arn stack_name)) \<subseteq> range DescribeStacks"
  by (auto simp: check_service_status_def Let_def)

lemma check_service_status_unknown:
  assumes "n \<noteq> []" "stacks n = None"
  shows "check_service_status (cfn_of stacks) service_arn (Some n) =
     (JDict [(''status'', JStr ''error''), (''message'', JStr (str_exn (stack_missing n)))],
      [DescribeStacks n])"
  using assms by (simp add: check_service_status_def cfn_of_def Let_def)

text \<open>
  Claim C6, as the code has it. For a stack whose status is \<open>CREATE_COMPLETE\<close> or
  \<open>UPDATE_COMPLETE\<close>, \<open>check_stack_status\<close> returns the declared outputs and fetches
  no events. For every other status (a failure or rollback marker or not) it fetches the
  events, keeps the first twenty, and surfaces each of them whose status contains
  \<open>FAILED\<close>; the status of the provider is reported verbatim in both cases. A stack
  the provider does not have yields \<open>NOT_FOUND\<close>. The agent tool
  \<open>check_service_status\<close> reports such a stack as status \<open>error\<close>.
\<close>

theorem status_reconciler:
  "(describe_stacks cfn n = Inr (st # rest) \<and> complete (StackStatus st) \<longrightarrow>
      check_stack_status cfn n =
        (Inr (JDict [(''status'', JStr (StackStatus st)),
                     (''reason'', JStr (case StackStatusReason st of None \<Rightarrow> [] | Some r \<Rightarrow> r)),
                     (''stack_name'', JStr n),
                     (''outputs'', JDict (outputs_dict st))]),
         [DescribeStacks n])
      \<and> (\<forall>k. map_of (outputs_dict st) k =
             map_option JStr (map_of (rev (case Outputs st of None \<Rightarrow> [] | Some os \<Rightarrow> os)) k)))
   \<and> (describe_stacks cfn n = Inr (st # rest) \<and> \<not> complete (StackStatus st)
        \<and> describe_stack_events cfn n = Inr events \<longrightarrow>
      check_stack_status cfn n =
        (Inr (JDict [(''status'', JStr (StackStatus st)),
                     (''reason'', JStr (case StackStatusReason st of None \<Rightarrow> [] | Some r \<Rightarrow> r)),
                     (''stack_name'', JStr n),
                     (''failed_events'', JList (map event_info (filter event_failed (take 20 events)))),
                     (''recent_events'', JList (map event_info (take 20 events)))]),
         [DescribeStacks n, DescribeStackEvents n]))
   \<and> (stacks n = None \<longrightarrow>
      check_stack_status (cfn_of stacks) n =
        (Inr (JDict [(''status'', JStr ''NOT_FOUND''), (''stack_name'', JStr n)]), [DescribeStacks n]))
   \<and> (n \<noteq> [] \<and> stacks n = None \<longrightarrow>
      check_service_status (cfn_of stacks) service_arn (Some n) =
        (JDict [(''status'', JStr ''error''), (''message'', JStr (str_exn (stack_missing n)))],
         [DescribeStacks n]))"
  by (simp add: check_stack_status_complete check_stack_status_other check_stack_status_unknown
      check_service_status_unknown map_of_outputs_dict)

theorem status_reconciler_witness:
  "check_stack_status (cfn_of [''done'' \<mapsto> (complete_stack, [])]) ''done'' =
     (Inr (JDict [(''status'', JStr ''CREATE_COMPLETE''),
                  (''reason'', JStr []),
                  (''stack_name'', JStr ''done''),
                  (''outputs'', JDict [(''Endpoint'', JStr ''blog.example.com''),
                                       (''ServiceArn'', JStr ''arn:aws:ecs:service/blog'')])]),
      [DescribeStacks ''done''])
   \<and> check_stack_status (cfn_of [''busy'' \<mapsto> (in_progress_stack, [failed_event])]) ''busy'' =
     (Inr (JDict [(''status'', JStr ''CREATE_IN_PROGRESS''),
                  (''reason'', JStr []),
                  (''stack_name'', JStr ''busy''),
                  (''failed_events'', JList [event_info failed_event]),
                  (''recent_events'', JList [event_info failed_event])]),
      [DescribeStacks ''busy'', DescribeStackEvents ''busy''])
   \<and> check_stack_status (cfn_of Map.empty) ''gone'' =
     (Inr (JDict [(''status'', JStr ''NOT_FOUND''), (''stack_name'', JStr ''gone'')]), [DescribeStacks ''gone''])
   \<and> fst (check_service_status (cfn_of Map.empty) None (Some ''gone'')) =
     JDict [(''status'', JStr ''error''), (''message'', JStr (str_exn (stack_missing ''gone'')))]"
proof -
  let ?c1 = "cfn_of [''done'' \<mapsto> (complete_stack, [])]"
  let ?c2 = "cfn_of [''busy'' \<mapsto> (in_progress_stack, [failed_event])]"
  have h1: "describe_stacks ?c1 ''done'' = Inr (complete_stack # []) \<and> complete (StackStatus complete_stack)"
    by (simp add: cfn_of_def complete_def complete_stack_def)
  have h2: "describe_stacks ?c2 ''busy'' = Inr (in_progress_stack # [])
      \<and> \<not> complete (StackStatus in_progress_stack)
      \<and> describe_stack_events ?c2 ''busy'' = Inr [failed_event]"
    by (simp add: cfn_of_def complete_def in_progress_stack_def)
  have o: "outputs_dict complete_stack =
      [(''Endpoint'', JStr ''blog.example.com''), (''ServiceArn'', JStr ''arn:aws:ecs:service/blog'')]"
    by (simp add: outputs_dict_def complete_stack_def)
  have f: "event_failed failed_event"
    by (simp add: event_failed_def failed_event_def)
  from status_reconciler [of ?c1 "''done''" complete_stack "[]" "[]" Map.empty None] h1
  have p1: "check_stack_status ?c1 ''done'' =
        (Inr (JDict [(''status'', JStr (StackStatus complete_stack)),
                     (''reason'', JStr (case StackStatusReason complete_stack of None \<Rightarrow> [] | Some r \<Rightarrow> r)),
                     (''stack_name'', JStr ''done''),
                     (''outputs'', JDict (outputs_dict complete_stack))]),
         [DescribeStacks ''done''])" by blast
  from status_reconciler [of ?c2 "''busy''" in_progress_stack "[]" "[failed_event]" Map.empty None] h2
  have p2: "check_stack_status ?c2 ''busy'' =
        (Inr (JDict [(''status'', JStr (StackStatus in_progress_stack)),
                     (''reason'', JStr (case StackStatusReason in_progress_stack of None \<Rightarrow> [] | Some r \<Rightarrow> r)),
                     (''stack_name'', JStr ''busy''),
                     (''failed_events'', JList (map event_info (filter event_failed (take 20 [failed_event])))),
                     (''recent_events'', JList (map event_info (take 20 [failed_event])))]),
         [DescribeStacks ''busy'', DescribeStackEvents ''busy''])" by blast
  from status_reconciler [of ?c1 "''gone''" complete_stack "[]" "[]" Map.empty None]
  have p3: "check_stack_status (cfn_of Map.empty) ''gone'' =
     (Inr (JDict [(''status'', JStr ''NOT_FOUND''), (''stack_name'', JStr ''gone'')]), [DescribeStacks ''gone''])
     \<and> fst (check_service_status (cfn_of Map.empty) None (Some ''gone'')) =
     JDict [(''status'', JStr ''error''), (''message'', JStr (str_exn (stack_missing ''gone'')))]"
    by simp
  show ?thesis
    using p1 p2 p3 o f by (simp add: complete_stack_def in_progress_stack_def)
qed

text \<open>
  Claim C6 as stated fetches the events if and only if the status carries a failure or
  rollback marker. \<open>CREATE_IN_PROGRESS\<close> carries none, and the events are fetched.
\<close>

theorem events_fetched_in_progress_counterexample:
  "\<not> failure_marker ''CREATE_IN_PROGRESS''
   \<and> DescribeStackEvents ''busy''
       \<in> set (snd (check_stack_status (cfn_of [''busy'' \<mapsto> (in_progress_stack, [failed_event])]) ''busy''))"
  by (simp add: failure_marker_def check_stack_status_def cfn_of_def in_progress_stack_def py_index_def)

section \<open>Malformed and unrecognized answers of the oracle\<close>

lemma io_bind_lift_Inr [simp]: "io_bind (io_lift (Inr x)) f = f x"
  by (simp add: io_bind_def io_lift_def split: prod.splits)

lemma io_bind_lift_Inl [simp]: "io_bind (io_lift (Inl e)) f = (Inl e, [])"
  by (simp add: io_bind_def io_lift_def)

lemma io_bind_return [simp]: "io_bind (io_return x) f = f x"
  by (simp add: io_bind_def io_return_def split: prod.splits)

lemma io_bind_raise [simp]: "io_bind (io_raise e) f = (Inl e, [])"
  by (simp add: io_bind_def io_raise_def)

lemma io_bind_Inr [simp]: "io_bind (Inr x, t) f = (fst (f x), t @ snd (f x))"
  by (simp add: io_bind_def split: prod.splits)

lemma io_bind_Inl [simp]: "io_bind (Inl e, t) f = (Inl e, t)"
  by (simp add: io_bind_def)

lemma io_catch_return [simp]: "io_catch (io_return x) h = (x, [])"
  by (simp add: io_catch_def io_return_def)

lemma io_catch_Inr [simp]: "io_catch (Inr x, t) h = (x, t)"
  by (simp add: io_catch_def)

lemma io_catch_Inl [simp]: "io_catch (Inl e, t) h = (h e, t)"
  by (simp add: io_catch_def)

text \<open>The router is total: its decision comes from the last attempt it made.\<close>

lemma route_loop_last:
  "attempt < max_retries \<Longrightarrow>
   \<exists>k<max_retries. attempt \<le> k
      \<and> oracle_calls (route_loop failed exhausted loads orc attempt calls slept) = calls + (k - attempt) + 1
      \<and> decision (route_loop failed exhausted loads orc attempt calls slept) =
          (case route_attempt loads (orc k) of Inr d \<Rightarrow> d | Inl e \<Rightarrow> failed e)"
proof (induction failed exhausted loads orc attempt calls slept rule: route_loop.induct)
  case (1 failed exhausted loads orc attempt calls slept)
  show ?case
  proof (cases "route_attempt loads (orc attempt)")
    case (Inr d)
    then have "route_loop failed exhausted loads orc attempt calls slept =
        \<lparr>decision = d, oracle_calls = calls + 1, sleeps = slept\<rparr>"
      using "1.prems" by (simp add: route_loop_ok)
    then show ?thesis using Inr "1.prems" by (intro exI [of _ attempt]) simp
  next
    case (Inl e)
    show ?thesis
    proof (cases "is_throttling e \<and> attempt < max_retries - 1")
      case False
      then have "route_loop failed exhausted loads orc attempt calls slept =
          \<lparr>decision = failed e, oracle_calls = calls + 1, sleeps = slept\<rparr>"
        using "1.prems" Inl by (subst route_loop.simps) auto
      then show ?thesis using Inl "1.prems" by (intro exI [of _ attempt]) simp
    next
      case True
      then have lt: "attempt + 1 < max_retries" by (simp add: max_retries_def)
      have step: "route_loop failed exhausted loads orc attempt calls slept =
          route_loop failed exhausted loads orc (attempt + 1) (calls + 1)
            (slept @ [base_delay * 2 ^ attempt])"
        using True "1.prems" Inl by (subst route_loop.simps) auto
      from "1.IH" [OF "1.prems" Inl True lt]
      obtain k where k: "k < max_retries" "attempt + 1 \<le> k"
        "oracle_calls (route_loop failed exhausted loads orc (attempt + 1) (calls + 1)
            (slept @ [base_delay * 2 ^ attempt])) = calls + 1 + (k - (attempt + 1)) + 1"
        "decision (route_loop failed exhausted loads orc (attempt + 1) (calls + 1)
            (slept @ [base_delay * 2 ^ attempt])) =
          (case route_attempt loads (orc k) of Inr d \<Rightarrow> d | Inl e \<Rightarrow> failed e)"
        by blast
      show ?thesis
        using k by (intro exI [of _ k]) (simp add: step)
    qed
  qed
qed

lemma ecs_failed_rationale:
  "field ''operation'' (ecs_failed e) = Some (JStr ''error'')
   \<and> (\<exists>r. field ''reasoning'' (ecs_failed e) = Some (JStr r) \<and> r \<noteq> [])"
  by (simp add: ecs_failed_def)

lemma ecs_chat_no_operation:
  assumes "decision (llm_route_ecs_command (w_loads w) (w_bedrock w)) = JDict kvs"
    "map_of kvs ''operation'' = None"
  shows "ecs_chat w data =
     (chat_result ''error''
        (JStr (''LLM failed to determine operation. Routing response: '' @ w_dumps_indent w (JDict kvs))), [])"
  using assms
  by (simp add: ecs_chat_def ecs_chat_body_def py_get_def py_get_default_def Let_def)

lemma ecs_chat_unknown_operation:
  assumes "decision (llm_route_ecs_command (w_loads w) (w_bedrock w)) = JDict kvs"
    "map_of kvs ''operation'' = Some op" "truthy op"
    "op \<notin> set [JStr ''deploy'', JStr ''list'', JStr ''delete'', JStr ''status'', JStr ''error'']"
  shows "ecs_chat w data =
     (chat_result ''error''
        (JStr (''Unknown operation: '' @ py_str (w_repr w) op
               @ ''. The LLM suggested an operation that is not implemented.'')), [])"
  using assms
  by (simp add: ecs_chat_def ecs_chat_body_def py_get_def py_get_default_def Let_def)

lemma ecs_chat_error_operation:
  assumes "decision (llm_route_ecs_command (w_loads w) (w_bedrock w)) = JDict kvs"
    "map_of kvs ''operation'' = Some (JStr ''error'')"
  shows "ecs_chat w data = (chat_result ''error'' (get_or kvs ''reasoning'' (JStr [])), [])"
  using assms
  by (simp add: ecs_chat_def ecs_chat_body_def py_get_def py_get_default_def Let_def get_or_def)

lemma ecs_chat_not_a_dict:
  assumes "decision (llm_route_ecs_command (w_loads w) (w_bedrock w)) = v" "\<forall>kvs. v \<noteq> JDict kvs"
  shows "ecs_chat w data = (chat_exception w (attribute_error (Some v) ''get''), [])"
  using assms
  by (cases v) (simp_all add: ecs_chat_def ecs_chat_body_def py_get_def Let_def)


lemma extract_plain: "\<not> py_in fence content \<Longrightarrow> extract_json content = Inr content"
proof -
  assume a: "\<not> py_in fence content"
  have "\<not> py_in fence_json content"
  proof
    assume "py_in fence_json content"
    then obtain x y where "content = x @ fence_json @ y" by (auto simp: py_in_iff)
    then have "content = x @ fence @ (''json'' @ y)" by (simp add: fence_json_def fence_def)
    then have "py_in fence content" unfolding py_in_iff by blast
    with a show False by simp
  qed
  with a show ?thesis by (simp add: extract_json_def)
qed

text \<open>
  \<open>strip\<close> takes the white space of Unicode from both ends, and only from the ends; the
  body of a fenced answer reaches \<open>json.loads\<close> without its padding.
\<close>

lemma py_strip_padded:
  "py_strip (nl @ nbsp @ ''{}'' @ nbsp @ nl) = ''{}''"
  by (simp add: py_strip_def py_lstrip_def py_rstrip_def py_whitespace_def strip_left.simps nl_def nbsp_def)

lemma py_strip_ascii:
  "py_strip ('' a b '' @ [CHR 0x09]) = ''a b''"
  by (simp add: py_strip_def py_lstrip_def py_rstrip_def py_whitespace_def strip_left.simps)

lemma py_strip_only_space: "py_strip ('' '' @ [CHR 0xE2, CHR 0x80, CHR 0xA8] @ [CHR 0xE3, CHR 0x80, CHR 0x80]) = []"
  by (simp add: py_strip_def py_lstrip_def py_rstrip_def py_whitespace_def strip_left.simps)

lemma py_take_examples:
  "py_take 2 (''a'' @ [CHR 0xC2, CHR 0xA0] @ ''bc'') = ''a'' @ [CHR 0xC2, CHR 0xA0]
   \<and> py_take 0 ''abc'' = []
   \<and> py_take 5 ''abc'' = ''abc''"
  by (simp add: continuation_def)

lemma py_take_ascii: "\<forall>c \<in> set s. \<not> continuation c \<Longrightarrow> py_take n s = take n s"
  by (induction s arbitrary: n) (auto split: nat.splits)

lemma extract_fenced_empty: "extract_json (fenced text_empty_object) = Inr text_empty_object"
  by (simp add: extract_json_def fenced_def fence_json_def fence_def nl_def nbsp_def text_empty_object_def
      py_split_def py_index_def py_strip_def py_lstrip_def py_rstrip_def py_whitespace_def strip_left.simps)

lemma extract_fenced_scale: "extract_json (fenced text_scale) = Inr text_scale"
  by (simp add: extract_json_def fenced_def fence_json_def fence_def nl_def nbsp_def text_scale_def dq_def
      py_split_def py_index_def py_strip_def py_lstrip_def py_rstrip_def py_whitespace_def strip_left.simps)

lemma demo_route_empty:
  "llm_route_ecs_command demo_loads (\<lambda>i. Text text_empty_object) =
     \<lparr>decision = JDict [], oracle_calls = 1, sleeps = []\<rparr>"
proof -
  have "\<not> py_in fence text_empty_object" by (simp add: fence_def text_empty_object_def)
  then have "route_attempt demo_loads (Text text_empty_object) = Inr (JDict [])"
    by (simp add: route_attempt_def extract_plain demo_loads_def)
  then show ?thesis
    by (simp add: llm_route_ecs_command_def route_loop_ok max_retries_def)
qed

lemma demo_route_scale:
  "llm_route_ecs_command demo_loads (\<lambda>i. Text text_scale) =
     \<lparr>decision = JDict [(''operation'', JStr ''scale'')], oracle_calls = 1, sleeps = []\<rparr>"
proof -
  have "\<not> py_in fence text_scale" by (simp add: fence_def text_scale_def dq_def)
  then have "route_attempt demo_loads (Text text_scale) = Inr (JDict [(''operation'', JStr ''scale'')])"
    by (simp add: route_attempt_def extract_plain demo_loads_def text_scale_def text_empty_object_def dq_def)
  then show ?thesis
    by (simp add: llm_route_ecs_command_def route_loop_ok max_retries_def)
qed

text \<open>
  Claim C2, as the code has it. The router never raises: its decision is the value parsed
  at the last attempt it made, or, when that attempt ended in an exception, the error
  decision, whose operation is \<open>error\<close> and whose rationale is not empty. A text that
  \<open>json.loads\<close> rejects ends the attempt in such an exception, and the router returns
  the error decision at once. The router does not look for the keys of what it parsed: an
  object without \<open>operation\<close> is returned as it is, and the chat handler answers it
  with status \<open>error\<close> and a message, running nothing.
\<close>

theorem malformed_oracle_output:
  "(\<exists>k<max_retries.
       oracle_calls (llm_route_ecs_command loads oracle) = k + 1
       \<and> decision (llm_route_ecs_command loads oracle) =
           (case route_attempt loads (oracle k) of Inr d \<Rightarrow> d | Inl e \<Rightarrow> ecs_failed e))
   \<and> (\<forall>e. field ''operation'' (ecs_failed e) = Some (JStr ''error'')
          \<and> (\<exists>r. field ''reasoning'' (ecs_failed e) = Some (JStr r) \<and> r \<noteq> []))
   \<and> (\<forall>k content c msg.
         k < max_retries \<and> (\<forall>i<k. throttled loads oracle i) \<and> oracle k = Text content
         \<and> extract_json content = Inr c \<and> loads c = Inl msg \<and> \<not> is_throttling msg \<longrightarrow>
         decision (llm_route_ecs_command loads oracle) = ecs_failed msg
         \<and> oracle_calls (llm_route_ecs_command loads oracle) = k + 1)
   \<and> (\<forall>k kvs w data.
         w_loads w = loads \<and> w_bedrock w = oracle \<and> k < max_retries \<and> (\<forall>i<k. throttled loads oracle i)
         \<and> route_attempt loads (oracle k) = Inr (JDict kvs) \<and> map_of kvs ''operation'' = None \<longrightarrow>
         decision (llm_route_ecs_command loads oracle) = JDict kvs
         \<and> ecs_chat w data =
             (chat_result ''error''
                (JStr (''LLM failed to determine operation. Routing response: ''
                       @ w_dumps_indent w (JDict kvs))), []))"
proof (intro conjI allI impI)
  show "\<exists>k<max_retries.
       oracle_calls (llm_route_ecs_command loads oracle) = k + 1
       \<and> decision (llm_route_ecs_command loads oracle) =
           (case route_attempt loads (oracle k) of Inr d \<Rightarrow> d | Inl e \<Rightarrow> ecs_failed e)"
    using route_loop_last [of 0 ecs_failed ecs_exhausted loads _ 0 "[]"]
    by (simp add: llm_route_ecs_command_def max_retries_def)
next
  fix e
  show "field ''operation'' (ecs_failed e) = Some (JStr ''error'')"
    by (simp add: ecs_failed_def)
  show "\<exists>r. field ''reasoning'' (ecs_failed e) = Some (JStr r) \<and> r \<noteq> []"
    by (simp add: ecs_failed_def)
next
  fix k content c msg
  assume h: "k < max_retries \<and> (\<forall>i<k. throttled loads oracle i) \<and> oracle k = Text content
         \<and> extract_json content = Inr c \<and> loads c = Inl msg \<and> \<not> is_throttling msg"
  then have att: "route_attempt loads (oracle k) = Inl msg"
    by (simp add: route_attempt_def)
  have run: "route_loop ecs_failed ecs_exhausted loads oracle 0 0 [] =
        \<lparr>decision = ecs_failed msg, oracle_calls = k + 1, sleeps = map backoff [0..<k]\<rparr>"
    using h att by (intro route_loop_stops) auto
  show "decision (llm_route_ecs_command loads oracle) = ecs_failed msg"
    by (simp add: llm_route_ecs_command_def run)
  show "oracle_calls (llm_route_ecs_command loads oracle) = k + 1"
    by (simp add: llm_route_ecs_command_def run)
next
  fix k kvs and w :: world and data :: "(string \<times> json) list"
  assume h: "w_loads w = loads \<and> w_bedrock w = oracle \<and> k < max_retries \<and> (\<forall>i<k. throttled loads oracle i)
         \<and> route_attempt loads (oracle k) = Inr (JDict kvs) \<and> map_of kvs ''operation'' = None"
  have run: "route_loop ecs_failed ecs_exhausted loads oracle 0 0 [] =
        \<lparr>decision = JDict kvs, oracle_calls = k + 1, sleeps = map backoff [0..<k]\<rparr>"
    using h by (intro route_loop_returns) auto
  then show d: "decision (llm_route_ecs_command loads oracle) = JDict kvs"
    by (simp add: llm_route_ecs_command_def)
  show "ecs_chat w data =
             (chat_result ''error''
                (JStr (''LLM failed to determine operation. Routing response: ''
                       @ w_dumps_indent w (JDict kvs))), [])"
    using h d by (intro ecs_chat_no_operation) auto
qed

theorem malformed_oracle_output_witness:
  "decision (llm_route_ecs_command demo_loads (\<lambda>i. Text ''deploy my blog''))
     = ecs_failed ''Expecting value: line 1 column 1 (char 0)''
   \<and> oracle_calls (llm_route_ecs_command demo_loads (\<lambda>i. Text ''deploy my blog'')) = 1
   \<and> decision (llm_route_ecs_command demo_loads (\<lambda>i. Text text_empty_object)) = JDict []
   \<and> ecs_chat (demo_world text_empty_object) [] =
       (chat_result ''error'' (JStr ''LLM failed to determine operation. Routing response: <json>''), [])
   \<and> decision (llm_route_ecs_command demo_loads (\<lambda>i. Text (fenced text_empty_object))) = JDict []
   \<and> ecs_chat (demo_world (fenced text_empty_object)) [] =
       (chat_result ''error'' (JStr ''LLM failed to determine operation. Routing response: <json>''), [])"
proof -
  let ?o1 = "\<lambda>i::nat. Text ''deploy my blog''"
  let ?o2 = "\<lambda>i::nat. Text text_empty_object"
  let ?o3 = "\<lambda>i::nat. Text (fenced text_empty_object)"
  have f1: "\<not> py_in fence ''deploy my blog''" by (simp add: fence_def)
  have f2: "\<not> py_in fence text_empty_object" by (simp add: fence_def text_empty_object_def)
  have nt: "\<not> is_throttling ''Expecting value: line 1 column 1 (char 0)''"
    by (simp add: is_throttling_def)
  have h1: "(0::nat) < max_retries \<and> (\<forall>i<0. throttled demo_loads ?o1 i) \<and> ?o1 0 = Text ''deploy my blog''
      \<and> extract_json ''deploy my blog'' = Inr ''deploy my blog''
      \<and> demo_loads ''deploy my blog'' = Inl ''Expecting value: line 1 column 1 (char 0)''
      \<and> \<not> is_throttling ''Expecting value: line 1 column 1 (char 0)''"
    using f1 nt
    by (simp add: max_retries_def extract_plain demo_loads_def text_empty_object_def text_scale_def
        text_deploy_blog_def dq_def)
  have h2: "w_loads (demo_world text_empty_object) = demo_loads
      \<and> w_bedrock (demo_world text_empty_object) = ?o2
      \<and> (0::nat) < max_retries \<and> (\<forall>i<0. throttled demo_loads ?o2 i)
      \<and> route_attempt demo_loads (?o2 0) = Inr (JDict []) \<and> map_of ([] :: (string \<times> json) list) ''operation'' = None"
    using f2
    by (simp add: max_retries_def demo_world_def route_attempt_def extract_plain demo_loads_def)
  have h3: "w_loads (demo_world (fenced text_empty_object)) = demo_loads
      \<and> w_bedrock (demo_world (fenced text_empty_object)) = ?o3
      \<and> (0::nat) < max_retries \<and> (\<forall>i<0. throttled demo_loads ?o3 i)
      \<and> route_attempt demo_loads (?o3 0) = Inr (JDict []) \<and> map_of ([] :: (string \<times> json) list) ''operation'' = None"
    by (simp add: max_retries_def demo_world_def route_attempt_def extract_fenced_empty demo_loads_def)
  from malformed_oracle_output [of demo_loads ?o1] h1
  have p1: "decision (llm_route_ecs_command demo_loads ?o1)
       = ecs_failed ''Expecting value: line 1 column 1 (char 0)''
     \<and> oracle_calls (llm_route_ecs_command demo_loads ?o1) = 0 + 1" by blast
  from malformed_oracle_output [of demo_loads ?o2] h2
  have p2: "decision (llm_route_ecs_command demo_loads ?o2) = JDict []
       \<and> ecs_chat (demo_world text_empty_object) [] =
             (chat_result ''error''
                (JStr (''LLM failed to determine operation. Routing response: ''
                       @ w_dumps_indent (demo_world text_empty_object) (JDict []))), [])" by blast
  from malformed_oracle_output [of demo_loads ?o3] h3
  have p3: "decision (llm_route_ecs_command demo_loads ?o3) = JDict []
       \<and> ecs_chat (demo_world (fenced text_empty_object)) [] =
             (chat_result ''error''
                (JStr (''LLM failed to determine operation. Routing response: ''
                       @ w_dumps_indent (demo_world (fenced text_empty_object)) (JDict []))), [])" by blast
  show ?thesis using p1 p2 p3 by (simp add: demo_world_def)
qed

text \<open>
  Claim C2 as stated has the router return operation \<open>error\<close> when required keys are
  missing. For the answer \<open>{}\<close> the router returns the empty object, which has no
  operation.
\<close>

theorem missing_operation_counterexample:
  "decision (llm_route_ecs_command demo_loads (\<lambda>i. Text text_empty_object)) = JDict []
   \<and> field ''operation'' (decision (llm_route_ecs_command demo_loads (\<lambda>i. Text text_empty_object)))
     = None"
  by (simp add: demo_route_empty)




section \<open>The deploy pipeline of the chat handlers\<close>

lemma py_in_parts: "s = a @ sub @ b \<Longrightarrow> py_in sub s"
  by (auto simp: py_in_iff)

lemma effects_bind:
  assumes "set (snd m) \<subseteq> S" "\<And>x. set (snd (f x)) \<subseteq> S"
  shows "set (snd (io_bind m f)) \<subseteq> S"
proof (cases m)
  case (Pair r t)
  show ?thesis
  proof (cases r)
    case (Inl e)
    with Pair assms(1) show ?thesis by (simp add: io_bind_def)
  next
    case (Inr x)
    obtain r' t' where f: "f x = (r', t')" by (cases "f x")
    from assms(2) [of x] f have "set t' \<subseteq> S" by simp
    with Pair Inr f assms(1) show ?thesis by (simp add: io_bind_def)
  qed
qed

lemma yields_bind:
  assumes "\<And>x y. fst (f x) = Inr y \<Longrightarrow> P y" "fst (io_bind m f) = Inr y"
  shows "P y"
proof (cases m)
  case (Pair r t)
  show ?thesis
  proof (cases r)
    case (Inl e)
    with Pair assms(2) show ?thesis by (simp add: io_bind_def)
  next
    case (Inr x)
    obtain r' t' where f: "f x = (r', t')" by (cases "f x")
    with Pair Inr assms(2) have "fst (f x) = Inr y" by (simp add: io_bind_def)
    then show ?thesis by (rule assms(1))
  qed
qed

lemma within_bind: "io_within S m \<Longrightarrow> (\<And>x. io_within S (f x)) \<Longrightarrow> io_within S (io_bind m f)"
  unfolding io_within_def by (rule effects_bind)

lemma within_if: "(c \<Longrightarrow> io_within S m) \<Longrightarrow> (\<not> c \<Longrightarrow> io_within S m') \<Longrightarrow> io_within S (if c then m else m')"
  by simp

lemma within_return [simp]: "io_within S (io_return x)"
  by (simp add: io_within_def io_return_def)

lemma within_raise [simp]: "io_within S (io_raise e)"
  by (simp add: io_within_def io_raise_def)

lemma within_lift [simp]: "io_within S (io_lift r)"
  by (simp add: io_within_def io_lift_def)

lemma within_call [simp]: "io_within S (io_call ef r) = (ef \<in> S)"
  by (simp add: io_within_def io_call_def)

lemma within_mono: "io_within S m \<Longrightarrow> S \<subseteq> S' \<Longrightarrow> io_within S' m"
  by (auto simp: io_within_def)

lemma yields_bind': "(\<And>x. io_yields P (f x)) \<Longrightarrow> io_yields P (io_bind m f)"
  unfolding io_yields_def using yields_bind [of f P m] by blast

lemma yields_if: "(c \<Longrightarrow> io_yields P m) \<Longrightarrow> (\<not> c \<Longrightarrow> io_yields P m') \<Longrightarrow> io_yields P (if c then m else m')"
  by simp

lemma yields_return [simp]: "io_yields P (io_return x) = P x"
  by (simp add: io_yields_def io_return_def)

lemma within_run_process [simp]: "io_within S (run_process w cmd inp) = (Subprocess cmd \<in> S)"
  by (simp add: run_process_def)

lemma within_run_checked: "Subprocess cmd \<in> S \<Longrightarrow> io_within S (run_checked w cmd)"
  unfolding run_checked_def by (intro within_bind within_if) simp_all

lemma called_process_error_examples:
  "called_process_error (demo_world answer) [''docker'', ''tag''] 1
     = ''Command '' @ [CHR 0x27] @ ''<repr>'' @ [CHR 0x27] @ '' returned non-zero exit status 1.''
   \<and> called_process_error (demo_world answer) [''docker'', ''tag''] (- 9)
     = ''Command '' @ [CHR 0x27] @ ''<repr>'' @ [CHR 0x27] @ '' died with <Signals.SIGKILL: 9>.''
   \<and> called_process_error (demo_world answer) [''docker'', ''tag''] (- 200)
     = ''Command '' @ [CHR 0x27] @ ''<repr>'' @ [CHR 0x27] @ '' died with unknown signal 200.''"
  by (simp add: called_process_error_def demo_world_def str_int_def digit_char_def)

lemma within_create_if_missing [simp]:
  "io_within S (create_repository_if_missing w region app_name) = (EcrCreateRepository region app_name \<in> S)"
  by (simp add: create_repository_if_missing_def io_within_def split: sum.splits py_exn.splits)

lemma within_build_steps: "io_within (build_effects region app_name) (build_steps w app_name region)"
  unfolding build_steps_def Let_def
  by (intro within_bind within_if within_run_checked) (simp_all add: build_effects_def)

lemma effects_build:
  "set (snd (build_and_push_docker_image w app_name region)) \<subseteq> build_effects region app_name"
  using within_build_steps [of region app_name w]
  by (cases "build_steps w app_name region"; cases "fst (build_steps w app_name region)")
     (auto simp: build_and_push_docker_image_def io_catch_def io_within_def)

lemma build_error_ok [simp]: "build_result_ok (build_error msg)"
  by (auto simp: build_result_ok_def)

lemma yields_build_steps: "io_yields build_result_ok (build_steps w app_name region)"
  unfolding build_steps_def Let_def
  by (intro yields_bind' yields_if) (auto simp: build_result_ok_def)

lemma build_steps_shape:
  "fst (build_steps w app_name region) = Inr j \<Longrightarrow> build_result_ok j"
  using yields_build_steps [of w app_name region] by (simp add: io_yields_def)

lemma build_shape: "build_result_ok (fst (build_and_push_docker_image w app_name region))"
proof (cases "build_steps w app_name region")
  case (Pair r t)
  show ?thesis
  proof (cases r)
    case (Inl e)
    with Pair show ?thesis by (simp add: build_and_push_docker_image_def io_catch_def)
  next
    case (Inr j)
    with Pair have "fst (build_steps w app_name region) = Inr j" by simp
    then have "build_result_ok j" by (rule build_steps_shape)
    with Pair Inr show ?thesis by (simp add: build_and_push_docker_image_def io_catch_def)
  qed
qed

lemma build_failed_shape:
  assumes "field ''status'' (fst (build_and_push_docker_image w app_name region)) \<noteq> Some (JStr ''success'')"
  shows "\<exists>msg. fst (build_and_push_docker_image w app_name region) = build_error msg"
  using assms build_shape [of w app_name region] by (auto simp: build_result_ok_def)

lemma registry_step_effects [simp]:
  "snd (ecs_registry_step w region app_name) = [EcrCreateRepository region app_name]"
  by (simp add: ecs_registry_step_def split: sum.splits py_exn.splits)

lemma pipeline_build_failed:
  assumes "app_name \<noteq> []"
    "fst (ecs_registry_step w (da_deploy_region a) app_name) = Inr line1"
    "fst (build_and_push_docker_image w app_name (da_deploy_region a)) = build_error msg"
  shows "ecs_deploy_pipeline w a app_name env_vars response_text =
     (Inr (chat_result ''error''
             (JStr ((response_text @ deploy_heading w a app_name)
                    @ line1 @ nl @ ''**Step 2: Build and Push Docker Image**'' @ nl
                    @ mark_cross @ '' Build failed: '' @ msg @ nl))),
      EcrCreateRepository (da_deploy_region a) app_name
      # snd (build_and_push_docker_image w app_name (da_deploy_region a)))"
proof -
  obtain t1 where r: "ecs_registry_step w (da_deploy_region a) app_name = (Inr line1, t1)"
    using assms(2) by (cases "ecs_registry_step w (da_deploy_region a) app_name") auto
  then have t1: "t1 = [EcrCreateRepository (da_deploy_region a) app_name]"
    using registry_step_effects [of w "da_deploy_region a" app_name] by simp
  obtain t2 where b: "build_and_push_docker_image w app_name (da_deploy_region a) = (build_error msg, t2)"
    using assms(3) by (cases "build_and_push_docker_image w app_name (da_deploy_region a)") auto
  show ?thesis
    unfolding ecs_deploy_pipeline_def Let_def
    using assms(1) r b t1
    by (simp add: build_error_def py_item_def io_return_def deploy_heading_def)
qed


lemma registry_step_line:
  assumes "fst (ecs_registry_step w region app_name) = Inr line1"
  shows "line1 = mark_ok @ '' Created ECR repository: '' @ app_name @ nl
         \<or> line1 = mark_ok @ '' ECR repository already exists: '' @ app_name @ nl"
  using assms by (auto simp: ecs_registry_step_def split: sum.splits py_exn.splits)

lemma ecs_chat_reaches_deploy:
  assumes "decision (llm_route_ecs_command (w_loads w) (w_bedrock w)) = JDict kvs"
    "map_of kvs ''operation'' = Some (JStr ''deploy'')"
    "get_or kvs ''arguments'' (JDict []) = JDict args"
    "ecs_enrich (w_repr w) (ecs_deploy_arguments (w_repr w) (get_or data ''region'' (JStr ''us-west-2'')) args)
       = Inr (app_name, env_vars)"
  shows "ecs_chat w data =
     io_catch (ecs_deploy_pipeline w
                 (ecs_deploy_arguments (w_repr w) (get_or data ''region'' (JStr ''us-west-2'')) args)
                 app_name env_vars
                 (mark_robot @ '' **Understanding your request...**'' @ nl @ nl
                  @ mark_bulb @ '' '' @ py_str (w_repr w) (get_or kvs ''reasoning'' (JStr [])) @ nl @ nl))
       (chat_exception w)"
  using assms
  by (simp add: ecs_chat_def ecs_chat_body_def ecs_chat_deploy_def py_get_def py_get_default_def
      get_or_def Let_def)


lemma demo_route_deploy:
  "llm_route_ecs_command demo_loads (\<lambda>i. Text text_deploy_blog) =
     \<lparr>decision = JDict [(''operation'', JStr ''deploy''),
                       (''arguments'', JDict [(''app_name'', JStr ''blog''), (''port'', JInt 8080)])],
      oracle_calls = 1, sleeps = []\<rparr>"
proof -
  have "\<not> py_in fence text_deploy_blog" by (simp add: fence_def text_deploy_blog_def dq_def)
  then have "route_attempt demo_loads (Text text_deploy_blog) =
      Inr (JDict [(''operation'', JStr ''deploy''),
                       (''arguments'', JDict [(''app_name'', JStr ''blog''), (''port'', JInt 8080)])])"
    by (simp add: route_attempt_def extract_plain demo_loads_def text_scale_def text_deploy_blog_def
        text_empty_object_def dq_def)
  then show ?thesis
    by (simp add: llm_route_ecs_command_def route_loop_ok max_retries_def)
qed


lemma map_of_dict_update: "map_of (dict_update d u) = map_of d ++ map_of (rev u)"
  unfolding dict_update_def
proof (induction u arbitrary: d)
  case Nil
  then show ?case by simp
next
  case (Cons p u)
  obtain k v where p: "p = (k, v)" by (cases p)
  show ?case
    by (simp add: p Cons.IH update_conv' map_add_def fun_eq_iff split: option.splits)
qed

lemma ecs_enrich_blog:
  assumes "blog_app app_name" "da_app_name a = Some (JStr app_name)" "da_env_vars a = JDict env"
  shows "ecs_enrich repr a =
     Inr (app_name, JDict (dict_update env (ecs_config_env repr (da_deploy_region a) (da_app_port a))))"
  using assms by (simp add: ecs_enrich_def)

lemma eks_enrich_blog:
  assumes "blog_app app_name" "da_app_name a = Some (JStr app_name)" "da_env_vars a = JDict env"
  shows "eks_enrich repr region a =
     Inr (app_name, JDict (dict_update env (eks_config_env repr region (da_app_port a))))"
  using assms by (simp add: eks_enrich_def)

lemma ecs_config_env_lookup:
  "map_of (dict_update env (ecs_config_env repr deploy_region app_port)) k =
     (if k = ''AWS_REGION'' then Some deploy_region
      else if k = ''DYNAMODB_TABLE'' then Some (JStr (cfg_dynamodb_table CONFIG))
      else if k = ''S3_BUCKET''
      then Some (JStr (cfg_s3_bucket_prefix CONFIG @ ''-'' @ cfg_account_id CONFIG @ ''-''
                       @ py_str repr deploy_region))
      else if k = ''COGNITO_USER_POOL_ID'' then Some (JStr (cfg_cognito_user_pool_id CONFIG))
      else if k = ''COGNITO_CLIENT_ID'' then Some (JStr (cfg_cognito_client_id CONFIG))
      else if k = ''PORT'' then Some (JStr (py_str repr app_port))
      else map_of env k)"
  by (simp add: map_of_dict_update ecs_config_env_def map_add_def)

lemma eks_config_env_lookup:
  "map_of (dict_update env (eks_config_env repr region app_port)) k =
     (if k = ''AWS_REGION'' then Some region
      else if k = ''DYNAMODB_TABLE'' then Some (JStr (cfg_dynamodb_table CONFIG))
      else if k = ''S3_BUCKET''
      then Some (JStr (cfg_s3_bucket_prefix CONFIG @ ''-'' @ cfg_account_id CONFIG @ ''-''
                       @ py_str repr region))
      else if k = ''COGNITO_USER_POOL_ID'' then Some (JStr (cfg_cognito_user_pool_id CONFIG))
      else if k = ''COGNITO_CLIENT_ID'' then Some (JStr (cfg_cognito_client_id CONFIG))
      else if k = ''PORT'' then Some (JStr (py_str repr app_port))
      else if k = ''NODE_ENV'' then Some (JStr ''production'')
      else map_of env k)"
  by (simp add: map_of_dict_update eks_config_env_def map_add_def)


lemma within_build:
  "io_within S (case build_and_push_docker_image w app_name region of (r, t) \<Rightarrow> (Inr r, t))
     = (set (snd (build_and_push_docker_image w app_name region)) \<subseteq> S)"
  by (cases "build_and_push_docker_image w app_name region") (simp add: io_within_def)

lemma within_cfn_io: "range (Cfn region) \<subseteq> S \<Longrightarrow> io_within S (cfn_io region r)"
  by (auto simp: io_within_def cfn_io_def)

lemma within_registry_step [simp]:
  "io_within S (ecs_registry_step w region app_name) = (EcrCreateRepository region app_name \<in> S)"
  by (simp add: io_within_def)

lemma within_ecs_pipeline:
  "io_within (ecs_pipeline_effects w a app_name env_vars)
     (ecs_deploy_pipeline w a app_name env_vars response_text)"
  unfolding ecs_deploy_pipeline_def Let_def
  apply (intro within_bind within_if within_cfn_io)
  using effects_build [of w app_name "da_deploy_region a"]
  apply (auto simp: ecs_pipeline_effects_def within_build build_effects_def)
  done

lemma ecs_prompt_passed:
  assumes "InvokeAgent prompt \<in> set (snd (ecs_deploy_pipeline w a app_name env_vars response_text))"
  shows "prompt = ecs_deploy_prompt w a (app_name @ ''-'' @ str_int (w_now w))
                    (cfg_account_id CONFIG @ ''.dkr.ecr.'' @ py_str (w_repr w) (da_deploy_region a)
                     @ ''.amazonaws.com/'' @ app_name @ '':latest'') env_vars"
  using assms within_ecs_pipeline [of w a app_name env_vars response_text]
  by (auto simp: io_within_def ecs_pipeline_effects_def build_effects_def)

lemma within_mcp_call [simp]: "io_within S (mcp_call w tool_name arguments) = (McpTool tool_name arguments \<in> S)"
  by (simp add: mcp_call_def)

lemma within_eks_pipeline:
  "io_within (eks_pipeline_effects w cluster region a app_name env_vars)
     (eks_deploy_pipeline w cluster region a app_name env_vars response_text)"
  unfolding eks_deploy_pipeline_def Let_def
  apply (intro within_bind within_if)
  using effects_build [of w app_name region]
  apply (auto simp: eks_pipeline_effects_def within_build build_effects_def eks_deploy_tool_arguments_def
      split: json.splits)
  done

lemma eks_env_passed:
  assumes "McpTool ''deploy_to_eks_with_irsa'' targs
             \<in> set (snd (eks_deploy_pipeline w cluster region a app_name env_vars response_text))"
  shows "field ''env_vars'' targs = Some env_vars"
  using assms within_eks_pipeline [of w cluster region a app_name env_vars response_text]
  by (auto simp: io_within_def eks_pipeline_effects_def build_effects_def)

lemma ecs_chat_deploy_prompt:
  assumes "InvokeAgent prompt \<in> set (snd (ecs_chat_deploy w region (JDict args) response_text))"
  shows "\<exists>name env_vars.
           ecs_enrich (w_repr w) (ecs_deploy_arguments (w_repr w) region args) = Inr (name, env_vars)
           \<and> prompt = ecs_deploy_prompt w (ecs_deploy_arguments (w_repr w) region args)
                        (name @ ''-'' @ str_int (w_now w))
                        (cfg_account_id CONFIG @ ''.dkr.ecr.''
                         @ py_str (w_repr w) (da_deploy_region (ecs_deploy_arguments (w_repr w) region args))
                         @ ''.amazonaws.com/'' @ name @ '':latest'') env_vars"
proof (cases "ecs_enrich (w_repr w) (ecs_deploy_arguments (w_repr w) region args)")
  case (Inl e)
  with assms show ?thesis by (simp add: ecs_chat_deploy_def Let_def)
next
  case (Inr p)
  obtain name env_vars where p: "p = (name, env_vars)" by (cases p)
  from assms Inr p
  have "InvokeAgent prompt \<in> set (snd (ecs_deploy_pipeline w (ecs_deploy_arguments (w_repr w) region args)
           name env_vars response_text))"
    by (simp add: ecs_chat_deploy_def Let_def)
  from ecs_prompt_passed [OF this] Inr p show ?thesis by blast
qed

lemma eks_chat_deploy_env:
  assumes "McpTool ''deploy_to_eks_with_irsa'' targs
             \<in> set (snd (eks_chat_deploy w cluster region (JDict args) response_text))"
  shows "\<exists>name env_vars.
           eks_enrich (w_repr w) region (eks_deploy_arguments (w_repr w) args) = Inr (name, env_vars)
           \<and> field ''env_vars'' targs = Some env_vars"
proof (cases "eks_enrich (w_repr w) region (eks_deploy_arguments (w_repr w) args)")
  case (Inl e)
  with assms show ?thesis by (simp add: eks_chat_deploy_def Let_def)
next
  case (Inr p)
  obtain name env_vars where p: "p = (name, env_vars)" by (cases p)
  from assms Inr p
  have "McpTool ''deploy_to_eks_with_irsa'' targs
          \<in> set (snd (eks_deploy_pipeline w cluster region (eks_deploy_arguments (w_repr w) args)
           name env_vars response_text))"
    by (simp add: eks_chat_deploy_def Let_def)
  from eks_env_passed [OF this] Inr p show ?thesis by blast
qed

text \<open>
  Claim C10, as the code has it. For a deploy whose application name contains
  \<open>blog\<close> or \<open>sample\<close> (in any case) and whose environment is a dictionary, the
  handlers overwrite, whatever the oracle put in the environment: \<open>DYNAMODB_TABLE\<close>,
  \<open>COGNITO_USER_POOL_ID\<close> and \<open>COGNITO_CLIENT_ID\<close> with the configured values,
  \<open>S3_BUCKET\<close> with the configured prefix, the account and the region,
  \<open>AWS_REGION\<close> with the region (for ECS the region argument of the decision, when
  it has one) and \<open>PORT\<close> with the text of the port argument of the decision (the
  configured port when it has none); the EKS handler also sets \<open>NODE_ENV\<close>. Every
  other variable keeps its value. This environment is the one in the prompt that
  \<open>ecs_chat\<close> sends to the agent and in the arguments that \<open>eks_chat\<close> gives
  the deploy tool.
\<close>

theorem blog_environment_enriched:
  "(blog_app app_name \<and> map_of args ''app_name'' = Some (JStr app_name)
      \<and> da_env_vars (ecs_deploy_arguments repr region args) = JDict env \<longrightarrow>
      ecs_enrich repr (ecs_deploy_arguments repr region args) =
        Inr (app_name,
             JDict (dict_update env
                      (ecs_config_env repr (get_or args ''region'' region)
                         (get_or args ''port'' (JStr (cfg_app_port CONFIG))))))
      \<and> (\<forall>k. map_of (dict_update env
                        (ecs_config_env repr (get_or args ''region'' region)
                           (get_or args ''port'' (JStr (cfg_app_port CONFIG))))) k =
            (if k = ''AWS_REGION'' then Some (get_or args ''region'' region)
             else if k = ''DYNAMODB_TABLE'' then Some (JStr (cfg_dynamodb_table CONFIG))
             else if k = ''S3_BUCKET''
             then Some (JStr (cfg_s3_bucket_prefix CONFIG @ ''-'' @ cfg_account_id CONFIG @ ''-''
                              @ py_str repr (get_or args ''region'' region)))
             else if k = ''COGNITO_USER_POOL_ID'' then Some (JStr (cfg_cognito_user_pool_id CONFIG))
             else if k = ''COGNITO_CLIENT_ID'' then Some (JStr (cfg_cognito_client_id CONFIG))
             else if k = ''PORT''
             then Some (JStr (py_str repr (get_or args ''port'' (JStr (cfg_app_port CONFIG)))))
             else map_of env k)))
   \<and> (blog_app app_name \<and> map_of args ''app_name'' = Some (JStr app_name)
      \<and> da_env_vars (eks_deploy_arguments repr args) = JDict env \<longrightarrow>
      eks_enrich repr region (eks_deploy_arguments repr args) =
        Inr (app_name,
             JDict (dict_update env (eks_config_env repr region (get_or args ''port'' (JInt 3000)))))
      \<and> (\<forall>k. map_of (dict_update env (eks_config_env repr region (get_or args ''port'' (JInt 3000)))) k =
            (if k = ''AWS_REGION'' then Some region
             else if k = ''DYNAMODB_TABLE'' then Some (JStr (cfg_dynamodb_table CONFIG))
             else if k = ''S3_BUCKET''
             then Some (JStr (cfg_s3_bucket_prefix CONFIG @ ''-'' @ cfg_account_id CONFIG @ ''-''
                              @ py_str repr region))
             else if k = ''COGNITO_USER_POOL_ID'' then Some (JStr (cfg_cognito_user_pool_id CONFIG))
             else if k = ''COGNITO_CLIENT_ID'' then Some (JStr (cfg_cognito_client_id CONFIG))
             else if k = ''PORT'' then Some (JStr (py_str repr (get_or args ''port'' (JInt 3000))))
             else if k = ''NODE_ENV'' then Some (JStr ''production'')
             else map_of env k)))
   \<and> (\<forall>w response_text prompt.
        InvokeAgent prompt \<in> set (snd (ecs_chat_deploy w region (JDict args) response_text)) \<longrightarrow>
        (\<exists>name env_vars.
           ecs_enrich (w_repr w) (ecs_deploy_arguments (w_repr w) region args) = Inr (name, env_vars)
           \<and> prompt = ecs_deploy_prompt w (ecs_deploy_arguments (w_repr w) region args)
                        (name @ ''-'' @ str_int (w_now w))
                        (cfg_account_id CONFIG @ ''.dkr.ecr.''
                         @ py_str (w_repr w) (da_deploy_region (ecs_deploy_arguments (w_repr w) region args))
                         @ ''.amazonaws.com/'' @ name @ '':latest'') env_vars))
   \<and> (\<forall>w cluster response_text targs.
        McpTool ''deploy_to_eks_with_irsa'' targs
          \<in> set (snd (eks_chat_deploy w cluster region (JDict args) response_text)) \<longrightarrow>
        (\<exists>name env_vars.
           eks_enrich (w_repr w) region (eks_deploy_arguments (w_repr w) args) = Inr (name, env_vars)
           \<and> field ''env_vars'' targs = Some env_vars))"
proof (intro conjI impI allI)
  assume h: "blog_app app_name \<and> map_of args ''app_name'' = Some (JStr app_name)
      \<and> da_env_vars (ecs_deploy_arguments repr region args) = JDict env"
  have a: "da_app_name (ecs_deploy_arguments repr region args) = Some (JStr app_name)"
    "da_deploy_region (ecs_deploy_arguments repr region args) = get_or args ''region'' region"
    "da_app_port (ecs_deploy_arguments repr region args) = get_or args ''port'' (JStr (cfg_app_port CONFIG))"
    using h by (simp_all add: ecs_deploy_arguments_def Let_def)
  show "ecs_enrich repr (ecs_deploy_arguments repr region args) =
        Inr (app_name,
             JDict (dict_update env
                      (ecs_config_env repr (get_or args ''region'' region)
                         (get_or args ''port'' (JStr (cfg_app_port CONFIG))))))"
    using ecs_enrich_blog [of app_name "ecs_deploy_arguments repr region args" env repr] h a by simp
next
  fix k
  show "map_of (dict_update env
                        (ecs_config_env repr (get_or args ''region'' region)
                           (get_or args ''port'' (JStr (cfg_app_port CONFIG))))) k =
            (if k = ''AWS_REGION'' then Some (get_or args ''region'' region)
             else if k = ''DYNAMODB_TABLE'' then Some (JStr (cfg_dynamodb_table CONFIG))
             else if k = ''S3_BUCKET''
             then Some (JStr (cfg_s3_bucket_prefix CONFIG @ ''-'' @ cfg_account_id CONFIG @ ''-''
                              @ py_str repr (get_or args ''region'' region)))
             else if k = ''COGNITO_USER_POOL_ID'' then Some (JStr (cfg_cognito_user_pool_id CONFIG))
             else if k = ''COGNITO_CLIENT_ID'' then Some (JStr (cfg_cognito_client_id CONFIG))
             else if k = ''PORT''
             then Some (JStr (py_str repr (get_or args ''port'' (JStr (cfg_app_port CONFIG)))))
             else map_of env k)"
    by (rule ecs_config_env_lookup)
next
  assume h: "blog_app app_name \<and> map_of args ''app_name'' = Some (JStr app_name)
      \<and> da_env_vars (eks_deploy_arguments repr args) = JDict env"
  have a: "da_app_name (eks_deploy_arguments repr args) = Some (JStr app_name)"
    "da_app_port (eks_deploy_arguments repr args) = get_or args ''port'' (JInt 3000)"
    using h by (simp_all add: eks_deploy_arguments_def Let_def)
  show "eks_enrich repr region (eks_deploy_arguments repr args) =
        Inr (app_name,
             JDict (dict_update env (eks_config_env repr region (get_or args ''port'' (JInt 3000)))))"
    using eks_enrich_blog [of app_name "eks_deploy_arguments repr args" env repr region] h a by simp
next
  fix k
  show "map_of (dict_update env (eks_config_env repr region (get_or args ''port'' (JInt 3000)))) k =
            (if k = ''AWS_REGION'' then Some region
             else if k = ''DYNAMODB_TABLE'' then Some (JStr (cfg_dynamodb_table CONFIG))
             else if k = ''S3_BUCKET''
             then Some (JStr (cfg_s3_bucket_prefix CONFIG @ ''-'' @ cfg_account_id CONFIG @ ''-''
                              @ py_str repr region))
             else if k = ''COGNITO_USER_POOL_ID'' then Some (JStr (cfg_cognito_user_pool_id CONFIG))
             else if k = ''COGNITO_CLIENT_ID'' then Some (JStr (cfg_cognito_client_id CONFIG))
             else if k = ''PORT'' then Some (JStr (py_str repr (get_or args ''port'' (JInt 3000))))
             else if k = ''NODE_ENV'' then Some (JStr ''production'')
             else map_of env k)"
    by (rule eks_config_env_lookup)
next
  fix w :: world and response_text prompt
  assume "InvokeAgent prompt \<in> set (snd (ecs_chat_deploy w region (JDict args) response_text))"
  then show "\<exists>name env_vars.
           ecs_enrich (w_repr w) (ecs_deploy_arguments (w_repr w) region args) = Inr (name, env_vars)
           \<and> prompt = ecs_deploy_prompt w (ecs_deploy_arguments (w_repr w) region args)
                        (name @ ''-'' @ str_int (w_now w))
                        (cfg_account_id CONFIG @ ''.dkr.ecr.''
                         @ py_str (w_repr w) (da_deploy_region (ecs_deploy_arguments (w_repr w) region args))
                         @ ''.amazonaws.com/'' @ name @ '':latest'') env_vars"
    by (rule ecs_chat_deploy_prompt)
next
  fix w :: world and cluster response_text targs
  assume "McpTool ''deploy_to_eks_with_irsa'' targs
          \<in> set (snd (eks_chat_deploy w cluster region (JDict args) response_text))"
  then show "\<exists>name env_vars.
           eks_enrich (w_repr w) region (eks_deploy_arguments (w_repr w) args) = Inr (name, env_vars)
           \<and> field ''env_vars'' targs = Some env_vars"
    by (rule eks_chat_deploy_env)
qed

lemma blog_app_blog: "blog_app ''blog''"
  by (simp add: blog_app_def py_lower_def lower_char_def)

theorem blog_environment_enriched_witness:
  "enriched_env (ecs_enrich (\<lambda>v. []) (ecs_deploy_arguments (\<lambda>v. []) (JStr ''us-west-2'') blog_arguments))
     ''DYNAMODB_TABLE'' = Some (JStr ''blog-posts'')
   \<and> enriched_env (ecs_enrich (\<lambda>v. []) (ecs_deploy_arguments (\<lambda>v. []) (JStr ''us-west-2'') blog_arguments))
     ''S3_BUCKET'' = Some (JStr ''blog-images-private-<AWS_ACCOUNT_ID>-us-west-2'')
   \<and> enriched_env (ecs_enrich (\<lambda>v. []) (ecs_deploy_arguments (\<lambda>v. []) (JStr ''us-west-2'') blog_arguments))
     ''AWS_REGION'' = Some (JStr ''us-west-2'')
   \<and> enriched_env (eks_enrich (\<lambda>v. []) (JStr ''eu-north-1'') (eks_deploy_arguments (\<lambda>v. []) blog_arguments))
     ''DYNAMODB_TABLE'' = Some (JStr ''blog-posts'')
   \<and> enriched_env (eks_enrich (\<lambda>v. []) (JStr ''eu-north-1'') (eks_deploy_arguments (\<lambda>v. []) blog_arguments))
     ''AWS_REGION'' = Some (JStr ''eu-north-1'')"
proof -
  let ?env = "[(''DYNAMODB_TABLE'', JStr ''their-table''), (''PORT'', JStr ''1234'')]"
  have h1: "blog_app ''blog'' \<and> map_of blog_arguments ''app_name'' = Some (JStr ''blog'')
      \<and> da_env_vars (ecs_deploy_arguments (\<lambda>v. []) (JStr ''us-west-2'') blog_arguments) = JDict ?env"
    by (simp add: blog_app_blog blog_arguments_def ecs_deploy_arguments_def get_or_def Let_def)
  have h2: "blog_app ''blog'' \<and> map_of blog_arguments ''app_name'' = Some (JStr ''blog'')
      \<and> da_env_vars (eks_deploy_arguments (\<lambda>v. []) blog_arguments) = JDict ?env"
    by (simp add: blog_app_blog blog_arguments_def eks_deploy_arguments_def get_or_def Let_def)
  note t = blog_environment_enriched [of "''blog''" blog_arguments "\<lambda>v. []" _ ?env]
  from t [of "JStr ''us-west-2''"] h1
  have e1: "ecs_enrich (\<lambda>v. []) (ecs_deploy_arguments (\<lambda>v. []) (JStr ''us-west-2'') blog_arguments) =
        Inr (''blog'',
             JDict (dict_update ?env
                      (ecs_config_env (\<lambda>v. []) (get_or blog_arguments ''region'' (JStr ''us-west-2''))
                         (get_or blog_arguments ''port'' (JStr (cfg_app_port CONFIG))))))"
    and l1: "\<And>k. map_of (dict_update ?env
                        (ecs_config_env (\<lambda>v. []) (get_or blog_arguments ''region'' (JStr ''us-west-2''))
                           (get_or blog_arguments ''port'' (JStr (cfg_app_port CONFIG))))) k =
            (if k = ''AWS_REGION'' then Some (get_or blog_arguments ''region'' (JStr ''us-west-2''))
             else if k = ''DYNAMODB_TABLE'' then Some (JStr (cfg_dynamodb_table CONFIG))
             else if k = ''S3_BUCKET''
             then Some (JStr (cfg_s3_bucket_prefix CONFIG @ ''-'' @ cfg_account_id CONFIG @ ''-''
                              @ py_str (\<lambda>v. []) (get_or blog_arguments ''region'' (JStr ''us-west-2''))))
             else if k = ''COGNITO_USER_POOL_ID'' then Some (JStr (cfg_cognito_user_pool_id CONFIG))
             else if k = ''COGNITO_CLIENT_ID'' then Some (JStr (cfg_cognito_client_id CONFIG))
             else if k = ''PORT''
             then Some (JStr (py_str (\<lambda>v. []) (get_or blog_arguments ''port'' (JStr (cfg_app_port CONFIG)))))
             else map_of ?env k)"
    by blast+
  from t [of "JStr ''eu-north-1''"] h2
  have e2: "eks_enrich (\<lambda>v. []) (JStr ''eu-north-1'') (eks_deploy_arguments (\<lambda>v. []) blog_arguments) =
        Inr (''blog'',
             JDict (dict_update ?env (eks_config_env (\<lambda>v. []) (JStr ''eu-north-1'')
                       (get_or blog_arguments ''port'' (JInt 3000)))))"
    and l2: "\<And>k. map_of (dict_update ?env (eks_config_env (\<lambda>v. []) (JStr ''eu-north-1'')
                       (get_or blog_arguments ''port'' (JInt 3000)))) k =
            (if k = ''AWS_REGION'' then Some (JStr ''eu-north-1'')
             else if k = ''DYNAMODB_TABLE'' then Some (JStr (cfg_dynamodb_table CONFIG))
             else if k = ''S3_BUCKET''
             then Some (JStr (cfg_s3_bucket_prefix CONFIG @ ''-'' @ cfg_account_id CONFIG @ ''-''
                              @ py_str (\<lambda>v. []) (JStr ''eu-north-1'')))
             else if k = ''COGNITO_USER_POOL_ID'' then Some (JStr (cfg_cognito_user_pool_id CONFIG))
             else if k = ''COGNITO_CLIENT_ID'' then Some (JStr (cfg_cognito_client_id CONFIG))
             else if k = ''PORT'' then Some (JStr (py_str (\<lambda>v. []) (get_or blog_arguments ''port'' (JInt 3000))))
             else if k = ''NODE_ENV'' then Some (JStr ''production'')
             else map_of ?env k)"
    by blast+
  show ?thesis
    unfolding enriched_env_def e1 e2
    by (simp only: sum.case prod.case field.simps l1 l2)
       (simp add: CONFIG_def blog_arguments_def get_or_def)
qed

text \<open>
  Claim C10 as stated overwrites \<open>PORT\<close> with the configured value whatever the
  decision holds. For a decision with port 8080 the variable is \<open>8080\<close>, while the
  configured port is 3000.
\<close>

theorem blog_port_counterexample:
  "enriched_env (ecs_enrich (\<lambda>v. []) (ecs_deploy_arguments (\<lambda>v. []) (JStr ''us-west-2'') blog_arguments))
     ''PORT'' = Some (JStr ''8080'')
   \<and> cfg_app_port CONFIG = ''3000''"
  by (simp add: enriched_env_def ecs_enrich_def ecs_deploy_arguments_def blog_arguments_def get_or_def
      blog_app_blog Let_def ecs_config_env_lookup str_int_def digit_char_def CONFIG_def)

lemma demo_build:
  "build_and_push_docker_image (demo_world answer) ''blog'' (JStr ''us-west-2'') =
     (build_error ''ECR login failed: denied'',
      [EcrCreateRepository (JStr ''us-west-2'') ''blog'',
       Subprocess [''aws'', ''ecr'', ''get-login-password'', ''--region'', ''us-west-2'']])"
  by (simp add: build_and_push_docker_image_def build_steps_def create_repository_if_missing_def
      run_process_def io_call_def io_return_def demo_world_def Let_def)


section \<open>The fallback of the express deployment\<close>

lemma io_try_Inl [simp]: "io_try (Inl e, t) h = (fst (h e), t @ snd (h e))"
  by (simp add: io_try_def split: prod.splits)

lemma io_try_Inr [simp]: "io_try (Inr x, t) h = (Inr x, t)"
  by (simp add: io_try_def)

lemma io_call_pair [simp]: "io_call ef r = (r, [ef])"
  by (simp add: io_call_def)

lemma submit_express_fallback:
  assumes "dict_items env_vars = Inr env_items"
    "lw_create_express lw region
       (express_request (lw_repr lw) service_name image_uri env_items cpu memory port region subnet_ids)
     = Inl express_error"
  shows "submit_express lw account_id service_name image_uri env_vars cpu memory port region vpc_id subnet_ids =
     (case lw_create_stack lw region (py_str (lw_repr lw) service_name @ ''-alb-stack'')
             (fallback_template (lw_repr lw) account_id service_name image_uri env_items cpu memory port
                region vpc_id subnet_ids) of
        Inr u \<Rightarrow> Inr (create_response (lw_dumps lw) 200
                        (fallback_body (lw_repr lw) service_name port vpc_id subnet_ids))
      | Inl e \<Rightarrow> Inl e,
      [CreateExpressGatewayService
         (express_request (lw_repr lw) service_name image_uri env_items cpu memory port region subnet_ids),
       Cfn region (CreateStack (py_str (lw_repr lw) service_name @ ''-alb-stack'')
          (fallback_template (lw_repr lw) account_id service_name image_uri env_items cpu memory port
             region vpc_id subnet_ids))])"
  using assms
  by (simp add: submit_express_def Let_def io_return_def split: sum.splits)

lemma fallback_resource_types:
  "resource_types (fallback_template repr account_id service_name image_uri env_items cpu memory port
      region vpc_id subnet_ids) =
     [(''ECSCluster'', Some (JStr ''AWS::ECS::Cluster'')),
      (''ALBSecurityGroup'', Some (JStr ''AWS::EC2::SecurityGroup'')),
      (''ECSTaskSecurityGroup'', Some (JStr ''AWS::EC2::SecurityGroup'')),
      (''ApplicationLoadBalancer'', Some (JStr ''AWS::ElasticLoadBalancingV2::LoadBalancer'')),
      (''TargetGroup'', Some (JStr ''AWS::ElasticLoadBalancingV2::TargetGroup'')),
      (''ALBListener'', Some (JStr ''AWS::ElasticLoadBalancingV2::Listener'')),
      (''TaskDefinition'', Some (JStr ''AWS::ECS::TaskDefinition'')),
      (''ECSService'', Some (JStr ''AWS::ECS::Service''))]"
  by (simp add: resource_types_def fallback_template_def fallback_resources_def Let_def)

lemma fallback_body_status:
  "field ''status'' (fallback_body repr service_name port vpc_id subnet_ids) = Some (JStr ''success'')
   \<and> field ''deployment_status'' (fallback_body repr service_name port vpc_id subnet_ids)
       = Some (JStr ''in_progress'')"
  by (simp add: fallback_body_def Let_def)

text \<open>
  Claim C8, as the code has it. Take a request with a service name and an image, whose
  account and network are resolved and whose environment is a dictionary, and let the
  express gateway API raise. The handler then submits the fallback template (cluster, two
  security groups, load balancer, target group, listener, task definition, service) as
  the stack named after the service. When CloudFormation accepts the stack, the response
  is 200 with status \<open>success\<close> and deployment status \<open>in_progress\<close>; when
  \<open>create_stack\<close> raises, the response is 500 with the message of the exception.
\<close>

theorem express_fallback:
  assumes "service_name = get_or request_data ''service_name'' JNull"
    and "image_uri = get_or request_data ''image_uri'' JNull"
    and "cpu = get_or request_data ''cpu'' (JStr ''256'')"
    and "memory = get_or request_data ''memory'' (JStr ''512'')"
    and "port = get_or request_data ''port'' (JInt 3000)"
    and "region = get_or request_data ''region'' (JStr ''us-west-2'')"
    and "truthy service_name" and "truthy image_uri"
    and "lw_account lw = Inr account_id"
    and "discover_network lw region (get_or request_data ''vpc_id'' JNull)
           (get_or request_data ''subnet_ids'' JNull) = (Inr (Inr (vpc_id, subnet_ids)), found)"
    and "get_or request_data ''environment_vars'' (JDict []) = JDict env_items"
    and "request = express_request (lw_repr lw) service_name image_uri env_items cpu memory port region
                     subnet_ids"
    and "lw_create_express lw region request = Inl express_error"
    and "template = fallback_template (lw_repr lw) account_id service_name image_uri env_items cpu memory
                      port region vpc_id subnet_ids"
    and "stack_name = py_str (lw_repr lw) service_name @ ''-alb-stack''"
  shows "(lw_create_stack lw region stack_name template = Inr () \<longrightarrow>
            handle_deploy_ecs_express_service lw request_data =
              (create_response (lw_dumps lw) 200
                 (fallback_body (lw_repr lw) service_name port vpc_id subnet_ids),
               GetCallerIdentity # found
               @ [CreateExpressGatewayService request, Cfn region (CreateStack stack_name template)]))
         \<and> (\<forall>e. lw_create_stack lw region stack_name template = Inl e \<longrightarrow>
            handle_deploy_ecs_express_service lw request_data =
              (create_response (lw_dumps lw) 500
                 (JDict [(''error'', JStr (''Failed to deploy service: '' @ str_exn e))]),
               GetCallerIdentity # found
               @ [CreateExpressGatewayService request, Cfn region (CreateStack stack_name template)]))
         \<and> field ''status'' (fallback_body (lw_repr lw) service_name port vpc_id subnet_ids)
             = Some (JStr ''success'')
         \<and> field ''deployment_status'' (fallback_body (lw_repr lw) service_name port vpc_id subnet_ids)
             = Some (JStr ''in_progress'')
         \<and> resource_types template =
             [(''ECSCluster'', Some (JStr ''AWS::ECS::Cluster'')),
              (''ALBSecurityGroup'', Some (JStr ''AWS::EC2::SecurityGroup'')),
              (''ECSTaskSecurityGroup'', Some (JStr ''AWS::EC2::SecurityGroup'')),
              (''ApplicationLoadBalancer'', Some (JStr ''AWS::ElasticLoadBalancingV2::LoadBalancer'')),
              (''TargetGroup'', Some (JStr ''AWS::ElasticLoadBalancingV2::TargetGroup'')),
              (''ALBListener'', Some (JStr ''AWS::ElasticLoadBalancingV2::Listener'')),
              (''TaskDefinition'', Some (JStr ''AWS::ECS::TaskDefinition'')),
              (''ECSService'', Some (JStr ''AWS::ECS::Service''))]"
proof -
  have items: "dict_items (get_or request_data ''environment_vars'' (JDict [])) = Inr env_items"
    using assms(11) by (simp add: dict_items_def)
  have sub: "submit_express lw account_id service_name image_uri
               (get_or request_data ''environment_vars'' (JDict [])) cpu memory port region vpc_id subnet_ids =
     (case lw_create_stack lw region stack_name template of
        Inr u \<Rightarrow> Inr (create_response (lw_dumps lw) 200
                        (fallback_body (lw_repr lw) service_name port vpc_id subnet_ids))
      | Inl e \<Rightarrow> Inl e,
      [CreateExpressGatewayService request, Cfn region (CreateStack stack_name template)])"
    using submit_express_fallback [OF items, of lw region service_name image_uri cpu memory port subnet_ids
        express_error account_id vpc_id] assms(12-15)
    by simp
  have run: "handle_deploy_ecs_express_service lw request_data =
      io_catch
        (case lw_create_stack lw region stack_name template of
           Inr u \<Rightarrow> Inr (create_response (lw_dumps lw) 200
                           (fallback_body (lw_repr lw) service_name port vpc_id subnet_ids))
         | Inl e \<Rightarrow> Inl e,
         GetCallerIdentity # found
         @ [CreateExpressGatewayService request, Cfn region (CreateStack stack_name template)])
        (\<lambda>e. create_response (lw_dumps lw) 500
                (JDict [(''error'', JStr (''Failed to deploy service: '' @ str_exn e))]))"
    using assms(1-10) sub
    by (simp add: handle_deploy_ecs_express_service_def Let_def io_bind_def)
  show ?thesis
    using run fallback_resource_types fallback_body_status assms(14)
    by (auto simp: io_catch_def)
qed


lemma demo_network:
  "discover_network (demo_lambda_world taken) (JStr ''us-west-2'') (JStr ''vpc-1'')
     (JList [JStr ''subnet-1'', JStr ''subnet-2'']) =
     (Inr (Inr (JStr ''vpc-1'', JList [JStr ''subnet-1'', JStr ''subnet-2''])), [])"
  by (simp add: discover_network_def io_return_def)

theorem express_fallback_witness:
  "field ''statusCode'' (fst (handle_deploy_ecs_express_service (demo_lambda_world []) demo_request))
     = Some (JInt 200)
   \<and> length (snd (handle_deploy_ecs_express_service (demo_lambda_world []) demo_request)) = 3
   \<and> field ''statusCode''
        (fst (handle_deploy_ecs_express_service (demo_lambda_world [''blog-alb-stack'']) demo_request))
     = Some (JInt 500)"
proof -
  let ?sn = "JStr ''blog''"
  let ?img = "JStr ''<AWS_ACCOUNT_ID>.dkr.ecr.us-west-2.amazonaws.com/blog:latest''"
  let ?subnets = "JList [JStr ''subnet-1'', JStr ''subnet-2'']"
  have g: "get_or demo_request ''service_name'' JNull = ?sn"
    "get_or demo_request ''image_uri'' JNull = ?img"
    "get_or demo_request ''cpu'' (JStr ''256'') = JStr ''256''"
    "get_or demo_request ''memory'' (JStr ''512'') = JStr ''512''"
    "get_or demo_request ''port'' (JInt 3000) = JInt 3000"
    "get_or demo_request ''region'' (JStr ''us-west-2'') = JStr ''us-west-2''"
    "get_or demo_request ''vpc_id'' JNull = JStr ''vpc-1''"
    "get_or demo_request ''subnet_ids'' JNull = ?subnets"
    "get_or demo_request ''environment_vars'' (JDict []) = JDict []"
    by (simp_all add: get_or_def demo_request_def)
  have run: "lw_create_stack (demo_lambda_world taken) (JStr ''us-west-2'') ''blog-alb-stack'' template
               = (if ''blog-alb-stack'' \<in> set taken
                  then Inl (ClientError (''Stack ['' @ ''blog-alb-stack'' @ ''] already exists''))
                  else Inr ())" for taken template
    by (simp add: demo_lambda_world_def)
  note t = express_fallback [where request_data = demo_request and service_name = ?sn and image_uri = ?img
      and cpu = "JStr ''256''" and memory = "JStr ''512''" and port = "JInt 3000"
      and region = "JStr ''us-west-2''" and account_id = "''123456789012''"
      and vpc_id = "JStr ''vpc-1''" and subnet_ids = ?subnets and found = "[]" and env_items = "[]"
      and express_error = "PyException ''Unknown operation: CreateExpressGatewayService''"
      and stack_name = "''blog-alb-stack''", OF _ _ _ _ _ _ _ _ _ _ _ refl _ refl]
  have ok: "handle_deploy_ecs_express_service (demo_lambda_world []) demo_request =
      (create_response (lw_dumps (demo_lambda_world [])) 200
         (fallback_body (lw_repr (demo_lambda_world [])) ?sn (JInt 3000) (JStr ''vpc-1'') ?subnets),
       GetCallerIdentity # []
       @ [CreateExpressGatewayService
            (express_request (lw_repr (demo_lambda_world [])) ?sn ?img [] (JStr ''256'') (JStr ''512'')
               (JInt 3000) (JStr ''us-west-2'') ?subnets),
          Cfn (JStr ''us-west-2'')
            (CreateStack ''blog-alb-stack''
               (fallback_template (lw_repr (demo_lambda_world [])) ''123456789012'' ?sn ?img []
                  (JStr ''256'') (JStr ''512'') (JInt 3000) (JStr ''us-west-2'') (JStr ''vpc-1'') ?subnets))])"
    using t [of "demo_lambda_world []"] g demo_network [of "[]"] run [of "[]"]
    by (simp add: demo_lambda_world_def)
  have refused: "handle_deploy_ecs_express_service (demo_lambda_world [''blog-alb-stack'']) demo_request =
      (create_response (lw_dumps (demo_lambda_world [''blog-alb-stack''])) 500
         (JDict [(''error'', JStr (''Failed to deploy service: ''
                   @ str_exn (ClientError (''Stack ['' @ ''blog-alb-stack'' @ ''] already exists''))))]),
       GetCallerIdentity # []
       @ [CreateExpressGatewayService
            (express_request (lw_repr (demo_lambda_world [''blog-alb-stack''])) ?sn ?img [] (JStr ''256'')
               (JStr ''512'') (JInt 3000) (JStr ''us-west-2'') ?subnets),
          Cfn (JStr ''us-west-2'')
            (CreateStack ''blog-alb-stack''
               (fallback_template (lw_repr (demo_lambda_world [''blog-alb-stack''])) ''123456789012'' ?sn
                  ?img [] (JStr ''256'') (JStr ''512'') (JInt 3000) (JStr ''us-west-2'') (JStr ''vpc-1'')
                  ?subnets))])"
    using t [of "demo_lambda_world [''blog-alb-stack'']"] g demo_network [of "[''blog-alb-stack'']"]
      run [of "[''blog-alb-stack'']"]
    by (simp add: demo_lambda_world_def)
  show ?thesis
    by (simp add: ok refused create_response_def)
qed

text \<open>
  Claim C8 as stated returns a success response whenever the express gateway API raises.
  With the stack of the service already there, the API raises, the fallback stack is
  refused, and the response is 500.
\<close>

theorem fallback_refused_counterexample:
  "field ''statusCode''
     (fst (handle_deploy_ecs_express_service (demo_lambda_world [''blog-alb-stack'']) demo_request))
     = Some (JInt 500)
   \<and> snd (handle_deploy_ecs_express_service (demo_lambda_world [''blog-alb-stack'']) demo_request) =
       [GetCallerIdentity,
        CreateExpressGatewayService
          (express_request (\<lambda>v. ''<repr>'') (JStr ''blog'')
             (JStr ''<AWS_ACCOUNT_ID>.dkr.ecr.us-west-2.amazonaws.com/blog:latest'') []
             (JStr ''256'') (JStr ''512'') (JInt 3000) (JStr ''us-west-2'')
             (JList [JStr ''subnet-1'', JStr ''subnet-2''])),
        Cfn (JStr ''us-west-2'')
          (CreateStack ''blog-alb-stack''
             (fallback_template (\<lambda>v. ''<repr>'') ''123456789012'' (JStr ''blog'')
                (JStr ''<AWS_ACCOUNT_ID>.dkr.ecr.us-west-2.amazonaws.com/blog:latest'') []
                (JStr ''256'') (JStr ''512'') (JInt 3000) (JStr ''us-west-2'') (JStr ''vpc-1'')
                (JList [JStr ''subnet-1'', JStr ''subnet-2''])))]"
proof -
  have items: "dict_items (JDict []) = Inr []" by (simp add: dict_items_def)
  have sub: "submit_express (demo_lambda_world [''blog-alb-stack'']) ''123456789012'' (JStr ''blog'')
      (JStr ''<AWS_ACCOUNT_ID>.dkr.ecr.us-west-2.amazonaws.com/blog:latest'') (JDict [])
      (JStr ''256'') (JStr ''512'') (JInt 3000) (JStr ''us-west-2'') (JStr ''vpc-1'')
      (JList [JStr ''subnet-1'', JStr ''subnet-2'']) =
      (Inl (ClientError (''Stack ['' @ ''blog-alb-stack'' @ ''] already exists'')),
       [CreateExpressGatewayService
          (express_request (\<lambda>v. ''<repr>'') (JStr ''blog'')
             (JStr ''<AWS_ACCOUNT_ID>.dkr.ecr.us-west-2.amazonaws.com/blog:latest'') []
             (JStr ''256'') (JStr ''512'') (JInt 3000) (JStr ''us-west-2'')
             (JList [JStr ''subnet-1'', JStr ''subnet-2''])),
        Cfn (JStr ''us-west-2'')
          (CreateStack ''blog-alb-stack''
             (fallback_template (\<lambda>v. ''<repr>'') ''123456789012'' (JStr ''blog'')
                (JStr ''<AWS_ACCOUNT_ID>.dkr.ecr.us-west-2.amazonaws.com/blog:latest'') []
                (JStr ''256'') (JStr ''512'') (JInt 3000) (JStr ''us-west-2'') (JStr ''vpc-1'')
                (JList [JStr ''subnet-1'', JStr ''subnet-2''])))])"
    by (subst submit_express_fallback [OF items]) (simp_all add: demo_lambda_world_def)
  show ?thesis
    using sub demo_network [of "[''blog-alb-stack'']"]
    by (simp add: handle_deploy_ecs_express_service_def demo_request_def get_or_def Let_def io_bind_def
        io_catch_def create_response_def demo_lambda_world_def)
qed

end
